theory Spec2Isabelle
  imports Main "HOL-Library.Word"
begin

section \<open>JavaScript strings\<close>

text \<open>
  File contents, template texts and paths are modelled as \<^typ>\<open>string\<close>, one
  \<^typ>\<open>char\<close> per code unit. Only code units below 256 are representable, so of the
  ECMAScript line terminators and white space only those in that range occur.
\<close>

definition isLineTerminator :: "char \<Rightarrow> bool" where
  "isLineTerminator c = (c = CHR 0x0A \<or> c = CHR 0x0D)"

definition isWhiteSpace :: "char \<Rightarrow> bool" where
  "isWhiteSpace c =
     (c = CHR 0x09 \<or> c = CHR 0x0A \<or> c = CHR 0x0B \<or> c = CHR 0x0C \<or> c = CHR 0x0D
      \<or> c = CHR 0x20 \<or> c = CHR 0xA0)"

definition trim :: "string \<Rightarrow> string" where
  "trim s = rev (dropWhile isWhiteSpace (rev (dropWhile isWhiteSpace s)))"

definition startsWith :: "string \<Rightarrow> string \<Rightarrow> bool" where
  "startsWith s w = (take (length w) s = w)"

definition endsWith :: "string \<Rightarrow> string \<Rightarrow> bool" where
  "endsWith s w = startsWith (rev s) (rev w)"

definition substring :: "string \<Rightarrow> nat \<Rightarrow> nat \<Rightarrow> string" where
  "substring s a b = take (max a b - min a b) (drop (min a b) s)"

text \<open>\<open>indexOfFrom i s w\<close> is the least position \<open>p \<ge> i\<close> at which \<open>w\<close> occurs,
  given that \<open>s\<close> is the text from position \<open>i\<close> on.\<close>

fun indexOfFrom :: "nat \<Rightarrow> string \<Rightarrow> string \<Rightarrow> nat option" where
  "indexOfFrom i [] w = (if w = [] then Some i else None)"
| "indexOfFrom i (x # xs) w =
     (if startsWith (x # xs) w then Some i else indexOfFrom (Suc i) xs w)"

definition indexOf :: "string \<Rightarrow> string \<Rightarrow> nat option" where
  "indexOf s w = indexOfFrom 0 s w"

definition includesStr :: "string \<Rightarrow> string \<Rightarrow> bool" where
  "includesStr s w = (indexOf s w \<noteq> None)"

fun lastIndexOfFrom :: "nat \<Rightarrow> string \<Rightarrow> string \<Rightarrow> nat option" where
  "lastIndexOfFrom i [] w = (if w = [] then Some i else None)"
| "lastIndexOfFrom i (x # xs) w =
     (case lastIndexOfFrom (Suc i) xs w of
        Some p \<Rightarrow> Some p
      | None \<Rightarrow> if startsWith (x # xs) w then Some i else None)"

definition lastIndexOf :: "string \<Rightarrow> string \<Rightarrow> nat option" where
  "lastIndexOf s w = lastIndexOfFrom 0 s w"

text \<open>\<open>s.split(c)\<close> for a one-character separator.\<close>

fun split :: "char \<Rightarrow> string \<Rightarrow> string list" where
  "split c [] = [[]]"
| "split c (x # xs) =
     (if x = c then [] # split c xs
      else (case split c xs of [] \<Rightarrow> [[x]] | w # ws \<Rightarrow> (x # w) # ws))"

fun join :: "string \<Rightarrow> string list \<Rightarrow> string" where
  "join sep [] = []"
| "join sep [w] = w"
| "join sep (w # v # ws) = w @ sep @ join sep (v # ws)"

section \<open>Regular expressions\<close>

text \<open>
  The patterns of the repository are written in the following fragment of ECMAScript
  regular expressions. Flags are resolved when a pattern is transcribed: \<open>.\<close> is
  \<open>CDot\<close> without the \<open>s\<close> flag and \<open>CAny\<close> with it, \<open>^\<close> and \<open>$\<close> are \<open>Bol\<close> and
  \<open>Eol\<close> under the \<open>m\<close> flag, and \<open>$\<close> is \<open>Eoi\<close> without it.
\<close>

datatype cclass =
    CAny            \<comment> \<open>\<open>[^]\<close>, \<open>[\s\S]\<close>, and \<open>.\<close> under the \<open>s\<close> flag\<close>
  | CDot            \<comment> \<open>\<open>.\<close>: anything but a line terminator\<close>
  | CSpace          \<comment> \<open>\<open>\s\<close>\<close>
  | CNot char       \<comment> \<open>\<open>[^c]\<close>\<close>

fun inClass :: "cclass \<Rightarrow> char \<Rightarrow> bool" where
  "inClass CAny c = True"
| "inClass CDot c = (\<not> isLineTerminator c)"
| "inClass CSpace c = isWhiteSpace c"
| "inClass (CNot d) c = (c \<noteq> d)"

datatype regex =
    Lit string             \<comment> \<open>a run of literal characters\<close>
  | Atom cclass            \<comment> \<open>one character of a class\<close>
  | Eps                    \<comment> \<open>the empty pattern\<close>
  | Seq regex regex
  | Alt regex regex        \<comment> \<open>\<open>a|b\<close>, left alternative first\<close>
  | Star regex             \<comment> \<open>\<open>a*\<close>, greedy\<close>
  | Lazy regex             \<comment> \<open>\<open>a*?\<close>, lazy\<close>
  | Cap nat regex          \<comment> \<open>capture group number \<open>n\<close>\<close>
  | Bol                    \<comment> \<open>\<open>^\<close> under \<open>m\<close>\<close>
  | Eol                    \<comment> \<open>\<open>$\<close> under \<open>m\<close>\<close>
  | Eoi                    \<comment> \<open>\<open>$\<close> without \<open>m\<close>\<close>

definition Plus :: "regex \<Rightarrow> regex" where
  "Plus a = Seq a (Star a)"

definition Opt :: "regex \<Rightarrow> regex" where
  "Opt a = Alt a Eps"

fun seqs :: "regex list \<Rightarrow> regex" where
  "seqs [] = Eps"
| "seqs [a] = a"
| "seqs (a # b # bs) = Seq a (seqs (b # bs))"

text \<open>
  A matcher state is the end index, the text from there on, and the capture list
  (group number, start, end), latest first. Matching is the backtracking algorithm of
  the language definition: a matcher takes a state and a continuation, and the
  alternatives are tried in priority order.
\<close>

type_synonym captures = "(nat \<times> nat \<times> nat) list"
type_synonym mstate = "nat \<times> string \<times> captures"
type_synonym mcont = "mstate \<Rightarrow> mstate option"
type_synonym matcher = "mstate \<Rightarrow> mcont \<Rightarrow> mstate option"

text \<open>The repeat matcher: an iteration that consumes nothing is rejected. The fuel
  bounds the number of iterations; it is a list one longer than the remaining text.\<close>

fun repeatGreedy :: "string \<Rightarrow> matcher \<Rightarrow> matcher" where
  "repeatGreedy [] m (i, rest, cs) k = k (i, rest, cs)"
| "repeatGreedy (c # fuel) m (i, rest, cs) k =
     (case m (i, rest, cs) (\<lambda>st'. if i < fst st' then repeatGreedy fuel m st' k else None) of
        Some r \<Rightarrow> Some r
      | None \<Rightarrow> k (i, rest, cs))"

fun repeatLazy :: "string \<Rightarrow> matcher \<Rightarrow> matcher" where
  "repeatLazy [] m (i, rest, cs) k = k (i, rest, cs)"
| "repeatLazy (c # fuel) m (i, rest, cs) k =
     (case k (i, rest, cs) of
        Some r \<Rightarrow> Some r
      | None \<Rightarrow> m (i, rest, cs) (\<lambda>st'. if i < fst st' then repeatLazy fuel m st' k else None))"

fun rmatch :: "regex \<Rightarrow> string \<Rightarrow> matcher" where
  "rmatch (Lit w) inp (i, rest, cs) k =
     (if startsWith rest w then k (i + length w, drop (length w) rest, cs) else None)"
| "rmatch (Atom c) inp (i, rest, cs) k =
     (case rest of [] \<Rightarrow> None
      | x # xs \<Rightarrow> if inClass c x then k (Suc i, xs, cs) else None)"
| "rmatch Eps inp (i, rest, cs) k = k (i, rest, cs)"
| "rmatch (Seq a b) inp (i, rest, cs) k =
     rmatch a inp (i, rest, cs) (\<lambda>st'. rmatch b inp st' k)"
| "rmatch (Alt a b) inp (i, rest, cs) k =
     (case rmatch a inp (i, rest, cs) k of
        Some r \<Rightarrow> Some r
      | None \<Rightarrow> rmatch b inp (i, rest, cs) k)"
| "rmatch (Star a) inp (i, rest, cs) k =
     repeatGreedy (CHR 0x00 # rest) (\<lambda>st' k'. rmatch a inp st' k') (i, rest, cs) k"
| "rmatch (Lazy a) inp (i, rest, cs) k =
     repeatLazy (CHR 0x00 # rest) (\<lambda>st' k'. rmatch a inp st' k') (i, rest, cs) k"
| "rmatch (Cap n a) inp (i, rest, cs) k =
     rmatch a inp (i, rest, cs)
       (\<lambda>st'. case st' of (j, rest', cs') \<Rightarrow> k (j, rest', (n, i, j) # cs'))"
| "rmatch Bol inp (i, rest, cs) k =
     (if i = 0 \<or> isLineTerminator (inp ! (i - 1)) then k (i, rest, cs) else None)"
| "rmatch Eol inp (i, rest, cs) k =
     (case rest of [] \<Rightarrow> k (i, rest, cs)
      | x # xs \<Rightarrow> if isLineTerminator x then k (i, rest, cs) else None)"
| "rmatch Eoi inp (i, rest, cs) k =
     (case rest of [] \<Rightarrow> k (i, rest, cs) | x # xs \<Rightarrow> None)"

text \<open>A match result: start index, end index and captures.\<close>

type_synonym rmatch_result = "nat \<times> nat \<times> captures"

text \<open>\<open>searchFrom r inp i rest\<close> tries every start position from \<open>i\<close> on, in order;
  \<open>rest\<close> is the text from \<open>i\<close> on.\<close>

fun searchFrom :: "regex \<Rightarrow> string \<Rightarrow> nat \<Rightarrow> string \<Rightarrow> rmatch_result option" where
  "searchFrom r inp i [] =
     (case rmatch r inp (i, [], []) Some of
        Some (e, rest', cs) \<Rightarrow> Some (i, e, cs)
      | None \<Rightarrow> None)"
| "searchFrom r inp i (x # xs) =
     (case rmatch r inp (i, x # xs, []) Some of
        Some (e, rest', cs) \<Rightarrow> Some (i, e, cs)
      | None \<Rightarrow> searchFrom r inp (Suc i) xs)"

definition regexExec :: "regex \<Rightarrow> string \<Rightarrow> nat \<Rightarrow> rmatch_result option" where
  "regexExec r inp lastIndex =
     (if length inp < lastIndex then None else searchFrom r inp lastIndex (drop lastIndex inp))"

definition matched :: "string \<Rightarrow> rmatch_result \<Rightarrow> string" where
  "matched inp m = (case m of (p, e, cs) \<Rightarrow> substring inp p e)"

text \<open>The text of capture group \<open>n\<close>, \<open>None\<close> for a group that did not take part
  (\<open>undefined\<close> in the match array).\<close>

definition capture :: "string \<Rightarrow> rmatch_result \<Rightarrow> nat \<Rightarrow> string option" where
  "capture inp m n =
     (case m of (p, e, cs) \<Rightarrow>
        (case map_of cs n of None \<Rightarrow> None | Some (a, b) \<Rightarrow> Some (substring inp a b)))"

text \<open>\<open>s.match(r)\<close> and \<open>r.test(s)\<close> for a pattern without the \<open>g\<close> flag.\<close>

definition regexMatch :: "regex \<Rightarrow> string \<Rightarrow> rmatch_result option" where
  "regexMatch r inp = regexExec r inp 0"

definition regexTest :: "regex \<Rightarrow> string \<Rightarrow> bool" where
  "regexTest r inp = (regexMatch r inp \<noteq> None)"

text \<open>
  All matches of a pattern with the \<open>g\<close> flag, as \<open>s.match(r)\<close> and \<open>s.replace(r, f)\<close>
  enumerate them: the search resumes at \<open>lastIndex\<close>, which is the end of the previous
  match, or one more after an empty match. \<open>i\<close> is the position under scan and \<open>rest\<close>
  the text from there on.
\<close>

fun matchAllFrom :: "regex \<Rightarrow> string \<Rightarrow> nat \<Rightarrow> nat \<Rightarrow> string \<Rightarrow> rmatch_result list" where
  "matchAllFrom r inp lastIndex i [] =
     (if i < lastIndex then []
      else (case rmatch r inp (i, [], []) Some of
              Some (e, rest', cs) \<Rightarrow> [(i, e, cs)]
            | None \<Rightarrow> []))"
| "matchAllFrom r inp lastIndex i (x # xs) =
     (if i < lastIndex then matchAllFrom r inp lastIndex (Suc i) xs
      else (case rmatch r inp (i, x # xs, []) Some of
              Some (e, rest', cs) \<Rightarrow>
                (i, e, cs) # matchAllFrom r inp (if e = i then Suc e else e) (Suc i) xs
            | None \<Rightarrow> matchAllFrom r inp lastIndex (Suc i) xs))"

definition matchAll :: "regex \<Rightarrow> string \<Rightarrow> rmatch_result list" where
  "matchAll r inp = matchAllFrom r inp 0 0 inp"

text \<open>The exception that the code of the repository can meet where it is modelled: a
  \<open>TypeError\<close>, raised by a property read on \<open>undefined\<close> or \<open>null\<close> and by the conversion
  of an object that has no usable \<open>toString\<close> and \<open>valueOf\<close>. A function that can raise
  returns \<open>Inl TypeError\<close> then.\<close>

datatype error = TypeError

text \<open>\<open>s.replace(r, f)\<close> for a pattern with the \<open>g\<close> flag and a replacer function, which
  receives the match: the text between the matches is copied, each match is replaced
  by the function's result. An exception of the replacer leaves \<open>replace\<close>.\<close>

fun replaceMatches :: "string \<Rightarrow> (rmatch_result \<Rightarrow> error + string) \<Rightarrow> nat \<Rightarrow> rmatch_result list
    \<Rightarrow> error + string" where
  "replaceMatches inp f nextSourcePosition [] = Inr (drop nextSourcePosition inp)"
| "replaceMatches inp f nextSourcePosition ((p, e, cs) # ms) =
     (if nextSourcePosition \<le> p
      then (case f (p, e, cs) of
              Inl err \<Rightarrow> Inl err
            | Inr replacement \<Rightarrow>
                (case replaceMatches inp f e ms of
                   Inl err \<Rightarrow> Inl err
                 | Inr following \<Rightarrow>
                     Inr (substring inp nextSourcePosition p @ replacement @ following)))
      else replaceMatches inp f nextSourcePosition ms)"

definition replaceAllFn :: "regex \<Rightarrow> string \<Rightarrow> (rmatch_result \<Rightarrow> error + string) \<Rightarrow> error + string" where
  "replaceAllFn r inp f = replaceMatches inp f 0 (matchAll r inp)"

text \<open>\<open>s.replace(r, f)\<close> for a pattern without the \<open>g\<close> flag: the first match only.\<close>

definition replaceFn :: "regex \<Rightarrow> string \<Rightarrow> (rmatch_result \<Rightarrow> string) \<Rightarrow> string" where
  "replaceFn r inp f =
     (case regexMatch r inp of
        None \<Rightarrow> inp
      | Some (p, e, cs) \<Rightarrow> take p inp @ f (p, e, cs) @ drop e inp)"

section \<open>Values of the template context\<close>

text \<open>
  The context is a tree of JavaScript values. \<open>JNum\<close> is a number that is an integer from
  \<open>-2\<^sup>5\<^sup>3\<close> to \<open>2\<^sup>5\<^sup>3 - 1\<close>; such a number is printed with all its digits. \<open>JObj\<close> is a
  plain object, given by the list of its own data properties (the first binding of a
  key counts); \<open>JArr\<close> is an array, given by its elements. Every other value, that is a
  number that is not such an integer, a function, a symbol, an object with a prototype
  of its own, is \<open>JNative\<close>; what can be observed of it is given by the runtime.

  The runtime \<open>rt\<close> supplies what the language leaves to the environment or what depends
  on its version: \<open>inherited rt v key\<close> is the value of \<open>v[key]\<close> for a key that is no own
  property of \<open>v\<close> and is found (or not, then \<open>undefined\<close>) along the prototype chain of
  \<open>v\<close>; \<open>nativeToString\<close> and \<open>nativeTruthy\<close> are \<open>String(v)\<close> and the truth value of a
  native value; \<open>methodsToString\<close> is \<open>String(v)\<close> for a plain object that holds a function
  as its own \<open>toString\<close> or \<open>valueOf\<close>. Every property below is stated for all runtimes.
\<close>

datatype 'n jsval =
    JUndefined
  | JNull
  | JBool bool
  | JNum "54 word"
  | JStr string
  | JArr "'n jsval list"
  | JObj "(string \<times> 'n jsval) list"
  | JNative 'n

record 'n runtime =
  inherited :: "'n jsval \<Rightarrow> string \<Rightarrow> 'n jsval"
  nativeToString :: "'n \<Rightarrow> error + string"
  nativeTruthy :: "'n \<Rightarrow> bool"
  methodsToString :: "(string \<times> 'n jsval) list \<Rightarrow> error + string"

fun isUndefined :: "'n jsval \<Rightarrow> bool" where
  "isUndefined JUndefined = True"
| "isUndefined v = False"

fun isNull :: "'n jsval \<Rightarrow> bool" where
  "isNull JNull = True"
| "isNull v = False"

fun isNative :: "'n jsval \<Rightarrow> bool" where
  "isNative (JNative n) = True"
| "isNative v = False"

function natToString :: "nat \<Rightarrow> string" where
  "natToString n =
     (if n < 10 then [char_of (48 + n)]
      else natToString (n div 10) @ [char_of (48 + n mod 10)])"
  by pat_completeness auto
termination
  by (relation "measure id") auto

declare natToString.simps [simp del]

definition intToString :: "int \<Rightarrow> string" where
  "intToString i = (if i < 0 then CHR ''-'' # natToString (nat (- i)) else natToString (nat i))"

text \<open>The texts of the elements of an array joined by a separator; the first
  exception of a conversion leaves \<open>join\<close>.\<close>

fun joinResults :: "string \<Rightarrow> (error + string) list \<Rightarrow> error + string" where
  "joinResults sep [] = Inr []"
| "joinResults sep [r] = r"
| "joinResults sep (r # q # rs) =
     (case r of
        Inl err \<Rightarrow> Inl err
      | Inr w \<Rightarrow>
          (case joinResults sep (q # rs) of
             Inl err \<Rightarrow> Inl err
           | Inr following \<Rightarrow> Inr (w @ sep @ following)))"

text \<open>
  \<open>String(value)\<close>. An array is converted by \<open>join\<close>, in which \<open>undefined\<close> and \<open>null\<close>
  elements give the empty text. A plain object without an own \<open>toString\<close> is converted
  by \<open>Object.prototype.toString\<close>. With an own \<open>toString\<close> that is no function, the
  conversion goes on to \<open>valueOf\<close> and raises when that is no function of the object's own
  either (the inherited \<open>valueOf\<close> returns the object); own functions are run by the
  runtime.
\<close>

fun toString :: "'n runtime \<Rightarrow> 'n jsval \<Rightarrow> error + string" where
  "toString rt JUndefined = Inr ''undefined''"
| "toString rt JNull = Inr ''null''"
| "toString rt (JBool b) = Inr (if b then ''true'' else ''false'')"
| "toString rt (JNum n) = Inr (intToString (sint n))"
| "toString rt (JStr s) = Inr s"
| "toString rt (JArr xs) =
     joinResults '',''
       (map (\<lambda>x. if isUndefined x \<or> isNull x then Inr [] else toString rt x) xs)"
| "toString rt (JObj kvs) =
     (case map_of kvs ''toString'' of
        None \<Rightarrow> Inr ''[object Object]''
      | Some t \<Rightarrow>
          if isNative t then methodsToString rt kvs
          else (case map_of kvs ''valueOf'' of
                  None \<Rightarrow> Inl TypeError
                | Some u \<Rightarrow> if isNative u then methodsToString rt kvs else Inl TypeError))"
| "toString rt (JNative n) = nativeToString rt n"

definition arrayIndex :: "nat \<Rightarrow> string \<Rightarrow> nat option" where
  "arrayIndex n key = List.find (\<lambda>i. natToString i = key) [0..<n]"

text \<open>The names of the members of \<open>Object.prototype\<close>, which every plain object
  inherits.\<close>

definition objectPrototypeKeys :: "string list" where
  "objectPrototypeKeys =
     [''constructor'', ''__defineGetter__'', ''__defineSetter__'', ''hasOwnProperty'',
      ''__lookupGetter__'', ''__lookupSetter__'', ''isPrototypeOf'', ''propertyIsEnumerable'',
      ''toString'', ''valueOf'', ''__proto__'', ''toLocaleString'']"

text \<open>
  \<open>value[part]\<close> for a value that is neither \<open>undefined\<close> nor \<open>null\<close> (on these the read
  raises; every read of the code modelled here is guarded). Own properties are the keys
  of a plain object, and the indices and the \<open>length\<close> of an array or a string. A key
  that is not an own property is looked up along the prototype chain: a plain object
  inherits the members of \<open>Object.prototype\<close> and nothing else; what the other values
  inherit is left to the runtime.
\<close>

fun getProperty :: "'n runtime \<Rightarrow> 'n jsval \<Rightarrow> string \<Rightarrow> 'n jsval" where
  "getProperty rt (JObj kvs) key =
     (case map_of kvs key of
        Some v \<Rightarrow> v
      | None \<Rightarrow> if key \<in> set objectPrototypeKeys then inherited rt (JObj kvs) key
                else JUndefined)"
| "getProperty rt (JArr xs) key =
     (if key = ''length'' then JNum (of_nat (length xs))
      else (case arrayIndex (length xs) key of
              Some i \<Rightarrow> xs ! i
            | None \<Rightarrow> inherited rt (JArr xs) key))"
| "getProperty rt (JStr s) key =
     (if key = ''length'' then JNum (of_nat (length s))
      else (case arrayIndex (length s) key of
              Some i \<Rightarrow> JStr [s ! i]
            | None \<Rightarrow> inherited rt (JStr s) key))"
| "getProperty rt JUndefined key = JUndefined"
| "getProperty rt JNull key = JUndefined"
| "getProperty rt v key = inherited rt v key"

section \<open>The template engine\<close>

text \<open>\<open>TEMPLATE_PLACEHOLDER_REGEX = /\{\{(.*?)\}\}/g\<close>\<close>

definition TEMPLATE_PLACEHOLDER_REGEX :: regex where
  "TEMPLATE_PLACEHOLDER_REGEX = seqs [Lit ''{{'', Cap 1 (Lazy (Atom CDot)), Lit ''}}'']"

text \<open>The loop of \<open>getValueFromContext\<close>: \<open>None\<close> is the early \<open>return undefined\<close>.\<close>

fun descend :: "'n runtime \<Rightarrow> 'n jsval \<Rightarrow> string list \<Rightarrow> 'n jsval option" where
  "descend rt v [] = Some v"
| "descend rt v (part # parts) =
     (if isUndefined v \<or> isNull v then None else descend rt (getProperty rt v part) parts)"

text \<open>\<open>getValueFromContext\<close>: \<open>Inr None\<close> is the result \<open>undefined\<close>.\<close>

definition getValueFromContext :: "'n runtime \<Rightarrow> string \<Rightarrow> 'n jsval \<Rightarrow> error + string option" where
  "getValueFromContext rt path context =
     (case descend rt context (split CHR ''.'' path) of
        None \<Rightarrow> Inr None
      | Some v \<Rightarrow>
          if \<not> isUndefined v
          then (case toString rt v of Inl err \<Rightarrow> Inl err | Inr s \<Rightarrow> Inr (Some s))
          else Inr None)"

text \<open>The first capture group of the placeholder pattern takes part in every match;
  on an undefined group the replacer would raise at \<open>placeholder.trim()\<close>.\<close>

definition processTemplate :: "'n runtime \<Rightarrow> string \<Rightarrow> 'n jsval \<Rightarrow> error + string" where
  "processTemplate rt templateContent context =
     replaceAllFn TEMPLATE_PLACEHOLDER_REGEX templateContent
       (\<lambda>m. case capture templateContent m 1 of
               None \<Rightarrow> Inl TypeError
             | Some placeholder \<Rightarrow>
                 (let trimmedPlaceholder = trim placeholder
                  in case getValueFromContext rt trimmedPlaceholder context of
                       Inl err \<Rightarrow> Inl err
                     | Inr None \<Rightarrow> Inr (matched templateContent m)
                     | Inr (Some v) \<Rightarrow> Inr v))"

definition processFileName :: "'n runtime \<Rightarrow> string \<Rightarrow> 'n jsval \<Rightarrow> error + string" where
  "processFileName rt fileName context =
     replaceAllFn TEMPLATE_PLACEHOLDER_REGEX fileName
       (\<lambda>m. case capture fileName m 1 of
               None \<Rightarrow> Inl TypeError
             | Some placeholder \<Rightarrow>
                 (let trimmedPlaceholder = trim placeholder
                  in case getValueFromContext rt trimmedPlaceholder context of
                       Inl err \<Rightarrow> Inl err
                     | Inr None \<Rightarrow> Inr (matched fileName m)
                     | Inr (Some v) \<Rightarrow> Inr v))"

section \<open>Replacement strings\<close>

definition isDigit :: "char \<Rightarrow> bool" where
  "isDigit c = (48 \<le> (of_char c :: nat) \<and> (of_char c :: nat) \<le> 57)"

definition digitValue :: "char \<Rightarrow> nat" where
  "digitValue c = of_char c - 48"

text \<open>The text a capture contributes to a replacement: empty for \<open>undefined\<close>.\<close>

definition captureText :: "string option list \<Rightarrow> nat \<Rightarrow> string" where
  "captureText caps n = (case caps ! (n - 1) of None \<Rightarrow> [] | Some t \<Rightarrow> t)"

text \<open>
  \<open>GetSubstitution\<close>: the replacement patterns of \<open>String.prototype.replace\<close> when the
  replacement is a string. \<open>m\<close> is the matched text, \<open>preceding\<close> and \<open>following\<close> the text on
  either side of it, \<open>caps\<close> the captures. There are no named groups, so \<open>$<\<close> stands for
  itself.
\<close>

fun getSubstitution :: "string \<Rightarrow> string \<Rightarrow> string \<Rightarrow> string option list \<Rightarrow> string \<Rightarrow> string" where
  "getSubstitution m preceding following caps [] = []"
| "getSubstitution m preceding following caps [c] = [c]"
| "getSubstitution m preceding following caps (c # d # t) =
     (if c \<noteq> CHR ''$'' then c # getSubstitution m preceding following caps (d # t)
      else if d = CHR ''$'' then CHR ''$'' # getSubstitution m preceding following caps t
      else if d = CHR ''&'' then m @ getSubstitution m preceding following caps t
      else if d = CHR 0x60 then preceding @ getSubstitution m preceding following caps t
      else if d = CHR 0x27 then following @ getSubstitution m preceding following caps t
      else if isDigit d then
        (case t of
           [] \<Rightarrow>
             if 1 \<le> digitValue d \<and> digitValue d \<le> length caps
             then captureText caps (digitValue d)
             else [c, d]
         | e # t' \<Rightarrow>
             if isDigit e \<and> 1 \<le> 10 * digitValue d + digitValue e
                \<and> 10 * digitValue d + digitValue e \<le> length caps
             then captureText caps (10 * digitValue d + digitValue e)
                  @ getSubstitution m preceding following caps t'
             else if 1 \<le> digitValue d \<and> digitValue d \<le> length caps
             then captureText caps (digitValue d) @ getSubstitution m preceding following caps (e # t')
             else c # d # getSubstitution m preceding following caps (e # t'))
      else c # getSubstitution m preceding following caps (d # t))"

text \<open>A text that \<open>GetSubstitution\<close> copies as it is wherever it stands in a replacement:
  it has no \<open>$\<close>, and its first character does not complete a replacement pattern
  begun by a \<open>$\<close> in front of it.\<close>

definition plainText :: "string \<Rightarrow> bool" where
  "plainText w =
     (case w of
        [] \<Rightarrow> False
      | c # t \<Rightarrow> CHR ''$'' \<notin> set w \<and> c \<noteq> CHR ''&'' \<and> c \<noteq> CHR 0x60 \<and> c \<noteq> CHR 0x27
                \<and> \<not> isDigit c)"

text \<open>\<open>s.replace(pattern, replacement)\<close> with a string pattern: the first occurrence.\<close>

definition replaceStr :: "string \<Rightarrow> string \<Rightarrow> string \<Rightarrow> string" where
  "replaceStr s pattern replacement =
     (case indexOf s pattern of
        None \<Rightarrow> s
      | Some p \<Rightarrow>
          take p s
          @ getSubstitution pattern (take p s) (drop (p + length pattern) s) [] replacement
          @ drop (p + length pattern) s)"

fun groupCount :: "regex \<Rightarrow> nat" where
  "groupCount (Seq a b) = groupCount a + groupCount b"
| "groupCount (Alt a b) = groupCount a + groupCount b"
| "groupCount (Star a) = groupCount a"
| "groupCount (Lazy a) = groupCount a"
| "groupCount (Cap n a) = Suc (groupCount a)"
| "groupCount r = 0"

text \<open>\<open>s.replace(r, replacement)\<close> with a pattern without the \<open>g\<close> flag and a string
  replacement.\<close>

definition replaceRe :: "regex \<Rightarrow> string \<Rightarrow> string \<Rightarrow> string" where
  "replaceRe r s replacement =
     (case regexMatch r s of
        None \<Rightarrow> s
      | Some (p, e, cs) \<Rightarrow>
          take p s
          @ getSubstitution (substring s p e) (take p s) (drop e s)
              (map (capture s (p, e, cs)) [1..<Suc (groupCount r)]) replacement
          @ drop e s)"

text \<open>A possibly undefined string inside a template literal, or converted by
  \<open>ToString\<close>.\<close>

definition interpolate :: "string option \<Rightarrow> string" where
  "interpolate v = (case v of None \<Rightarrow> ''undefined'' | Some t \<Rightarrow> t)"

section \<open>The configuration manager\<close>

record SolanaConfig =
  network :: string
  wallets :: "string list"
  useAppKit :: "bool option"
  projectId :: "string option"

definition networkUrls :: "(string \<times> string) list" where
  "networkUrls =
     [(''mainnet-beta'', ''https://api.mainnet-beta.solana.com''),
      (''testnet'', ''https://api.testnet.solana.com''),
      (''devnet'', ''https://api.devnet.solana.com''),
      (''localnet'', ''http://127.0.0.1:8899'')]"

text \<open>
  \<open>`${networkUrls[config.network]}`\<close>: the endpoint of a network of the table. The table
  is an object literal, so a name that is not one of its keys reads a member of
  \<open>Object.prototype\<close> when it names one, and \<open>undefined\<close> otherwise. A member is printed as
  Node.js prints it: \<open>__proto__\<close> reads the prototype object, the others are built-in
  functions.
\<close>

definition objectPrototypeText :: "string \<Rightarrow> string" where
  "objectPrototypeText key =
     (if key = ''__proto__'' then ''[object Object]''
      else ''function '' @ (if key = ''constructor'' then ''Object'' else key)
           @ ''() { [native code] }'')"

definition networkUrlText :: "string \<Rightarrow> string" where
  "networkUrlText name =
     (case map_of networkUrls name of
        Some url \<Rightarrow> url
      | None \<Rightarrow> if name \<in> set objectPrototypeKeys then objectPrototypeText name
                else ''undefined'')"

text \<open>\<open>config.projectId || ""\<close>\<close>

definition projectIdOrEmpty :: "SolanaConfig \<Rightarrow> string" where
  "projectIdOrEmpty config = (case projectId config of None \<Rightarrow> [] | Some t \<Rightarrow> t)"

definition generateEnvContent :: "SolanaConfig \<Rightarrow> string" where
  "generateEnvContent config =
     (let content =
        ''# Solana Configuration\<newline>NEXT_PUBLIC_SOLANA_NETWORK='' @ network config
        @ ''\<newline>NEXT_PUBLIC_SOLANA_RPC_URL='' @ networkUrlText (network config)
        @ ''\<newline>\<newline># For server-side operations (optional)\<newline>SOLANA_PRIVATE_KEY=YOUR_PRIVATE_KEY_HERE\<newline>\<newline># Note: Never commit private keys to source control\<newline># Use this file as a template and create a .env.local file with your actual keys\<newline>''
      in if useAppKit config = Some True
         then content @ ''\<newline># Reown AppKit Configuration\<newline>NEXT_PUBLIC_PROJECT_ID=''
              @ projectIdOrEmpty config @ ''\<newline>''
         else content)"

text \<open>The two files \<open>createEnvFile\<close> touches: \<open>.env.local\<close> and \<open>.env.example\<close> of the project
  root, \<open>None\<close> for a file that does not exist. Writes succeed.\<close>

record EnvFiles =
  envLocal :: "string option"
  envExample :: "string option"

definition createEnvFile :: "SolanaConfig \<Rightarrow> EnvFiles \<Rightarrow> EnvFiles" where
  "createEnvFile config files =
     (let envContent = generateEnvContent config;
          files1 =
            (case envLocal files of
               None \<Rightarrow> files\<lparr>envLocal := Some envContent\<rparr>
             | Some currentEnv \<Rightarrow>
                 if useAppKit config = Some True
                 then (if \<not> includesStr currentEnv ''NEXT_PUBLIC_PROJECT_ID=''
                       then files\<lparr>envLocal :=
                              Some (currentEnv @ ''\<newline># Reown AppKit Configuration\<newline>NEXT_PUBLIC_PROJECT_ID=''
                                    @ projectIdOrEmpty config @ ''\<newline>'')\<rparr>
                       else files)
                 else files)
      in files1\<lparr>envExample := Some envContent\<rparr>)"

section \<open>Patching files of the project\<close>

text \<open>
  A patcher reads a file of the project, decides on a rewrite and writes the file back.
  Its model takes the content read and returns the log it produced together with the
  content it passed to \<open>writeFile\<close>, \<open>None\<close> when it did not write. Log entries carry the
  level and the fixed part of the message.
\<close>

datatype logEntry = LogDebug string | LogWarn string | LogSuccess string | LogError string

type_synonym patch = "logEntry list \<times> string option"

text \<open>The content of the file after a patcher has run.\<close>

definition fileAfter :: "patch \<Rightarrow> string \<Rightarrow> string" where
  "fileAfter p content = (case snd p of None \<Rightarrow> content | Some written \<Rightarrow> written)"

definition warned :: "patch \<Rightarrow> bool" where
  "warned p = (\<exists>e \<in> set (fst p). case e of LogWarn t \<Rightarrow> True | _ \<Rightarrow> False)"

subsection \<open>The import block\<close>

text \<open>\<open>/^import.*?;(\r?\n|$)/gm\<close>, and \<open>/^import.*?;?(\r?\n|$)/gm\<close> of the Vue patcher.\<close>

definition lineEnd :: regex where
  "lineEnd = Alt (Seq (Opt (Lit [CHR 0x0D])) (Lit [CHR 0x0A])) Eol"

definition importPattern :: regex where
  "importPattern = seqs [Bol, Lit ''import'', Lazy (Atom CDot), Lit '';'', Cap 1 lineEnd]"

definition importPatternVue :: regex where
  "importPatternVue =
     seqs [Bol, Lit ''import'', Lazy (Atom CDot), Opt (Lit '';''), Cap 1 lineEnd]"

text \<open>
  \<open>importSection = content.match(r)\<close>, \<open>lastImport\<close> its last element and
  \<open>importPos = content.lastIndexOf(lastImport) + lastImport.length\<close>; \<open>None\<close> when the
  pattern has no match.
\<close>

definition importPos :: "regex \<Rightarrow> string \<Rightarrow> nat option" where
  "importPos r content =
     (case matchAll r content of
        [] \<Rightarrow> None
      | m # ms \<Rightarrow>
          (let lastImport = matched content (last (m # ms))
           in (case lastIndexOf content lastImport of
                 Some p \<Rightarrow> Some (p + length lastImport)
               | None \<Rightarrow> Some (length lastImport - 1))))"

text \<open>Insertion at a position: \<open>s.substring(0, pos) + text + s.substring(pos)\<close>.\<close>

definition insertAt :: "string \<Rightarrow> nat \<Rightarrow> string \<Rightarrow> string" where
  "insertAt s pos t = substring s 0 pos @ t @ drop pos s"

text \<open>The import step shared by the entry-point patchers: after the import block, or
  in front of the file when there is none.\<close>

definition addImport :: "regex \<Rightarrow> string \<Rightarrow> string \<Rightarrow> string \<Rightarrow> string" where
  "addImport r content afterImports atStart =
     (case importPos r content of
        Some pos \<Rightarrow> insertAt content pos afterImports
      | None \<Rightarrow> atStart @ content)"

subsection \<open>Next.js configuration\<close>

text \<open>\<open>/transpilePackages\s*:\s*\[(.*?)\]/s\<close>\<close>

definition transpilePackagesPattern :: regex where
  "transpilePackagesPattern =
     seqs [Lit ''transpilePackages'', Star (Atom CSpace), Lit '':'', Star (Atom CSpace),
           Lit ''['', Cap 1 (Lazy (Atom CAny)), Lit '']'']"

text \<open>\<open>/module\.exports\s*=\s*{/\<close> and \<open>/export default\s*{/\<close>\<close>

definition moduleExportsPattern :: regex where
  "moduleExportsPattern =
     seqs [Lit ''module.exports'', Star (Atom CSpace), Lit ''='', Star (Atom CSpace), Lit ''{'']"

definition exportDefaultPattern :: regex where
  "exportDefaultPattern = seqs [Lit ''export default'', Star (Atom CSpace), Lit ''{'']"

text \<open>\<open>/};\s*$/\<close>, \<open>/};(\s*)$/\<close>, \<open>/}\s*$/\<close> and \<open>/}(\s*)$/\<close>\<close>

definition closingSemiPattern :: regex where
  "closingSemiPattern = seqs [Lit ''};'', Star (Atom CSpace), Eoi]"

definition closingSemiCapPattern :: regex where
  "closingSemiCapPattern = seqs [Lit ''};'', Cap 1 (Star (Atom CSpace)), Eoi]"

definition closingBracePattern :: regex where
  "closingBracePattern = seqs [Lit ''}'', Star (Atom CSpace), Eoi]"

definition closingBraceCapPattern :: regex where
  "closingBraceCapPattern = seqs [Lit ''}'', Cap 1 (Star (Atom CSpace)), Eoi]"

text \<open>\<open>/(webpack\s*:\s*\(\s*config\s*\)\s*=>\s*{[^}]*)(return config;)/\<close>\<close>

definition webpackFunctionPattern :: regex where
  "webpackFunctionPattern =
     seqs [Cap 1 (seqs [Lit ''webpack'', Star (Atom CSpace), Lit '':'', Star (Atom CSpace),
                        Lit ''('', Star (Atom CSpace), Lit ''config'', Star (Atom CSpace),
                        Lit '')'', Star (Atom CSpace), Lit ''=>'', Star (Atom CSpace),
                        Lit ''{'', Star (Atom (CNot CHR ''}''))]),
           Cap 2 (Lit ''return config;'')]"

definition newPackages :: "string list" where
  "newPackages =
     [''@solana/wallet-adapter-base'', ''@solana/wallet-adapter-react'',
      ''@solana/wallet-adapter-react-ui'', ''@solana/wallet-adapter-wallets'']"

text \<open>The replacer of the \<open>transpilePackages\<close> field, given the captured list.\<close>

definition mergePackages :: "string \<Rightarrow> string" where
  \<open>mergePackages packages =
     (let packagesList = trim packages
      in if packagesList \<noteq> []
         then ''transpilePackages: ['' @ packagesList
              @ (if endsWith packagesList '','' then [] else '','')
              @ '' '' @ [CHR 0x27] @ join (''\', '' @ [CHR 0x27]) newPackages @ ''\']''
         else ''transpilePackages: ['' @ [CHR 0x27] @ join (''\', '' @ [CHR 0x27]) newPackages
              @ ''\']'')\<close>

definition webpackConfig :: string where
  \<open>webpackConfig = ''\<newline>  webpack: (config) => {\<newline>    config.resolve.fallback = {\<newline>      ...config.resolve.fallback,\<newline>      fs: false,\<newline>      os: false,\<newline>      path: false,\<newline>      crypto: false,\<newline>    };\<newline>    config.externals.push(\'pino-pretty\', \'lokijs\', \'encoding\');\<newline>    return config;\<newline>  },''\<close>

definition fallbackConfig :: string where
  \<open>fallbackConfig = ''/** @type {import(\'next\').NextConfig} */\<newline>module.exports = {\<newline>  reactStrictMode: true,\<newline>  transpilePackages: [\<newline>    \'@solana/wallet-adapter-base\',\<newline>    \'@solana/wallet-adapter-react\',\<newline>    \'@solana/wallet-adapter-react-ui\',\<newline>    \'@solana/wallet-adapter-wallets\'\<newline>  ],\<newline>};\<newline>''\<close>

text \<open>The step \<open>Add transpile modules\<close>. The group of the pattern takes part in every
  match; the replacer would raise on an undefined group, which is rendered as the
  empty list.\<close>

definition addTranspilePackages :: "string \<Rightarrow> string" where
  \<open>addTranspilePackages content =
     (if includesStr content ''transpilePackages''
      then replaceFn transpilePackagesPattern content
             (\<lambda>m. mergePackages (case capture content m 1 of None \<Rightarrow> [] | Some t \<Rightarrow> t))
      else if includesStr content ''module.exports''
      then replaceRe moduleExportsPattern content
             ''module.exports = {\<newline>  transpilePackages: [\'@solana/wallet-adapter-base\', \'@solana/wallet-adapter-react\', \'@solana/wallet-adapter-react-ui\', \'@solana/wallet-adapter-wallets\'],''
      else if includesStr content ''export default''
      then replaceRe exportDefaultPattern content
             ''export default {\<newline>  transpilePackages: [\'@solana/wallet-adapter-base\', \'@solana/wallet-adapter-react\', \'@solana/wallet-adapter-react-ui\', \'@solana/wallet-adapter-wallets\'],''
      else fallbackConfig)\<close>

text \<open>The step \<open>Add webpack configuration for polyfills if needed\<close>.\<close>

definition addWebpackConfig :: "string \<Rightarrow> string" where
  \<open>addWebpackConfig updatedContent =
     (if \<not> includesStr updatedContent ''webpack''
      then (if regexTest closingSemiPattern updatedContent
            then replaceRe closingSemiCapPattern updatedContent
                   (webpackConfig @ ''\<newline>};$1'')
            else if regexTest closingBracePattern updatedContent
            then replaceRe closingBraceCapPattern updatedContent
                   (webpackConfig @ ''\<newline>}$1'')
            else updatedContent)
      else if \<not> includesStr updatedContent ''externals''
      then replaceRe webpackFunctionPattern updatedContent
             ''$1config.externals.push(\'pino-pretty\', \'lokijs\', \'encoding\');\<newline>    $2''
      else updatedContent)\<close>

text \<open>\<open>NextjsFramework.updateNextConfig\<close>, from the read of the configuration file on.\<close>

definition updateNextConfig :: "string \<Rightarrow> patch" where
  "updateNextConfig content =
     (if includesStr content ''@solana/wallet-adapter''
      then ([LogDebug ''Next.js config already has Solana setup''], None)
      else ([LogSuccess ''Updated Next.js configuration''],
            Some (addWebpackConfig (addTranspilePackages content))))"

subsection \<open>Next.js App Router layout\<close>

text \<open>\<open>/<body\s+[^>]*>\s*\{\s*children\s*\}\s*<\/body>/s\<close> and the same pattern with the
  attributes captured, \<open>/<body(\s+[^>]*)>\s*\{\s*children\s*\}\s*<\/body>/s\<close>\<close>

definition nextjsBodyPattern :: regex where
  "nextjsBodyPattern =
     seqs [Lit ''<body'', Plus (Atom CSpace), Star (Atom (CNot CHR ''>'')), Lit ''>'',
           Star (Atom CSpace), Lit ''{'', Star (Atom CSpace), Lit ''children'',
           Star (Atom CSpace), Lit ''}'', Star (Atom CSpace), Lit ''</body>'']"

definition nextjsBodyCapPattern :: regex where
  "nextjsBodyCapPattern =
     seqs [Lit ''<body'', Cap 1 (Seq (Plus (Atom CSpace)) (Star (Atom (CNot CHR ''>'')))),
           Lit ''>'', Star (Atom CSpace), Lit ''{'', Star (Atom CSpace), Lit ''children'',
           Star (Atom CSpace), Lit ''}'', Star (Atom CSpace), Lit ''</body>'']"

text \<open>\<open>/^import .+$/m\<close>, also used with the \<open>g\<close> flag\<close>

definition importLinePattern :: regex where
  "importLinePattern = seqs [Bol, Lit ''import '', Plus (Atom CDot), Eol]"

text \<open>\<open>/(<body[^>]*>)([\s\S]*?)(\{children\})([\s\S]*?)(<\/body>)/\<close>\<close>

definition bodyPattern :: regex where
  "bodyPattern =
     seqs [Cap 1 (seqs [Lit ''<body'', Star (Atom (CNot CHR ''>'')), Lit ''>'']),
           Cap 2 (Lazy (Atom CAny)), Cap 3 (Lit ''{children}''),
           Cap 4 (Lazy (Atom CAny)), Cap 5 (Lit ''</body>'')]"

text \<open>\<open>/(<body[^>]*>)([\s\S]*?)(<\/body>)/\<close>\<close>

definition simpleBodyPattern :: regex where
  "simpleBodyPattern =
     seqs [Cap 1 (seqs [Lit ''<body'', Star (Atom (CNot CHR ''>'')), Lit ''>'']),
           Cap 2 (Lazy (Atom CAny)), Cap 3 (Lit ''</body>'')]"

text \<open>\<open>/return\s*\(\s*([^]*?)\);?\s*(?:}|$)/s\<close>\<close>

definition returnPattern :: regex where
  "returnPattern =
     seqs [Lit ''return'', Star (Atom CSpace), Lit ''('', Star (Atom CSpace),
           Cap 1 (Lazy (Atom CAny)), Lit '')'', Opt (Lit '';''), Star (Atom CSpace),
           Alt (Lit ''}'') Eoi]"

text \<open>
  The two branches of \<open>updateAppRouterEntryPoint\<close> run the same steps and differ in the
  names they insert: the marker tokens of the guard, the provider and the import of the
  Next.js 15 template step, and the provider and the import lines of the general step.
\<close>

record layoutNames =
  markers :: "string list"
  alreadyMessage :: string
  templateProvider :: string
  templateImport :: string
  provider :: string
  importAfter :: string
  importAtStart :: string

definition appKitNames :: layoutNames where
  \<open>appKitNames =
     \<lparr>markers = [''ContextProvider'', ''AppKitProvider''],
      alreadyMessage = ''AppKit provider already present in layout'',
      templateProvider = ''ContextProvider'',
      templateImport = ''\<newline>import ContextProvider from "@/context";\<newline>'',
      provider = ''AppKitProvider'',
      importAfter = ''\<newline>// Import AppKit provider\<newline>import { AppKitProvider } from \'../config/context\';\<newline>'',
      importAtStart = ''// Import AppKit provider\<newline>import { AppKitProvider } from \'../config/context\';\<newline>\<newline>''\<rparr>\<close>

definition walletNames :: layoutNames where
  \<open>walletNames =
     \<lparr>markers = [''ClientWalletProvider''],
      alreadyMessage = ''ClientWalletProvider already present in layout'',
      templateProvider = ''ClientWalletProvider'',
      templateImport = ''\<newline>import { ClientWalletProvider } from "../solana/wallet";\<newline>'',
      provider = ''ClientWalletProvider'',
      importAfter = ''\<newline>// Import Solana wallet provider\<newline>import { ClientWalletProvider } from \'../solana/wallet\';\<newline>'',
      importAtStart = ''// Import Solana wallet provider\<newline>import { ClientWalletProvider } from \'../solana/wallet\';\<newline>\<newline>''\<rparr>\<close>

text \<open>The step for the Next.js 15 template: the body is rewritten by the pattern, then
  the import is placed after \<open>import "./globals.css";\<close>, after the last import line, or
  in front.\<close>

definition wrapTemplateBody :: "layoutNames \<Rightarrow> string \<Rightarrow> string" where
  \<open>wrapTemplateBody nm content0 =
     (let content = replaceRe nextjsBodyCapPattern content0
                      (''<body$1>\<newline>        <'' @ templateProvider nm
                       @ ''>\<newline>          {children}\<newline>        </'' @ templateProvider nm
                       @ ''>\<newline>      </body>'');
          importStatement = templateImport nm
      in if includesStr content ''import "./globals.css"''
         then replaceStr content ''import "./globals.css";''
                (''import "./globals.css";'' @ importStatement)
         else if regexTest importLinePattern content
         then (case matchAll importLinePattern content of
                 [] \<Rightarrow> importStatement @ content
               | m # ms \<Rightarrow>
                   (let lastImport = matched content (last (m # ms))
                    in replaceStr content lastImport (lastImport @ importStatement)))
         else importStatement @ content)\<close>

text \<open>The general step, on the content with the import added: the chain of the three
  patterns. A method call on an undefined group raises; the \<open>catch\<close> logs the error.\<close>

definition layoutError :: patch where
  "layoutError = ([LogError ''Failed to update App Router layout''], None)"

definition wrapBody :: "layoutNames \<Rightarrow> string \<Rightarrow> patch" where
  "wrapBody nm updatedContent =
     (let openTag = ''<'' @ provider nm @ ''>'';
          closeTag = ''</'' @ provider nm @ ''>'';
          written = (\<lambda>c. ([LogSuccess (''Added '' @ provider nm)], Some c))
      in case regexMatch bodyPattern updatedContent of
           Some m \<Rightarrow>
             (let fullMatch = matched updatedContent m;
                  bodyOpen = interpolate (capture updatedContent m 1);
                  beforeChildren = interpolate (capture updatedContent m 2);
                  children = interpolate (capture updatedContent m 3);
                  afterChildren = interpolate (capture updatedContent m 4);
                  bodyClose = interpolate (capture updatedContent m 5);
                  wrappedContent = bodyOpen @ beforeChildren @ openTag @ children @ closeTag
                                   @ afterChildren @ bodyClose
              in written (replaceStr updatedContent fullMatch wrappedContent))
         | None \<Rightarrow>
             (case regexMatch simpleBodyPattern updatedContent of
                Some m \<Rightarrow>
                  (let fullMatch = matched updatedContent m;
                       bodyOpen = interpolate (capture updatedContent m 1);
                       bodyClose = interpolate (capture updatedContent m 3)
                   in case capture updatedContent m 2 of
                        None \<Rightarrow> layoutError
                      | Some bodyContent \<Rightarrow>
                          if includesStr bodyContent ''{children}''
                          then (let newBodyContent =
                                      replaceStr bodyContent ''{children}''
                                        (openTag @ ''{children}'' @ closeTag)
                                in written (replaceStr updatedContent fullMatch
                                              (bodyOpen @ newBodyContent @ bodyClose)))
                          else (case lastIndexOf bodyContent ''<'' of
                                  Some (Suc i) \<Rightarrow>
                                    (let insertionPoint = Suc i;
                                         beforeInsert = substring bodyContent 0 insertionPoint;
                                         afterInsert = drop insertionPoint bodyContent
                                     in written (replaceStr updatedContent fullMatch
                                          (bodyOpen @ beforeInsert @ openTag
                                           @ (if startsWith (trim afterInsert) ''{children}''
                                              then afterInsert
                                              else ''{children}'' @ afterInsert)
                                           @ closeTag @ bodyClose)))
                                | _ \<Rightarrow>
                                    written (replaceStr updatedContent fullMatch
                                      (bodyOpen @ openTag
                                       @ (if bodyContent \<noteq> [] then bodyContent
                                          else ''{children}'')
                                       @ closeTag @ bodyClose))))
              | None \<Rightarrow>
                  (case regexMatch returnPattern updatedContent of
                     Some m \<Rightarrow>
                       (let fullMatch = matched updatedContent m
                        in case capture updatedContent m 1 of
                             None \<Rightarrow> layoutError
                           | Some returnContent \<Rightarrow>
                               if includesStr returnContent ''{children}''
                               then (let newReturnContent =
                                           replaceStr returnContent ''{children}''
                                             (openTag @ ''{children}'' @ closeTag)
                                     in written (replaceStr updatedContent fullMatch
                                                   (''return ('' @ newReturnContent @ '');'')))
                               else ([LogWarn (''Could not locate {children} in return statement. Please add ''
                                               @ provider nm @ '' manually.'')], None))
                   | None \<Rightarrow>
                       ([LogWarn (''Could not automatically update layout with ''
                                  @ provider nm @ ''. Please add it manually.'')], None))))"

definition patchLayout :: "layoutNames \<Rightarrow> string \<Rightarrow> patch" where
  "patchLayout nm content =
     (if list_ex (includesStr content) (markers nm)
      then ([LogDebug (alreadyMessage nm)], None)
      else if regexTest nextjsBodyPattern content
      then ([LogSuccess (''Added '' @ templateProvider nm)], Some (wrapTemplateBody nm content))
      else wrapBody nm (addImport importPattern content (importAfter nm) (importAtStart nm)))"

text \<open>JavaScript truthiness.\<close>

fun truthy :: "'n runtime \<Rightarrow> 'n jsval \<Rightarrow> bool" where
  "truthy rt JUndefined = False"
| "truthy rt JNull = False"
| "truthy rt (JBool b) = b"
| "truthy rt (JNum n) = (n \<noteq> 0)"
| "truthy rt (JStr t) = (t \<noteq> [])"
| "truthy rt (JNative n) = nativeTruthy rt n"
| "truthy rt v = True"

text \<open>
  \<open>NextjsFramework.updateAppRouterEntryPoint\<close>, from the read of the layout file on. The
  branch is chosen by \<open>context.config.useAppKit\<close>; the read raises when \<open>context\<close> or
  \<open>context.config\<close> is \<open>undefined\<close> or \<open>null\<close>, and the \<open>catch\<close> logs the error.
\<close>

definition updateAppRouterEntryPoint :: "'n runtime \<Rightarrow> 'n jsval \<Rightarrow> string \<Rightarrow> patch" where
  "updateAppRouterEntryPoint rt context content =
     (if isUndefined context \<or> isNull context then layoutError
      else (let config = getProperty rt context ''config''
            in if isUndefined config \<or> isNull config then layoutError
               else if truthy rt (getProperty rt config ''useAppKit'')
               then patchLayout appKitNames content
               else patchLayout walletNames content))"

text \<open>
  The context that \<open>NextjsFramework.init\<close> builds and hands to the entry-point updaters:
  the project information, the Solana configuration, the two file extensions chosen by
  \<open>projectInfo.hasTypeScript\<close>, and \<open>projectInfo.isAppRouter\<close>. \<open>hasTypeScript\<close> is the truth
  value of the former and \<open>isAppRouter\<close> the value of the latter.
\<close>

definition initContext :: "'n jsval \<Rightarrow> 'n jsval \<Rightarrow> bool \<Rightarrow> 'n jsval \<Rightarrow> 'n jsval" where
  "initContext projectInfo solanaConfig hasTypeScript isAppRouter =
     JObj [(''projectInfo'', projectInfo),
           (''solanaConfig'', solanaConfig),
           (''typescriptExtension'', JStr (if hasTypeScript then ''tsx'' else ''jsx'')),
           (''javascriptExtension'', JStr (if hasTypeScript then ''ts'' else ''js'')),
           (''isAppRouter'', isAppRouter)]"

subsection \<open>Next.js Pages Router \<open>_app\<close> file\<close>

text \<open>\<open>/(\s*return\s*\(\s*)(<Component\s*{.*?}\s*\/>)(\s*\))/s\<close>\<close>

definition componentPattern :: regex where
  "componentPattern =
     seqs [Cap 1 (seqs [Star (Atom CSpace), Lit ''return'', Star (Atom CSpace), Lit ''('',
                        Star (Atom CSpace)]),
           Cap 2 (seqs [Lit ''<Component'', Star (Atom CSpace), Lit ''{'', Lazy (Atom CAny),
                        Lit ''}'', Star (Atom CSpace), Lit ''/>'']),
           Cap 3 (seqs [Star (Atom CSpace), Lit '')''])]"

text \<open>\<open>NextjsFramework.updatePagesRouterEntryPoint\<close>, from the read of an existing
  \<open>_app\<close> file on.\<close>

definition updatePagesRouterEntryPoint :: "string \<Rightarrow> patch" where
  \<open>updatePagesRouterEntryPoint content =
     (if includesStr content ''SolanaProvider''
      then ([LogDebug ''SolanaProvider already present in _app file''], None)
      else
        (let updatedContent =
               addImport importPattern content
                 ''\<newline>import { SolanaProvider } from \'../solana/wallet\';\<newline>''
                 ''import { SolanaProvider } from \'../solana/wallet\';\<newline>\<newline>''
         in case regexMatch componentPattern updatedContent of
              Some m \<Rightarrow>
                (let fullMatch = matched updatedContent m;
                     prefix = interpolate (capture updatedContent m 1);
                     component = interpolate (capture updatedContent m 2);
                     suffix = interpolate (capture updatedContent m 3);
                     wrappedComponent = prefix @ ''<SolanaProvider>\<newline>      '' @ component
                                        @ ''\<newline>    </SolanaProvider>'' @ suffix
                 in ([LogSuccess ''Added SolanaProvider''],
                     Some (replaceStr updatedContent fullMatch wrappedComponent)))
            | None \<Rightarrow>
                ([LogWarn ''Could not automatically update _app with SolanaProvider. Please add it manually.''],
                 None)))\<close>

subsection \<open>React entry point\<close>

text \<open>\<open>/(ReactDOM\.render\s*\(\s*<)(.*?)(\s*\/?\s*>\s*,\s*document\.getElementById)/\<close> and
  \<open>/(createRoot.*?\)\.render\s*\(\s*<)(.*?)(\s*\/?\s*>\s*\))/\<close>\<close>

definition reactDomRenderPattern :: regex where
  "reactDomRenderPattern =
     seqs [Cap 1 (seqs [Lit ''ReactDOM.render'', Star (Atom CSpace), Lit ''('',
                        Star (Atom CSpace), Lit ''<'']),
           Cap 2 (Lazy (Atom CDot)),
           Cap 3 (seqs [Star (Atom CSpace), Opt (Lit ''/''), Star (Atom CSpace), Lit ''>'',
                        Star (Atom CSpace), Lit '','', Star (Atom CSpace),
                        Lit ''document.getElementById''])]"

definition createRootPattern :: regex where
  "createRootPattern =
     seqs [Cap 1 (seqs [Lit ''createRoot'', Lazy (Atom CDot), Lit '').render'',
                        Star (Atom CSpace), Lit ''('', Star (Atom CSpace), Lit ''<'']),
           Cap 2 (Lazy (Atom CDot)),
           Cap 3 (seqs [Star (Atom CSpace), Opt (Lit ''/''), Star (Atom CSpace), Lit ''>'',
                        Star (Atom CSpace), Lit '')''])]"

text \<open>\<open>ReactFramework.updateEntryPoint\<close>, from the read of the entry file on.\<close>

definition updateEntryPoint :: "string \<Rightarrow> patch" where
  \<open>updateEntryPoint content =
     (if includesStr content ''SolanaProvider''
      then ([LogDebug ''SolanaProvider already present in entry point''], None)
      else
        (let updatedContent =
               addImport importPattern content
                 ''\<newline>import { SolanaProvider } from \'./solana/wallet\';\<newline>''
                 ''import { SolanaProvider } from \'./solana/wallet\';\<newline>\<newline>'';
             appRenderMatch =
               (case regexMatch reactDomRenderPattern updatedContent of
                  Some m \<Rightarrow> Some m
                | None \<Rightarrow> regexMatch createRootPattern updatedContent)
         in case appRenderMatch of
              Some m \<Rightarrow>
                (let fullMatch = matched updatedContent m;
                     prefix = interpolate (capture updatedContent m 1);
                     app = interpolate (capture updatedContent m 2);
                     suffix = interpolate (capture updatedContent m 3);
                     wrappedApp = prefix @ ''<SolanaProvider>\<newline>  '' @ app
                                  @ ''\<newline></SolanaProvider>'' @ suffix
                 in ([LogSuccess ''Added SolanaProvider''],
                     Some (replaceStr updatedContent fullMatch wrappedApp)))
            | None \<Rightarrow>
                ([LogWarn ''Could not automatically update entry point with SolanaProvider. Please add it manually.''],
                 None)))\<close>

subsection \<open>Vue main file\<close>

text \<open>\<open>/(const\s+app\s*=\s*createApp\s*\(.*?\))(.*?)(app\.mount)/s\<close>,
  \<open>/(createApp\s*\(.*?\).*?)\.mount/s\<close>, \<open>/(new\s+Vue\s*\(\s*\{)(.*?)(\}\s*\))/s\<close> and
  \<open>/(plugins\s*:\s*\[)(.*?)(\])/s\<close>\<close>

definition appPattern :: regex where
  "appPattern =
     seqs [Cap 1 (seqs [Lit ''const'', Plus (Atom CSpace), Lit ''app'', Star (Atom CSpace),
                        Lit ''='', Star (Atom CSpace), Lit ''createApp'', Star (Atom CSpace),
                        Lit ''('', Lazy (Atom CAny), Lit '')'']),
           Cap 2 (Lazy (Atom CAny)),
           Cap 3 (Lit ''app.mount'')]"

definition createAppPattern :: regex where
  "createAppPattern =
     seqs [Cap 1 (seqs [Lit ''createApp'', Star (Atom CSpace), Lit ''('', Lazy (Atom CAny),
                        Lit '')'', Lazy (Atom CAny)]),
           Lit ''.mount'']"

definition vueOptionsPattern :: regex where
  "vueOptionsPattern =
     seqs [Cap 1 (seqs [Lit ''new'', Plus (Atom CSpace), Lit ''Vue'', Star (Atom CSpace),
                        Lit ''('', Star (Atom CSpace), Lit ''{'']),
           Cap 2 (Lazy (Atom CAny)),
           Cap 3 (seqs [Lit ''}'', Star (Atom CSpace), Lit '')''])]"

definition pluginsPattern :: regex where
  "pluginsPattern =
     seqs [Cap 1 (seqs [Lit ''plugins'', Star (Atom CSpace), Lit '':'', Star (Atom CSpace),
                        Lit ''['']),
           Cap 2 (Lazy (Atom CAny)),
           Cap 3 (Lit '']'')]"

text \<open>\<open>s.indexOf(w, from)\<close>\<close>

definition indexOfAt :: "string \<Rightarrow> string \<Rightarrow> nat \<Rightarrow> nat option" where
  "indexOfAt s w from = indexOfFrom (min from (length s)) (drop from s) w"

definition vueWarning :: logEntry where
  "vueWarning = LogWarn ''Could not automatically update main file with Solana plugin. Please add it manually.''"

definition vueError :: patch where
  "vueError = ([LogError ''Failed to update Vue.js main file''], None)"

text \<open>The step \<open>Find app creation and use statement\<close> on the content with the import
  added: the log of the step and the content it leaves, or \<open>None\<close> when a method call on
  an undefined group raises.\<close>

definition usePlugin :: "string \<Rightarrow> (logEntry list \<times> string) option" where
  "usePlugin updatedContent =
     (if includesStr updatedContent ''createApp(''
      then (case regexMatch appPattern updatedContent of
              Some m \<Rightarrow>
                (let appCreation = interpolate (capture updatedContent m 1)
                 in case capture updatedContent m 2 of
                      None \<Rightarrow> None
                    | Some middlewareSection \<Rightarrow>
                        if includesStr middlewareSection ''app.use(''
                        then (let lastUse = (case lastIndexOf middlewareSection ''app.use('' of
                                               Some p \<Rightarrow> p | None \<Rightarrow> 0);
                                  lastUseEndIndex =
                                    (case indexOfAt middlewareSection '')'' lastUse of
                                       Some p \<Rightarrow> p + 1 | None \<Rightarrow> 0);
                                  updatedMiddlewareSection =
                                    substring middlewareSection 0 lastUseEndIndex
                                    @ ''\<newline>app.use(SolanaPlugin)''
                                    @ drop lastUseEndIndex middlewareSection
                              in Some ([], replaceStr updatedContent middlewareSection
                                             updatedMiddlewareSection))
                        else Some ([], replaceStr updatedContent appCreation
                                         (appCreation @ ''\<newline>app.use(SolanaPlugin)'')))
            | None \<Rightarrow>
                (case regexMatch createAppPattern updatedContent of
                   Some m \<Rightarrow>
                     (let appCreation = interpolate (capture updatedContent m 1)
                      in Some ([], replaceStr updatedContent appCreation
                                     (appCreation @ ''.use(SolanaPlugin)'')))
                 | None \<Rightarrow> Some ([vueWarning], updatedContent)))
      else if includesStr updatedContent ''new Vue(''
      then (case regexMatch vueOptionsPattern updatedContent of
              Some m \<Rightarrow>
                (case capture updatedContent m 2 of
                   None \<Rightarrow> None
                 | Some vueOptions \<Rightarrow>
                     if \<not> includesStr vueOptions ''plugins''
                     then (let updatedOptions = vueOptions @ ''\<newline>  plugins: [SolanaPlugin],''
                           in Some ([], replaceStr updatedContent vueOptions updatedOptions))
                     else (case regexMatch pluginsPattern vueOptions of
                             Some pm \<Rightarrow>
                               (let pluginsFullMatch = matched vueOptions pm;
                                    pluginsStart = interpolate (capture vueOptions pm 1);
                                    pluginsList = capture vueOptions pm 2;
                                    pluginsEnd = interpolate (capture vueOptions pm 3);
                                    updatedPlugins =
                                      (case pluginsList of
                                         None \<Rightarrow> ''SolanaPlugin''
                                       | Some l \<Rightarrow>
                                           if l \<noteq> [] then l @ '', SolanaPlugin''
                                           else ''SolanaPlugin'')
                                in Some ([], replaceStr updatedContent pluginsFullMatch
                                               (pluginsStart @ updatedPlugins @ pluginsEnd)))
                           | None \<Rightarrow>
                               Some ([LogWarn ''Could not automatically update plugins in main file. Please add SolanaPlugin manually.''],
                                     updatedContent)))
            | None \<Rightarrow> Some ([vueWarning], updatedContent))
      else Some ([vueWarning], updatedContent))"

text \<open>\<open>VueFramework.updateMainFile\<close>, from the read of the main file on. The write
  follows the step whatever the step logged.\<close>

definition updateMainFile :: "string \<Rightarrow> patch" where
  \<open>updateMainFile content =
     (if includesStr content ''SolanaPlugin'' \<or> includesStr content ''solana/wallet''
      then ([LogDebug ''Solana plugin already present in main file''], None)
      else
        (let updatedContent =
               addImport importPatternVue content
                 ''\<newline>import { SolanaPlugin } from \'./solana/wallet\';\<newline>''
                 ''import { SolanaPlugin } from \'./solana/wallet\';\<newline>\<newline>''
         in case usePlugin updatedContent of
              None \<Rightarrow> vueError
            | Some (entries, written) \<Rightarrow>
                (entries @ [LogSuccess ''Added Solana plugin''], Some written)))\<close>

section \<open>What a pattern matches\<close>

text \<open>
  The relation \<open>sem inp r (i, cs) (j, cs')\<close> reads a pattern declaratively: \<open>r\<close> can match
  the text of \<open>inp\<close> from index \<open>i\<close> to index \<open>j\<close>, extending the captures \<open>cs\<close> to
  \<open>cs'\<close>. The backtracking matcher finds a match exactly when the relation holds for some
  end; it is used to reason about the matcher on texts that are not known.
\<close>

inductive sem :: "string \<Rightarrow> regex \<Rightarrow> nat \<times> captures \<Rightarrow> nat \<times> captures \<Rightarrow> bool"
  for inp :: string where
  semLit: "startsWith (drop i inp) w \<Longrightarrow> sem inp (Lit w) (i, cs) (i + length w, cs)"
| semAtom: "i < length inp \<Longrightarrow> inClass c (inp ! i) \<Longrightarrow> sem inp (Atom c) (i, cs) (Suc i, cs)"
| semEps: "sem inp Eps s s"
| semSeq: "sem inp a s t \<Longrightarrow> sem inp b t u \<Longrightarrow> sem inp (Seq a b) s u"
| semAltL: "sem inp a s t \<Longrightarrow> sem inp (Alt a b) s t"
| semAltR: "sem inp b s t \<Longrightarrow> sem inp (Alt a b) s t"
| semStarNil: "sem inp (Star a) s s"
| semStarStep: "sem inp a s t \<Longrightarrow> fst s < fst t \<Longrightarrow> sem inp (Star a) t u \<Longrightarrow> sem inp (Star a) s u"
| semLazyNil: "sem inp (Lazy a) s s"
| semLazyStep: "sem inp a s t \<Longrightarrow> fst s < fst t \<Longrightarrow> sem inp (Lazy a) t u \<Longrightarrow> sem inp (Lazy a) s u"
| semCap: "sem inp a (i, cs) (j, cs') \<Longrightarrow> sem inp (Cap n a) (i, cs) (j, (n, i, j) # cs')"
| semBol: "i = 0 \<or> isLineTerminator (inp ! (i - 1)) \<Longrightarrow> sem inp Bol (i, cs) (i, cs)"
| semEol: "length inp \<le> i \<or> isLineTerminator (inp ! i) \<Longrightarrow> sem inp Eol (i, cs) (i, cs)"
| semEoi: "length inp \<le> i \<Longrightarrow> sem inp Eoi (i, cs) (i, cs)"

definition stateAt :: "string \<Rightarrow> nat \<times> captures \<Rightarrow> mstate" where
  "stateAt inp s = (fst s, drop (fst s) inp, snd s)"

definition soundAt :: "string \<Rightarrow> regex \<Rightarrow> matcher \<Rightarrow> bool" where
  "soundAt inp r m = (\<forall>i cs k x. m (i, drop i inp, cs) k = Some x \<longrightarrow> i \<le> length inp \<longrightarrow>
     (\<exists>j cs'. sem inp r (i, cs) (j, cs') \<and> j \<le> length inp \<and> k (j, drop j inp, cs') = Some x))"

definition matchesAt :: "string \<Rightarrow> regex \<Rightarrow> nat \<Rightarrow> bool" where
  "matchesAt inp r p = (\<exists>e cs. sem inp r (p, []) (e, cs))"

section \<open>Properties of the pattern matcher\<close>

lemma startsWith_length: "startsWith s w \<Longrightarrow> length w \<le> length s"
  unfolding startsWith_def by (auto dest!: arg_cong[where f = length])

lemma orElse_Some:
  "(case a of Some r \<Rightarrow> Some r | None \<Rightarrow> b) = Some x \<longleftrightarrow> a = Some x \<or> (a = None \<and> b = Some x)"
  by (cases a) auto

lemma orElse_None:
  "(case a of Some r \<Rightarrow> Some r | None \<Rightarrow> b) = None \<longleftrightarrow> a = None \<and> b = None"
  by (cases a) auto

lemma repeatGreedy_sound:
  assumes "soundAt inp a m"
  shows "repeatGreedy fuel m (i, drop i inp, cs) k = Some x \<Longrightarrow> i \<le> length inp \<Longrightarrow>
     \<exists>j cs'. sem inp (Star a) (i, cs) (j, cs') \<and> j \<le> length inp \<and> k (j, drop j inp, cs') = Some x"
proof (induction fuel arbitrary: i cs)
  case Nil
  then show ?case by (auto intro: semStarNil)
next
  case (Cons c fuel)
  let ?k' = "\<lambda>st'. if fst (i, drop i inp, cs) < fst st' then repeatGreedy fuel m st' k else None"
  from Cons.prems(1) consider
    (iter) "m (i, drop i inp, cs) ?k' = Some x"
    | (stop) "k (i, drop i inp, cs) = Some x"
    by (auto simp: orElse_Some)
  then show ?case
  proof cases
    case iter
    with assms Cons.prems(2) obtain j cs' where
      j: "sem inp a (i, cs) (j, cs')" "j \<le> length inp" "?k' (j, drop j inp, cs') = Some x"
      unfolding soundAt_def by blast
    from j(3) have lt: "i < j" and "repeatGreedy fuel m (j, drop j inp, cs') k = Some x"
      by (auto split: if_splits)
    with Cons.IH j(2) obtain j' cs'' where
      "sem inp (Star a) (j, cs') (j', cs'')" "j' \<le> length inp" "k (j', drop j' inp, cs'') = Some x"
      by blast
    with j(1) lt semStarStep[of inp a "(i, cs)" "(j, cs')" "(j', cs'')"] show ?thesis by auto
  next
    case stop
    with Cons.prems(2) show ?thesis by (auto intro: semStarNil)
  qed
qed

lemma repeatLazy_sound:
  assumes "soundAt inp a m"
  shows "repeatLazy fuel m (i, drop i inp, cs) k = Some x \<Longrightarrow> i \<le> length inp \<Longrightarrow>
     \<exists>j cs'. sem inp (Lazy a) (i, cs) (j, cs') \<and> j \<le> length inp \<and> k (j, drop j inp, cs') = Some x"
proof (induction fuel arbitrary: i cs)
  case Nil
  then show ?case by (auto intro: semLazyNil)
next
  case (Cons c fuel)
  let ?k' = "\<lambda>st'. if fst (i, drop i inp, cs) < fst st' then repeatLazy fuel m st' k else None"
  from Cons.prems(1) consider
    (iter) "m (i, drop i inp, cs) ?k' = Some x"
    | (stop) "k (i, drop i inp, cs) = Some x"
    by (auto simp: orElse_Some)
  then show ?case
  proof cases
    case iter
    with assms Cons.prems(2) obtain j cs' where
      j: "sem inp a (i, cs) (j, cs')" "j \<le> length inp" "?k' (j, drop j inp, cs') = Some x"
      unfolding soundAt_def by blast
    from j(3) have lt: "i < j" and "repeatLazy fuel m (j, drop j inp, cs') k = Some x"
      by (auto split: if_splits)
    with Cons.IH j(2) obtain j' cs'' where
      "sem inp (Lazy a) (j, cs') (j', cs'')" "j' \<le> length inp" "k (j', drop j' inp, cs'') = Some x"
      by blast
    with j(1) lt semLazyStep[of inp a "(i, cs)" "(j, cs')" "(j', cs'')"] show ?thesis by auto
  next
    case stop
    with Cons.prems(2) show ?thesis by (auto intro: semLazyNil)
  qed
qed

lemma rmatch_soundAt: "soundAt inp r (rmatch r inp)"
proof (induction r)
  case (Lit w)
  show ?case
    unfolding soundAt_def
  proof (intro allI impI)
    fix i cs k x
    assume a: "rmatch (Lit w) inp (i, drop i inp, cs) k = Some x" and "i \<le> length inp"
    then have sw: "startsWith (drop i inp) w" and kx: "k (i + length w, drop (length w) (drop i inp), cs) = Some x"
      by (auto split: if_splits)
    from sw have "length w \<le> length inp - i" using startsWith_length by fastforce
    with \<open>i \<le> length inp\<close> have "i + length w \<le> length inp" by simp
    moreover have "drop (length w) (drop i inp) = drop (i + length w) inp" by (simp add: add.commute)
    ultimately show "\<exists>j cs'. sem inp (Lit w) (i, cs) (j, cs') \<and> j \<le> length inp \<and> k (j, drop j inp, cs') = Some x"
      using sw kx by (auto intro: semLit)
  qed
next
  case (Atom c)
  show ?case
    unfolding soundAt_def
  proof (intro allI impI)
    fix i cs k x
    assume a: "rmatch (Atom c) inp (i, drop i inp, cs) k = Some x" and le: "i \<le> length inp"
    then obtain y ys where d: "drop i inp = y # ys" and cl: "inClass c y" and kx: "k (Suc i, ys, cs) = Some x"
      by (auto split: list.splits if_splits)
    from d have lt: "i < length inp" by (metis drop_all leI list.distinct(1))
    with d have "inp ! i = y" "ys = drop (Suc i) inp"
      by (metis Cons_nth_drop_Suc list.inject)+
    with lt cl kx show "\<exists>j cs'. sem inp (Atom c) (i, cs) (j, cs') \<and> j \<le> length inp \<and> k (j, drop j inp, cs') = Some x"
      by (intro exI[of _ "Suc i"] exI[of _ cs]) (auto intro: semAtom)
  qed
next
  case Eps
  show ?case unfolding soundAt_def by (auto intro: semEps)
next
  case (Seq a b)
  show ?case
    unfolding soundAt_def
  proof (intro allI impI)
    fix i cs k x
    assume "rmatch (Seq a b) inp (i, drop i inp, cs) k = Some x" and le: "i \<le> length inp"
    then have "rmatch a inp (i, drop i inp, cs) (\<lambda>st'. rmatch b inp st' k) = Some x" by simp
    with Seq.IH(1) le obtain j cs' where
      j: "sem inp a (i, cs) (j, cs')" "j \<le> length inp" "rmatch b inp (j, drop j inp, cs') k = Some x"
      unfolding soundAt_def by blast
    with Seq.IH(2) obtain j' cs'' where
      "sem inp b (j, cs') (j', cs'')" "j' \<le> length inp" "k (j', drop j' inp, cs'') = Some x"
      unfolding soundAt_def by blast
    with j(1) show "\<exists>j cs'. sem inp (Seq a b) (i, cs) (j, cs') \<and> j \<le> length inp \<and> k (j, drop j inp, cs') = Some x"
      by (blast intro: semSeq)
  qed
next
  case (Alt a b)
  show ?case
    unfolding soundAt_def
  proof (intro allI impI)
    fix i cs k x
    assume "rmatch (Alt a b) inp (i, drop i inp, cs) k = Some x" and le: "i \<le> length inp"
    then consider "rmatch a inp (i, drop i inp, cs) k = Some x" | "rmatch b inp (i, drop i inp, cs) k = Some x"
      by (auto simp: orElse_Some)
    then show "\<exists>j cs'. sem inp (Alt a b) (i, cs) (j, cs') \<and> j \<le> length inp \<and> k (j, drop j inp, cs') = Some x"
    proof cases
      case 1
      with Alt.IH(1) le show ?thesis unfolding soundAt_def by (blast intro: semAltL)
    next
      case 2
      with Alt.IH(2) le show ?thesis unfolding soundAt_def by (blast intro: semAltR)
    qed
  qed
next
  case (Star a)
  then show ?case
    unfolding soundAt_def[of inp "Star a"] using repeatGreedy_sound[of inp a "rmatch a inp"]
    by (simp del: repeatGreedy.simps)
next
  case (Lazy a)
  then show ?case
    unfolding soundAt_def[of inp "Lazy a"] using repeatLazy_sound[of inp a "rmatch a inp"]
    by (simp del: repeatLazy.simps)
next
  case (Cap n a)
  show ?case
    unfolding soundAt_def
  proof (intro allI impI)
    fix i cs k x
    assume "rmatch (Cap n a) inp (i, drop i inp, cs) k = Some x" and le: "i \<le> length inp"
    then have "rmatch a inp (i, drop i inp, cs)
                 (\<lambda>st'. case st' of (j, rest, cs') \<Rightarrow> k (j, rest, (n, i, j) # cs')) = Some x"
      by simp
    with Cap.IH le obtain j cs' where
      "sem inp a (i, cs) (j, cs')" "j \<le> length inp" "k (j, drop j inp, (n, i, j) # cs') = Some x"
      unfolding soundAt_def by fastforce
    then show "\<exists>j cs'. sem inp (Cap n a) (i, cs) (j, cs') \<and> j \<le> length inp \<and> k (j, drop j inp, cs') = Some x"
      by (blast intro: semCap)
  qed
next
  case Bol
  show ?case
    unfolding soundAt_def
  proof (intro allI impI)
    fix i cs k x
    assume a: "rmatch Bol inp (i, drop i inp, cs) k = Some x" and le: "i \<le> length inp"
    then have "i = 0 \<or> isLineTerminator (inp ! (i - 1))"
      and "k (i, drop i inp, cs) = Some x"
      by (auto split: if_splits)
    with le show "\<exists>j cs'. sem inp Bol (i, cs) (j, cs') \<and> j \<le> length inp \<and> k (j, drop j inp, cs') = Some x"
      by (intro exI[of _ i] exI[of _ cs]) (simp add: semBol)
  qed
next
  case Eol
  show ?case
    unfolding soundAt_def
  proof (intro allI impI)
    fix i cs k x
    assume a: "rmatch Eol inp (i, drop i inp, cs) k = Some x" and le: "i \<le> length inp"
    show "\<exists>j cs'. sem inp Eol (i, cs) (j, cs') \<and> j \<le> length inp \<and> k (j, drop j inp, cs') = Some x"
    proof (cases "drop i inp")
      case Nil
      with a le show ?thesis by (auto intro!: semEol exI[of _ i])
    next
      case (Cons y ys)
      then have "i < length inp" by (metis drop_all leI list.distinct(1))
      with Cons have "inp ! i = y" by (metis Cons_nth_drop_Suc list.inject)
      with a le Cons show ?thesis by (auto intro!: semEol exI[of _ i] split: if_splits)
    qed
  qed
next
  case Eoi
  show ?case
    unfolding soundAt_def
  proof (intro allI impI)
    fix i cs k x
    assume a: "rmatch Eoi inp (i, drop i inp, cs) k = Some x" and le: "i \<le> length inp"
    then have "drop i inp = []" and "k (i, drop i inp, cs) = Some x"
      by (auto split: list.splits)
    with le show "\<exists>j cs'. sem inp Eoi (i, cs) (j, cs') \<and> j \<le> length inp \<and> k (j, drop j inp, cs') = Some x"
      by (intro exI[of _ i] exI[of _ cs]) (simp add: semEoi)
  qed
qed


lemma sem_mono: "sem inp r s t \<Longrightarrow> fst s \<le> fst t"
  by (induction rule: sem.induct) auto

lemma sem_bound: "sem inp r s t \<Longrightarrow> fst s \<le> length inp \<Longrightarrow> fst t \<le> length inp"
proof (induction rule: sem.induct)
  case (semLit i w cs)
  from semLit(1) have "length w \<le> length inp - i" using startsWith_length by fastforce
  with semLit(2) show ?case by simp
qed auto

lemma rmatch_complete_aux:
  "sem inp r s t \<Longrightarrow> fst s \<le> length inp \<Longrightarrow>
   (\<forall>k. k (stateAt inp t) \<noteq> None \<longrightarrow> rmatch r inp (stateAt inp s) k \<noteq> None)
   \<and> (\<forall>a. r = Star a \<longrightarrow>
         (\<forall>fuel k. length inp - fst s < length fuel \<longrightarrow> k (stateAt inp t) \<noteq> None \<longrightarrow>
            repeatGreedy fuel (rmatch a inp) (stateAt inp s) k \<noteq> None))
   \<and> (\<forall>a. r = Lazy a \<longrightarrow>
         (\<forall>fuel k. length inp - fst s < length fuel \<longrightarrow> k (stateAt inp t) \<noteq> None \<longrightarrow>
            repeatLazy fuel (rmatch a inp) (stateAt inp s) k \<noteq> None))"
proof (induction rule: sem.induct)
  case (semLit i w cs)
  then show ?case by (simp add: stateAt_def add.commute)
next
  case (semAtom i c cs)
  then have "drop i inp = inp ! i # drop (Suc i) inp" by (simp add: Cons_nth_drop_Suc)
  with semAtom show ?case by (simp add: stateAt_def)
next
  case (semEps s)
  then show ?case by (simp add: stateAt_def)
next
  case (semSeq a s t b u)
  from semSeq(1,5) have "fst t \<le> length inp" by (rule sem_bound)
  with semSeq show ?case by (simp add: stateAt_def)
next
  case (semAltL a s t b)
  then show ?case by (simp add: orElse_None stateAt_def)
next
  case (semAltR b s t a)
  then show ?case by (simp add: orElse_None stateAt_def)
next
  case (semStarNil a s)
  have g: "repeatGreedy fuel (rmatch a inp) (stateAt inp s) k \<noteq> None"
    if "length inp - fst s < length fuel" "k (stateAt inp s) \<noteq> None" for fuel k
    using that by (cases fuel) (auto simp: orElse_None stateAt_def)
  show ?case using g by (auto simp: stateAt_def simp del: repeatGreedy.simps)
next
  case (semStarStep a s t u)
  have tle: "fst t \<le> length inp" using semStarStep(1,6) by (rule sem_bound)
  have body: "\<And>k. k (stateAt inp t) \<noteq> None \<Longrightarrow> rmatch a inp (stateAt inp s) k \<noteq> None"
    using semStarStep by simp
  have rest: "\<And>fuel k. length inp - fst t < length fuel \<Longrightarrow> k (stateAt inp u) \<noteq> None \<Longrightarrow>
      repeatGreedy fuel (rmatch a inp) (stateAt inp t) k \<noteq> None"
    using semStarStep tle by simp
  have g: "repeatGreedy fuel (rmatch a inp) (stateAt inp s) k \<noteq> None"
    if n: "length inp - fst s < length fuel" and k: "k (stateAt inp u) \<noteq> None" for fuel k
  proof -
    from n obtain c fuel' where n': "fuel = c # fuel'" by (cases fuel) auto
    with n semStarStep(2) tle have fuel: "length inp - fst t < length fuel'" by simp
    have "repeatGreedy fuel' (rmatch a inp) (stateAt inp t) k \<noteq> None"
      using rest[of fuel' k] fuel k by blast
    with semStarStep(2) have
      "(\<lambda>st'. if fst (stateAt inp s) < fst st' then repeatGreedy fuel' (rmatch a inp) st' k else None)
         (stateAt inp t) \<noteq> None"
      by (simp add: stateAt_def)
    then have "rmatch a inp (stateAt inp s)
        (\<lambda>st'. if fst (stateAt inp s) < fst st' then repeatGreedy fuel' (rmatch a inp) st' k else None) \<noteq> None"
      using body[of "\<lambda>st'. if fst (stateAt inp s) < fst st' then repeatGreedy fuel' (rmatch a inp) st' k else None"]
      by blast
    then show ?thesis by (simp add: n' orElse_None stateAt_def)
  qed
  show ?case using g by (auto simp: stateAt_def simp del: repeatGreedy.simps)
next
  case (semLazyNil a s)
  have g: "repeatLazy fuel (rmatch a inp) (stateAt inp s) k \<noteq> None"
    if "length inp - fst s < length fuel" "k (stateAt inp s) \<noteq> None" for fuel k
    using that by (cases fuel) (auto simp: orElse_None stateAt_def)
  show ?case using g by (auto simp: stateAt_def simp del: repeatLazy.simps)
next
  case (semLazyStep a s t u)
  have tle: "fst t \<le> length inp" using semLazyStep(1,6) by (rule sem_bound)
  have body: "\<And>k. k (stateAt inp t) \<noteq> None \<Longrightarrow> rmatch a inp (stateAt inp s) k \<noteq> None"
    using semLazyStep by simp
  have rest: "\<And>fuel k. length inp - fst t < length fuel \<Longrightarrow> k (stateAt inp u) \<noteq> None \<Longrightarrow>
      repeatLazy fuel (rmatch a inp) (stateAt inp t) k \<noteq> None"
    using semLazyStep tle by simp
  have g: "repeatLazy fuel (rmatch a inp) (stateAt inp s) k \<noteq> None"
    if n: "length inp - fst s < length fuel" and k: "k (stateAt inp u) \<noteq> None" for fuel k
  proof -
    from n obtain c fuel' where n': "fuel = c # fuel'" by (cases fuel) auto
    with n semLazyStep(2) tle have fuel: "length inp - fst t < length fuel'" by simp
    have "repeatLazy fuel' (rmatch a inp) (stateAt inp t) k \<noteq> None"
      using rest[of fuel' k] fuel k by blast
    with semLazyStep(2) have
      "(\<lambda>st'. if fst (stateAt inp s) < fst st' then repeatLazy fuel' (rmatch a inp) st' k else None)
         (stateAt inp t) \<noteq> None"
      by (simp add: stateAt_def)
    then have "rmatch a inp (stateAt inp s)
        (\<lambda>st'. if fst (stateAt inp s) < fst st' then repeatLazy fuel' (rmatch a inp) st' k else None) \<noteq> None"
      using body[of "\<lambda>st'. if fst (stateAt inp s) < fst st' then repeatLazy fuel' (rmatch a inp) st' k else None"]
      by blast
    then show ?thesis by (simp add: n' orElse_None stateAt_def)
  qed
  show ?case using g by (auto simp: stateAt_def simp del: repeatLazy.simps)
next
  case (semCap a i cs j cs' n)
  then show ?case by (simp add: stateAt_def)
next
  case (semBol i cs)
  then show ?case by (auto simp: stateAt_def)
next
  case (semEol i cs)
  show ?case
  proof (cases "drop i inp")
    case Nil
    then show ?thesis by (simp add: stateAt_def)
  next
    case (Cons y ys)
    then have "i < length inp" by (metis drop_all leI list.distinct(1))
    with Cons have "inp ! i = y" by (metis Cons_nth_drop_Suc list.inject)
    with semEol Cons \<open>i < length inp\<close> show ?thesis by (auto simp: stateAt_def)
  qed
next
  case (semEoi i cs)
  then show ?case by (simp add: stateAt_def)
qed

lemma rmatch_complete:
  "sem inp r (i, cs) (j, cs') \<Longrightarrow> i \<le> length inp \<Longrightarrow> k (j, drop j inp, cs') \<noteq> None \<Longrightarrow>
   rmatch r inp (i, drop i inp, cs) k \<noteq> None"
  using rmatch_complete_aux[of inp r "(i, cs)" "(j, cs')"] by (simp add: stateAt_def)

lemma rmatch_sound:
  "rmatch r inp (i, drop i inp, cs) k = Some x \<Longrightarrow> i \<le> length inp \<Longrightarrow>
   \<exists>j cs'. sem inp r (i, cs) (j, cs') \<and> j \<le> length inp \<and> k (j, drop j inp, cs') = Some x"
  using rmatch_soundAt[of inp r] unfolding soundAt_def by blast


lemma drop_Cons_Suc: "drop i inp = x # xs \<Longrightarrow> i < length inp \<and> xs = drop (Suc i) inp \<and> inp ! i = x"
  by (metis Cons_nth_drop_Suc drop_all leI list.distinct(1) list.inject)

lemma searchFrom_Some:
  "searchFrom r inp i rest = Some (p, e, cs) \<Longrightarrow> rest = drop i inp \<Longrightarrow> i \<le> length inp \<Longrightarrow>
   i \<le> p \<and> p \<le> length inp
   \<and> (\<exists>rest'. rmatch r inp (p, drop p inp, []) Some = Some (e, rest', cs))
   \<and> (\<forall>q. i \<le> q \<and> q < p \<longrightarrow> rmatch r inp (q, drop q inp, []) Some = None)"
proof (induction r inp i rest rule: searchFrom.induct)
  case (1 r inp i)
  then show ?case by (auto split: option.splits)
next
  case (2 r inp i x xs)
  from 2(3) have d: "i < length inp" "xs = drop (Suc i) inp"
    using drop_Cons_Suc[of i inp x xs] by auto
  show ?case
  proof (cases "rmatch r inp (i, x # xs, []) Some")
    case None
    with 2(2) have "searchFrom r inp (Suc i) xs = Some (p, e, cs)" by simp
    with 2(1)[OF None] d have
      ih: "Suc i \<le> p \<and> p \<le> length inp
         \<and> (\<exists>rest'. rmatch r inp (p, drop p inp, []) Some = Some (e, rest', cs))
         \<and> (\<forall>q. Suc i \<le> q \<and> q < p \<longrightarrow> rmatch r inp (q, drop q inp, []) Some = None)"
      by simp
    have "rmatch r inp (q, drop q inp, []) Some = None" if "i \<le> q" "q < p" for q
    proof (cases "q = i")
      case True
      with None 2(3) show ?thesis by simp
    next
      case False
      with that ih show ?thesis by simp
    qed
    with ih show ?thesis by auto
  next
    case (Some st)
    obtain e' r' c' where st: "st = (e', r', c')" by (cases st) auto
    with Some 2(2) have "p = i" "e' = e" "c' = cs" by auto
    with Some st 2(3,4) show ?thesis by auto
  qed
qed

lemma searchFrom_None:
  "searchFrom r inp i rest = None \<Longrightarrow> rest = drop i inp \<Longrightarrow> i \<le> length inp \<Longrightarrow>
   (\<forall>q. i \<le> q \<and> q \<le> length inp \<longrightarrow> rmatch r inp (q, drop q inp, []) Some = None)"
proof (induction r inp i rest rule: searchFrom.induct)
  case (1 r inp i)
  then have "i = length inp" by simp
  with 1 show ?case by (auto split: option.splits)
next
  case (2 r inp i x xs)
  from 2(3) have d: "i < length inp" "xs = drop (Suc i) inp"
    using drop_Cons_Suc[of i inp x xs] by auto
  from 2(2) have none: "rmatch r inp (i, x # xs, []) Some = None"
    and rest: "searchFrom r inp (Suc i) xs = None"
    by (auto split: option.splits)
  from 2(1)[OF none rest] d have
    ih: "\<forall>q. Suc i \<le> q \<and> q \<le> length inp \<longrightarrow> rmatch r inp (q, drop q inp, []) Some = None"
    by simp
  have "rmatch r inp (q, drop q inp, []) Some = None" if "i \<le> q" "q \<le> length inp" for q
  proof (cases "q = i")
    case True
    with none 2(3) show ?thesis by simp
  next
    case False
    with that ih show ?thesis by simp
  qed
  then show ?case by simp
qed

lemma rmatch_Some_sem:
  assumes "rmatch r inp (p, drop p inp, []) Some = Some (e, rest', cs)" "p \<le> length inp"
  shows "sem inp r (p, []) (e, cs) \<and> e \<le> length inp \<and> rest' = drop e inp"
  using rmatch_sound[OF assms] by auto

lemma rmatch_None_sem:
  assumes "rmatch r inp (p, drop p inp, []) Some = None" "p \<le> length inp"
  shows "\<not> matchesAt inp r p"
  using rmatch_complete[of inp r p "[]" _ _ Some] assms unfolding matchesAt_def by blast

lemma regexMatch_Some:
  assumes "regexMatch r inp = Some (p, e, cs)"
  shows "sem inp r (p, []) (e, cs) \<and> p \<le> e \<and> e \<le> length inp
         \<and> (\<forall>q < p. \<not> matchesAt inp r q)"
proof -
  from assms have s: "searchFrom r inp 0 (drop 0 inp) = Some (p, e, cs)"
    by (simp add: regexMatch_def regexExec_def)
  from searchFrom_Some[OF s] obtain rest' where
    p: "p \<le> length inp" and m: "rmatch r inp (p, drop p inp, []) Some = Some (e, rest', cs)"
    and first: "\<forall>q. q < p \<longrightarrow> rmatch r inp (q, drop q inp, []) Some = None"
    by auto
  from rmatch_Some_sem[OF m p] have sm: "sem inp r (p, []) (e, cs)" and e: "e \<le> length inp" by auto
  from sem_mono[OF sm] have "p \<le> e" by simp
  moreover have "\<not> matchesAt inp r q" if "q < p" for q
    using first that p rmatch_None_sem[of r inp q] by simp
  ultimately show ?thesis using sm e by blast
qed

lemma regexMatch_None:
  "regexMatch r inp = None \<longleftrightarrow> (\<forall>q \<le> length inp. \<not> matchesAt inp r q)"
proof
  assume "regexMatch r inp = None"
  then have "searchFrom r inp 0 (drop 0 inp) = None" by (simp add: regexMatch_def regexExec_def)
  from searchFrom_None[OF this] show "\<forall>q \<le> length inp. \<not> matchesAt inp r q"
    using rmatch_None_sem[of r inp] by simp
next
  assume a: "\<forall>q \<le> length inp. \<not> matchesAt inp r q"
  show "regexMatch r inp = None"
  proof (rule ccontr)
    assume "regexMatch r inp \<noteq> None"
    then obtain p e cs where m: "regexMatch r inp = Some (p, e, cs)" by auto
    from regexMatch_Some[OF m] have "matchesAt inp r p" "p \<le> length inp"
      unfolding matchesAt_def by auto
    with a show False by blast
  qed
qed

lemma matchAllFrom_bounds:
  "m \<in> set (matchAllFrom r inp li i rest) \<Longrightarrow> rest = drop i inp \<Longrightarrow> i \<le> length inp \<Longrightarrow>
   (case m of (p, e, cs) \<Rightarrow> i \<le> p \<and> p \<le> e \<and> e \<le> length inp \<and> sem inp r (p, []) (e, cs))"
proof (induction r inp li i rest rule: matchAllFrom.induct)
  case (1 r inp lastIndex i)
  then obtain e rest' cs where m: "m = (i, e, cs)"
    and r: "rmatch r inp (i, drop i inp, []) Some = Some (e, rest', cs)"
    by (cases "rmatch r inp (i, [], []) Some") (auto split: if_splits)
  from rmatch_Some_sem[OF r 1(3)] sem_mono[of inp r "(i, [])" "(e, cs)"] m show ?case by auto
next
  case (2 r inp lastIndex i x xs)
  from 2(5) have d: "i < length inp" "xs = drop (Suc i) inp"
    using drop_Cons_Suc[of i inp x xs] by auto
  show ?case
  proof (cases "i < lastIndex")
    case True
    with 2(4) have "m \<in> set (matchAllFrom r inp lastIndex (Suc i) xs)" by simp
    from "2.IH"(1)[OF True this] d show ?thesis by (auto split: prod.splits)
  next
    case False
    show ?thesis
    proof (cases "rmatch r inp (i, x # xs, []) Some")
      case None
      with False 2(4) have "m \<in> set (matchAllFrom r inp lastIndex (Suc i) xs)" by simp
      from "2.IH"(2)[OF False None this] d show ?thesis by (auto split: prod.splits)
    next
      case (Some st)
      obtain e rest' cs where st: "st = (e, rest', cs)" by (cases st) auto
      from Some st 2(5) have r: "rmatch r inp (i, drop i inp, []) Some = Some (e, rest', cs)" by simp
      from False Some st 2(4) consider "m = (i, e, cs)"
        | "m \<in> set (matchAllFrom r inp (if e = i then Suc e else e) (Suc i) xs)"
        by auto
      then show ?thesis
      proof cases
        case 1
        with rmatch_Some_sem[OF r 2(6)] sem_mono[of inp r "(i, [])" "(e, cs)"] show ?thesis by auto
      next
        case 2
        from "2.IH"(3)[OF False Some st[symmetric] refl 2] d show ?thesis
          by (auto split: prod.splits)
      qed
    qed
  qed
qed

lemma matchAll_bounds:
  "(p, e, cs) \<in> set (matchAll r inp) \<Longrightarrow> p \<le> e \<and> e \<le> length inp \<and> sem inp r (p, []) (e, cs)"
  using matchAllFrom_bounds[of "(p, e, cs)" r inp 0 0 inp] by (simp add: matchAll_def)

lemma substring_take: "a \<le> b \<Longrightarrow> substring s a b = take (b - a) (drop a s)"
  by (simp add: substring_def max_def min_def)

lemma substring_chain:
  assumes "n \<le> p" "p \<le> e"
  shows "substring s n p @ substring s p e @ drop e s = drop n s"
proof -
  have "take (e - p) (drop p s) @ drop e s = drop p s"
    using assms by (metis add_diff_cancel_left' append_take_drop_id drop_drop le_Suc_ex add.commute)
  moreover have "take (p - n) (drop n s) @ drop p s = drop n s"
    using assms by (metis add_diff_cancel_left' append_take_drop_id drop_drop le_Suc_ex add.commute)
  ultimately show ?thesis using assms by (simp add: substring_take)
qed

lemma replaceMatches_id:
  "(\<forall>m \<in> set ms. f m = Inr (matched inp m)) \<Longrightarrow> (\<forall>m \<in> set ms. case m of (p, e, cs) \<Rightarrow> p \<le> e) \<Longrightarrow>
   replaceMatches inp f n ms = Inr (drop n inp)"
proof (induction ms arbitrary: n)
  case Nil
  then show ?case by simp
next
  case (Cons m ms)
  obtain p e cs where m: "m = (p, e, cs)" by (cases m) auto
  with Cons.prems have pe: "p \<le> e" and fm: "f (p, e, cs) = Inr (substring inp p e)"
    by (auto simp: matched_def)
  from Cons have ih: "\<And>n. replaceMatches inp f n ms = Inr (drop n inp)" by simp
  show ?case
  proof (cases "n \<le> p")
    case True
    with m fm ih pe show ?thesis by (simp add: substring_chain)
  next
    case False
    with m ih show ?thesis by simp
  qed
qed

section \<open>Properties of the template engine\<close>

text \<open>
  Claim C9. \<open>processTemplate\<close> and \<open>processFileName\<close> are the same function: the text of
  a file and the name of a file or directory are rendered by the same substitution.
\<close>

theorem processTemplate_eq_processFileName:
  "processTemplate rt s context = processFileName rt s context"
  by (simp add: processTemplate_def processFileName_def)

lemma isUndefined_iff [simp]: "isUndefined v \<longleftrightarrow> v = JUndefined"
  by (cases v) auto

lemma isNull_iff [simp]: "isNull v \<longleftrightarrow> v = JNull"
  by (cases v) auto

lemma split_nonempty: "split c s \<noteq> []"
  by (induction s) (auto split: list.splits)

lemma descend_append:
  "descend rt v (xs @ ys) = (case descend rt v xs of None \<Rightarrow> None | Some u \<Rightarrow> descend rt u ys)"
  by (induction xs arbitrary: v) auto

lemma descend_None_iff:
  "descend rt v parts = None \<longleftrightarrow>
   (\<exists>k<length parts. \<exists>u. descend rt v (take k parts) = Some u \<and> (u = JUndefined \<or> u = JNull))"
proof (induction parts arbitrary: v)
  case Nil
  then show ?case by simp
next
  case (Cons part parts)
  show ?case
  proof (cases "v = JUndefined \<or> v = JNull")
    case True
    then have "descend rt v (take 0 (part # parts)) = Some v" by simp
    moreover from True have "descend rt v (part # parts) = None" by auto
    ultimately show ?thesis using True by (metis length_greater_0_conv list.distinct(1))
  next
    case False
    have "(\<exists>k<length (part # parts). \<exists>u. descend rt v (take k (part # parts)) = Some u \<and> (u = JUndefined \<or> u = JNull))
        \<longleftrightarrow> (\<exists>k<length parts. \<exists>u. descend rt (getProperty rt v part) (take k parts) = Some u \<and> (u = JUndefined \<or> u = JNull))"
      (is "?L \<longleftrightarrow> ?R")
    proof
      assume ?L
      then obtain k u where k: "k < length (part # parts)"
        "descend rt v (take k (part # parts)) = Some u" "u = JUndefined \<or> u = JNull" by blast
      with False obtain k' where "k = Suc k'" by (cases k) auto
      with k False show ?R by auto
    next
      assume ?R
      then obtain k u where "k < length parts"
        "descend rt (getProperty rt v part) (take k parts) = Some u" "u = JUndefined \<or> u = JNull" by blast
      with False show ?L by (intro exI[of _ "Suc k"]) auto
    qed
    with False Cons show ?thesis by simp
  qed
qed

lemma getValueFromContext_unresolved:
  assumes "k < length (split CHR ''.'' path)"
    and "descend rt ctx (take k (split CHR ''.'' path)) = Some v"
    and "v = JUndefined \<or> v = JNull"
  shows "getValueFromContext rt path ctx = Inr None"
proof -
  from assms have "descend rt ctx (split CHR ''.'' path) = None"
    using descend_None_iff[of rt ctx "split CHR ''.'' path"] by blast
  then show ?thesis by (simp add: getValueFromContext_def)
qed

inductive_cases sem_LitE: "sem inp (Lit w) s t"

inductive_cases sem_SeqE: "sem inp (Seq a b) s t"

inductive_cases sem_CapE: "sem inp (Cap n a) s t"

lemma placeholder_captured:
  assumes "m \<in> set (matchAll TEMPLATE_PLACEHOLDER_REGEX template)"
  shows "\<exists>placeholder. capture template m 1 = Some placeholder"
proof -
  obtain p e cs where m: "m = (p, e, cs)" by (cases m) auto
  with assms have "sem template TEMPLATE_PLACEHOLDER_REGEX (p, []) (e, cs)"
    using matchAll_bounds by blast
  then obtain i j cs' where "cs = (1, i, j) # cs'"
    unfolding TEMPLATE_PLACEHOLDER_REGEX_def seqs.simps
    by (auto elim!: sem_SeqE sem_LitE sem_CapE)
  with m show ?thesis by (simp add: capture_def)
qed

text \<open>
  Claim C3. When the descent along a placeholder's path reaches \<open>undefined\<close> or \<open>null\<close>
  before the last segment has been read, the lookup yields no value; \<open>processTemplate\<close>
  then puts the matched text, delimiters included, where the placeholder stood, whatever
  the other placeholders of the template resolve to; a template all of whose
  placeholders are of this kind is returned unchanged; and
  \<open>processTemplate("{{a.b.c}}", {a: {}})\<close> is \<open>"{{a.b.c}}"\<close>.
\<close>

theorem unresolved_placeholder_preserved:
  "(\<forall>(rt :: 'n runtime) ctx path k v.
      k < length (split CHR ''.'' path)
      \<and> descend rt ctx (take k (split CHR ''.'' path)) = Some v
      \<and> (v = JUndefined \<or> v = JNull)
      \<longrightarrow> getValueFromContext rt path ctx = Inr None)
   \<and> (\<forall>(rt :: 'n runtime) template ctx. \<exists>f.
        processTemplate rt template ctx
          = replaceMatches template f 0 (matchAll TEMPLATE_PLACEHOLDER_REGEX template)
        \<and> (\<forall>m \<in> set (matchAll TEMPLATE_PLACEHOLDER_REGEX template). \<forall>placeholder k v.
              capture template m 1 = Some placeholder
              \<and> k < length (split CHR ''.'' (trim placeholder))
              \<and> descend rt ctx (take k (split CHR ''.'' (trim placeholder))) = Some v
              \<and> (v = JUndefined \<or> v = JNull)
              \<longrightarrow> f m = Inr (matched template m)))
   \<and> (\<forall>(rt :: 'n runtime) template ctx.
        (\<forall>m \<in> set (matchAll TEMPLATE_PLACEHOLDER_REGEX template). \<forall>placeholder.
           capture template m 1 = Some placeholder \<longrightarrow>
           (\<exists>k v. k < length (split CHR ''.'' (trim placeholder))
                  \<and> descend rt ctx (take k (split CHR ''.'' (trim placeholder))) = Some v
                  \<and> (v = JUndefined \<or> v = JNull)))
        \<longrightarrow> processTemplate rt template ctx = Inr template)
   \<and> (\<forall>rt :: 'n runtime.
        processTemplate rt ''{{a.b.c}}'' (JObj [(''a'', JObj [])]) = Inr ''{{a.b.c}}'')"
proof (intro conjI allI)
  fix rt :: "'n runtime" and ctx path k v
  show "k < length (split CHR ''.'' path)
      \<and> descend rt ctx (take k (split CHR ''.'' path)) = Some v
      \<and> (v = JUndefined \<or> v = JNull)
      \<longrightarrow> getValueFromContext rt path ctx = Inr None"
    using getValueFromContext_unresolved by blast
next
  fix rt :: "'n runtime" and template ctx
  let ?f = "\<lambda>m. case capture template m 1 of
               None \<Rightarrow> Inl TypeError
             | Some placeholder \<Rightarrow>
                 (let trimmedPlaceholder = trim placeholder
                  in case getValueFromContext rt trimmedPlaceholder ctx of
                       Inl err \<Rightarrow> Inl err
                     | Inr None \<Rightarrow> Inr (matched template m)
                     | Inr (Some v) \<Rightarrow> Inr v)"
  have "processTemplate rt template ctx
          = replaceMatches template ?f 0 (matchAll TEMPLATE_PLACEHOLDER_REGEX template)"
    by (simp add: processTemplate_def replaceAllFn_def)
  moreover have "\<forall>m \<in> set (matchAll TEMPLATE_PLACEHOLDER_REGEX template). \<forall>placeholder k v.
              capture template m 1 = Some placeholder
              \<and> k < length (split CHR ''.'' (trim placeholder))
              \<and> descend rt ctx (take k (split CHR ''.'' (trim placeholder))) = Some v
              \<and> (v = JUndefined \<or> v = JNull)
              \<longrightarrow> ?f m = Inr (matched template m)"
    using getValueFromContext_unresolved[of _ _ rt ctx] by (auto simp: Let_def)
  ultimately show "\<exists>f.
        processTemplate rt template ctx
          = replaceMatches template f 0 (matchAll TEMPLATE_PLACEHOLDER_REGEX template)
        \<and> (\<forall>m \<in> set (matchAll TEMPLATE_PLACEHOLDER_REGEX template). \<forall>placeholder k v.
              capture template m 1 = Some placeholder
              \<and> k < length (split CHR ''.'' (trim placeholder))
              \<and> descend rt ctx (take k (split CHR ''.'' (trim placeholder))) = Some v
              \<and> (v = JUndefined \<or> v = JNull)
              \<longrightarrow> f m = Inr (matched template m))"
    by blast
next
  fix rt :: "'n runtime" and template ctx
  show "(\<forall>m \<in> set (matchAll TEMPLATE_PLACEHOLDER_REGEX template). \<forall>placeholder.
           capture template m 1 = Some placeholder \<longrightarrow>
           (\<exists>k v. k < length (split CHR ''.'' (trim placeholder))
                  \<and> descend rt ctx (take k (split CHR ''.'' (trim placeholder))) = Some v
                  \<and> (v = JUndefined \<or> v = JNull)))
        \<longrightarrow> processTemplate rt template ctx = Inr template"
  proof
    assume a: "\<forall>m \<in> set (matchAll TEMPLATE_PLACEHOLDER_REGEX template). \<forall>placeholder.
           capture template m 1 = Some placeholder \<longrightarrow>
           (\<exists>k v. k < length (split CHR ''.'' (trim placeholder))
                  \<and> descend rt ctx (take k (split CHR ''.'' (trim placeholder))) = Some v
                  \<and> (v = JUndefined \<or> v = JNull))"
    let ?f = "\<lambda>m. case capture template m 1 of
               None \<Rightarrow> Inl TypeError
             | Some placeholder \<Rightarrow>
                 (let trimmedPlaceholder = trim placeholder
                  in case getValueFromContext rt trimmedPlaceholder ctx of
                       Inl err \<Rightarrow> Inl err
                     | Inr None \<Rightarrow> Inr (matched template m)
                     | Inr (Some v) \<Rightarrow> Inr v)"
    have f: "\<forall>m \<in> set (matchAll TEMPLATE_PLACEHOLDER_REGEX template). ?f m = Inr (matched template m)"
    proof
      fix m assume m: "m \<in> set (matchAll TEMPLATE_PLACEHOLDER_REGEX template)"
      from placeholder_captured[OF m] obtain placeholder where
        c: "capture template m 1 = Some placeholder" by blast
      with a m obtain k v where "k < length (split CHR ''.'' (trim placeholder))"
        "descend rt ctx (take k (split CHR ''.'' (trim placeholder))) = Some v"
        "v = JUndefined \<or> v = JNull" by blast
      then have "getValueFromContext rt (trim placeholder) ctx = Inr None"
        by (rule getValueFromContext_unresolved)
      with c show "?f m = Inr (matched template m)" by (simp add: Let_def)
    qed
    have b: "\<forall>m \<in> set (matchAll TEMPLATE_PLACEHOLDER_REGEX template). case m of (p, e, cs) \<Rightarrow> p \<le> e"
      using matchAll_bounds by fastforce
    have "replaceMatches template ?f 0 (matchAll TEMPLATE_PLACEHOLDER_REGEX template)
            = Inr (drop 0 template)"
      using f b by (rule replaceMatches_id)
    then show "processTemplate rt template ctx = Inr template"
      by (simp add: processTemplate_def replaceAllFn_def)
  qed
next
  fix rt :: "'n runtime"
  show "processTemplate rt ''{{a.b.c}}'' (JObj [(''a'', JObj [])]) = Inr ''{{a.b.c}}''"
    by code_simp
qed

theorem unresolved_placeholder_preserved_witness:
  "\<forall>rt :: 'n runtime.
     1 < length (split CHR ''.'' ''a.b.c'')
     \<and> descend rt (JObj [(''a'', JObj [])]) (take 1 (split CHR ''.'' ''a.b.c'')) = Some (JObj [])
     \<and> 2 < length (split CHR ''.'' ''a.b.c'')
     \<and> descend rt (JObj [(''a'', JObj [])]) (take 2 (split CHR ''.'' ''a.b.c'')) = Some JUndefined
     \<and> getValueFromContext rt ''a.b.c'' (JObj [(''a'', JObj [])]) = Inr None"
proof
  fix rt :: "'n runtime"
  have h1: "2 < length (split CHR ''.'' ''a.b.c'')" by simp
  have h2: "descend rt (JObj [(''a'', JObj [])]) (take 2 (split CHR ''.'' ''a.b.c'')) = Some JUndefined"
    by (simp add: numeral_2_eq_2 objectPrototypeKeys_def)
  have h3: "descend rt (JObj [(''a'', JObj [])]) (take 1 (split CHR ''.'' ''a.b.c'')) = Some (JObj [])"
    by simp
  from unresolved_placeholder_preserved[where 'n = 'n] h1 h2
  have "getValueFromContext rt ''a.b.c'' (JObj [(''a'', JObj [])]) = Inr None" by blast
  with h1 h2 h3 show "1 < length (split CHR ''.'' ''a.b.c'')
     \<and> descend rt (JObj [(''a'', JObj [])]) (take 1 (split CHR ''.'' ''a.b.c'')) = Some (JObj [])
     \<and> 2 < length (split CHR ''.'' ''a.b.c'')
     \<and> descend rt (JObj [(''a'', JObj [])]) (take 2 (split CHR ''.'' ''a.b.c'')) = Some JUndefined
     \<and> getValueFromContext rt ''a.b.c'' (JObj [(''a'', JObj [])]) = Inr None"
    by simp
qed

lemma getValueFromContext_None_iff:
  "getValueFromContext rt path ctx = Inr None \<longleftrightarrow>
   (\<exists>k \<le> length (split CHR ''.'' path).
      descend rt ctx (take k (split CHR ''.'' path)) = Some JUndefined)
   \<or> (\<exists>k < length (split CHR ''.'' path).
      descend rt ctx (take k (split CHR ''.'' path)) = Some JNull)"
  (is "?L \<longleftrightarrow> ?U \<or> ?N")
proof
  let ?ps = "split CHR ''.'' path"
  assume ?L
  then consider "descend rt ctx ?ps = None" | "descend rt ctx ?ps = Some JUndefined"
    by (auto simp: getValueFromContext_def split: option.splits if_splits sum.splits)
  then show "?U \<or> ?N"
  proof cases
    case 1
    then obtain k u where "k < length ?ps" "descend rt ctx (take k ?ps) = Some u"
      "u = JUndefined \<or> u = JNull"
      using descend_None_iff[of rt ctx ?ps] by blast
    then show ?thesis by (metis less_imp_le_nat)
  next
    case 2
    then have "descend rt ctx (take (length ?ps) ?ps) = Some JUndefined" by simp
    then show ?thesis by blast
  qed
next
  let ?ps = "split CHR ''.'' path"
  assume "?U \<or> ?N"
  then consider (u) k where "k \<le> length ?ps" "descend rt ctx (take k ?ps) = Some JUndefined"
    | (n) k where "k < length ?ps" "descend rt ctx (take k ?ps) = Some JNull"
    by blast
  then show ?L
  proof cases
    case u
    show ?thesis
    proof (cases "k = length ?ps")
      case True
      with u show ?thesis by (simp add: getValueFromContext_def)
    next
      case False
      with u have "k < length ?ps" by simp
      with u show ?thesis using getValueFromContext_unresolved by blast
    qed
  next
    case n
    then show ?thesis using getValueFromContext_unresolved by blast
  qed
qed

lemma getValueFromContext_null:
  assumes "descend rt ctx (butlast (split CHR ''.'' path)) = Some v"
    and "v \<noteq> JUndefined" "v \<noteq> JNull"
    and "getProperty rt v (last (split CHR ''.'' path)) = JNull"
  shows "getValueFromContext rt path ctx = Inr (Some ''null'')"
proof -
  let ?ps = "split CHR ''.'' path"
  have "?ps = butlast ?ps @ [last ?ps]" using split_nonempty by simp
  then have "descend rt ctx ?ps = descend rt ctx (butlast ?ps @ [last ?ps])" by simp
  also have "\<dots> = Some JNull" using assms by (simp add: descend_append)
  finally show ?thesis by (simp add: getValueFromContext_def)
qed

lemma processTemplate_null_examples:
  "processTemplate rt ''{{a.b}}'' (JObj [(''a'', JObj [(''b'', JNull)])]) = Inr ''null''"
  "processTemplate rt ''x={{a.b}};'' (JObj [(''a'', JObj [(''b'', JNull)])]) = Inr ''x=null;''"
  "processTemplate rt ''{{a.b}} {{a.c.d}}'' (JObj [(''a'', JObj [(''b'', JNull)])])
     = Inr ''null {{a.c.d}}''"
  by code_simp+

text \<open>
  Claim C10. When the segments before the last resolve to a value other than
  \<open>undefined\<close> and \<open>null\<close> and the last segment reads \<open>null\<close>, the lookup yields the text
  \<open>null\<close>, and \<open>processTemplate\<close> puts \<open>null\<close> where the placeholder stood: the result is
  the template with every match replaced by the replacer's text, which is \<open>null\<close> for
  such a placeholder, the matched text itself for a placeholder whose lookup yields no
  value, and the looked-up text otherwise. The lookup yields no value exactly when the
  descent reaches \<open>undefined\<close> at some segment or \<open>null\<close> before the last one. So
  \<open>{{a.b}}\<close> with \<open>{a: {b: null}}\<close> gives \<open>null\<close>, inside a text as well, while the
  unresolved \<open>{{a.c.d}}\<close> beside it is kept.
\<close>

theorem null_final_segment_substituted:
  "(\<forall>(rt :: 'n runtime) ctx path v.
      descend rt ctx (butlast (split CHR ''.'' path)) = Some v
      \<and> v \<noteq> JUndefined \<and> v \<noteq> JNull
      \<and> getProperty rt v (last (split CHR ''.'' path)) = JNull
      \<longrightarrow> getValueFromContext rt path ctx = Inr (Some ''null''))
   \<and> (\<forall>(rt :: 'n runtime) template ctx. \<exists>f.
        processTemplate rt template ctx
          = replaceMatches template f 0 (matchAll TEMPLATE_PLACEHOLDER_REGEX template)
        \<and> (\<forall>m \<in> set (matchAll TEMPLATE_PLACEHOLDER_REGEX template). \<forall>placeholder v.
              capture template m 1 = Some placeholder
              \<and> descend rt ctx (butlast (split CHR ''.'' (trim placeholder))) = Some v
              \<and> v \<noteq> JUndefined \<and> v \<noteq> JNull
              \<and> getProperty rt v (last (split CHR ''.'' (trim placeholder))) = JNull
              \<longrightarrow> f m = Inr ''null'')
        \<and> (\<forall>m \<in> set (matchAll TEMPLATE_PLACEHOLDER_REGEX template). \<forall>placeholder.
              capture template m 1 = Some placeholder
              \<and> getValueFromContext rt (trim placeholder) ctx = Inr None
              \<longrightarrow> f m = Inr (matched template m))
        \<and> (\<forall>m \<in> set (matchAll TEMPLATE_PLACEHOLDER_REGEX template). \<forall>placeholder s.
              capture template m 1 = Some placeholder
              \<and> getValueFromContext rt (trim placeholder) ctx = Inr (Some s)
              \<longrightarrow> f m = Inr s))
   \<and> (\<forall>(rt :: 'n runtime) ctx path.
        getValueFromContext rt path ctx = Inr None \<longleftrightarrow>
        (\<exists>k \<le> length (split CHR ''.'' path).
           descend rt ctx (take k (split CHR ''.'' path)) = Some JUndefined)
        \<or> (\<exists>k < length (split CHR ''.'' path).
           descend rt ctx (take k (split CHR ''.'' path)) = Some JNull))
   \<and> (\<forall>rt :: 'n runtime.
        processTemplate rt ''{{a.b}}'' (JObj [(''a'', JObj [(''b'', JNull)])]) = Inr ''null''
        \<and> processTemplate rt ''x={{a.b}};'' (JObj [(''a'', JObj [(''b'', JNull)])])
            = Inr ''x=null;''
        \<and> processTemplate rt ''{{a.b}} {{a.c.d}}'' (JObj [(''a'', JObj [(''b'', JNull)])])
            = Inr ''null {{a.c.d}}'')"
proof (intro conjI allI)
  fix rt :: "'n runtime" and ctx path v
  show "descend rt ctx (butlast (split CHR ''.'' path)) = Some v
      \<and> v \<noteq> JUndefined \<and> v \<noteq> JNull
      \<and> getProperty rt v (last (split CHR ''.'' path)) = JNull
      \<longrightarrow> getValueFromContext rt path ctx = Inr (Some ''null'')"
    using getValueFromContext_null by blast
next
  fix rt :: "'n runtime" and template ctx
  let ?f = "\<lambda>m. case capture template m 1 of
               None \<Rightarrow> Inl TypeError
             | Some placeholder \<Rightarrow>
                 (let trimmedPlaceholder = trim placeholder
                  in case getValueFromContext rt trimmedPlaceholder ctx of
                       Inl err \<Rightarrow> Inl err
                     | Inr None \<Rightarrow> Inr (matched template m)
                     | Inr (Some v) \<Rightarrow> Inr v)"
  have 1: "processTemplate rt template ctx
          = replaceMatches template ?f 0 (matchAll TEMPLATE_PLACEHOLDER_REGEX template)"
    by (simp add: processTemplate_def replaceAllFn_def)
  have 2: "\<forall>m \<in> set (matchAll TEMPLATE_PLACEHOLDER_REGEX template). \<forall>placeholder v.
              capture template m 1 = Some placeholder
              \<and> descend rt ctx (butlast (split CHR ''.'' (trim placeholder))) = Some v
              \<and> v \<noteq> JUndefined \<and> v \<noteq> JNull
              \<and> getProperty rt v (last (split CHR ''.'' (trim placeholder))) = JNull
              \<longrightarrow> ?f m = Inr ''null''"
    using getValueFromContext_null[of rt ctx] by (auto simp: Let_def)
  have 3: "\<forall>m \<in> set (matchAll TEMPLATE_PLACEHOLDER_REGEX template). \<forall>placeholder.
              capture template m 1 = Some placeholder
              \<and> getValueFromContext rt (trim placeholder) ctx = Inr None
              \<longrightarrow> ?f m = Inr (matched template m)"
    by (auto simp: Let_def)
  have 4: "\<forall>m \<in> set (matchAll TEMPLATE_PLACEHOLDER_REGEX template). \<forall>placeholder s.
              capture template m 1 = Some placeholder
              \<and> getValueFromContext rt (trim placeholder) ctx = Inr (Some s)
              \<longrightarrow> ?f m = Inr s"
    by (auto simp: Let_def)
  from 1 2 3 4 show "\<exists>f.
        processTemplate rt template ctx
          = replaceMatches template f 0 (matchAll TEMPLATE_PLACEHOLDER_REGEX template)
        \<and> (\<forall>m \<in> set (matchAll TEMPLATE_PLACEHOLDER_REGEX template). \<forall>placeholder v.
              capture template m 1 = Some placeholder
              \<and> descend rt ctx (butlast (split CHR ''.'' (trim placeholder))) = Some v
              \<and> v \<noteq> JUndefined \<and> v \<noteq> JNull
              \<and> getProperty rt v (last (split CHR ''.'' (trim placeholder))) = JNull
              \<longrightarrow> f m = Inr ''null'')
        \<and> (\<forall>m \<in> set (matchAll TEMPLATE_PLACEHOLDER_REGEX template). \<forall>placeholder.
              capture template m 1 = Some placeholder
              \<and> getValueFromContext rt (trim placeholder) ctx = Inr None
              \<longrightarrow> f m = Inr (matched template m))
        \<and> (\<forall>m \<in> set (matchAll TEMPLATE_PLACEHOLDER_REGEX template). \<forall>placeholder s.
              capture template m 1 = Some placeholder
              \<and> getValueFromContext rt (trim placeholder) ctx = Inr (Some s)
              \<longrightarrow> f m = Inr s)"
    by (intro exI[of _ ?f] conjI)
next
  fix rt :: "'n runtime" and ctx path
  show "getValueFromContext rt path ctx = Inr None \<longleftrightarrow>
        (\<exists>k \<le> length (split CHR ''.'' path).
           descend rt ctx (take k (split CHR ''.'' path)) = Some JUndefined)
        \<or> (\<exists>k < length (split CHR ''.'' path).
           descend rt ctx (take k (split CHR ''.'' path)) = Some JNull)"
    by (rule getValueFromContext_None_iff)
next
  fix rt :: "'n runtime"
  show "processTemplate rt ''{{a.b}}'' (JObj [(''a'', JObj [(''b'', JNull)])]) = Inr ''null''"
    and "processTemplate rt ''x={{a.b}};'' (JObj [(''a'', JObj [(''b'', JNull)])])
            = Inr ''x=null;''"
    and "processTemplate rt ''{{a.b}} {{a.c.d}}'' (JObj [(''a'', JObj [(''b'', JNull)])])
            = Inr ''null {{a.c.d}}''"
    by (rule processTemplate_null_examples)+
qed

theorem null_final_segment_substituted_witness:
  "\<forall>rt :: 'n runtime.
     descend rt (JObj [(''a'', JObj [(''b'', JNull)])]) (butlast (split CHR ''.'' (trim ''a.b'')))
       = Some (JObj [(''b'', JNull)])
     \<and> getProperty rt (JObj [(''b'', JNull)]) (last (split CHR ''.'' (trim ''a.b''))) = JNull
     \<and> getValueFromContext rt ''a.b'' (JObj [(''a'', JObj [(''b'', JNull)])]) = Inr (Some ''null'')
     \<and> matchAll TEMPLATE_PLACEHOLDER_REGEX ''x={{a.b}};'' = [(2, 9, [(1, 4, 7)])]
     \<and> capture ''x={{a.b}};'' (2, 9, [(1, 4, 7)]) 1 = Some ''a.b''
     \<and> (\<exists>f. processTemplate rt ''x={{a.b}};'' (JObj [(''a'', JObj [(''b'', JNull)])])
              = replaceMatches ''x={{a.b}};'' f 0 [(2, 9, [(1, 4, 7)])]
            \<and> f (2, 9, [(1, 4, 7)]) = Inr ''null'')"
proof
  fix rt :: "'n runtime"
  let ?ctx = "JObj [(''a'', JObj [(''b'', JNull)])] :: 'n jsval"
  have t: "trim ''a.b'' = ''a.b''" by code_simp
  have h1: "descend rt ?ctx (butlast (split CHR ''.'' (trim ''a.b''))) = Some (JObj [(''b'', JNull)])"
    by (simp add: t)
  have h2: "getProperty rt (JObj [(''b'', JNull)]) (last (split CHR ''.'' (trim ''a.b''))) = JNull"
    by (simp add: t)
  have h3: "matchAll TEMPLATE_PLACEHOLDER_REGEX ''x={{a.b}};'' = [(2, 9, [(1, 4, 7)])]"
    by code_simp
  have h4: "capture ''x={{a.b}};'' (2, 9, [(1, 4, 7)]) 1 = Some ''a.b''"
    by code_simp
  note t0 = null_final_segment_substituted[where 'n = 'n]
  from t0 h1 h2 have c1: "getValueFromContext rt ''a.b'' ?ctx = Inr (Some ''null'')"
    by (simp add: t)
  from t0[THEN conjunct2, THEN conjunct1, THEN spec, THEN spec, THEN spec,
      of rt "''x={{a.b}};''" ?ctx]
  obtain f where
    f1: "processTemplate rt ''x={{a.b}};'' ?ctx
           = replaceMatches ''x={{a.b}};'' f 0 (matchAll TEMPLATE_PLACEHOLDER_REGEX ''x={{a.b}};'')"
    and f2: "\<forall>m \<in> set (matchAll TEMPLATE_PLACEHOLDER_REGEX ''x={{a.b}};''). \<forall>placeholder v.
              capture ''x={{a.b}};'' m 1 = Some placeholder
              \<and> descend rt ?ctx (butlast (split CHR ''.'' (trim placeholder))) = Some v
              \<and> v \<noteq> JUndefined \<and> v \<noteq> JNull
              \<and> getProperty rt v (last (split CHR ''.'' (trim placeholder))) = JNull
              \<longrightarrow> f m = Inr ''null''"
    by blast
  from f2 h1 h2 h4 have fm: "f (2, 9, [(1, 4, 7)]) = Inr ''null''"
    unfolding h3 by fastforce
  from f1[unfolded h3] fm have c2: "\<exists>f. processTemplate rt ''x={{a.b}};'' ?ctx
              = replaceMatches ''x={{a.b}};'' f 0 [(2, 9, [(1, 4, 7)])]
            \<and> f (2, 9, [(1, 4, 7)]) = Inr ''null''"
    by blast
  from h1 h2 c1 h3 h4 c2 show "descend rt ?ctx (butlast (split CHR ''.'' (trim ''a.b'')))
       = Some (JObj [(''b'', JNull)])
     \<and> getProperty rt (JObj [(''b'', JNull)]) (last (split CHR ''.'' (trim ''a.b''))) = JNull
     \<and> getValueFromContext rt ''a.b'' ?ctx = Inr (Some ''null'')
     \<and> matchAll TEMPLATE_PLACEHOLDER_REGEX ''x={{a.b}};'' = [(2, 9, [(1, 4, 7)])]
     \<and> capture ''x={{a.b}};'' (2, 9, [(1, 4, 7)]) 1 = Some ''a.b''
     \<and> (\<exists>f. processTemplate rt ''x={{a.b}};'' ?ctx
              = replaceMatches ''x={{a.b}};'' f 0 [(2, 9, [(1, 4, 7)])]
            \<and> f (2, 9, [(1, 4, 7)]) = Inr ''null'')"
    by blast
qed

section \<open>Properties of the configuration manager\<close>

lemma split_line_head: "c \<notin> set l \<Longrightarrow> split c (l @ c # b) = l # split c b"
  by (induction l) auto

lemma split_line_tl: "c \<notin> set l \<Longrightarrow> l \<in> set (tl (split c (a @ c # l @ c # b)))"
proof (induction a)
  case Nil
  then show ?case by (simp add: split_line_head)
next
  case (Cons x a)
  then show ?case by (cases "split c (a @ c # l @ c # b)") (auto dest: list.set_sel(2))
qed

lemma split_line_mem: "c \<notin> set l \<Longrightarrow> l \<in> set (split c (a @ c # l @ c # b))"
  using split_line_tl[of c l a b] by (cases "split c (a @ c # l @ c # b)") auto

lemma networkUrlText_line: "CHR 0x0A \<notin> set name \<Longrightarrow> CHR 0x0A \<notin> set (networkUrlText name)"
  by (auto simp: networkUrlText_def networkUrls_def objectPrototypeText_def
      split: option.splits if_splits)

lemma generateEnvContent_lines:
  assumes "CHR 0x0A \<notin> set (network config)"
  shows "\<exists>rest. split CHR 0x0A (generateEnvContent config) =
           ''# Solana Configuration''
           # (''NEXT_PUBLIC_SOLANA_NETWORK='' @ network config)
           # (''NEXT_PUBLIC_SOLANA_RPC_URL='' @ networkUrlText (network config))
           # rest"
proof -
  let ?l0 = "''# Solana Configuration''"
  let ?l1 = "''NEXT_PUBLIC_SOLANA_NETWORK='' @ network config"
  let ?l2 = "''NEXT_PUBLIC_SOLANA_RPC_URL='' @ networkUrlText (network config)"
  have "\<exists>b. generateEnvContent config = ?l0 @ CHR 0x0A # ?l1 @ CHR 0x0A # ?l2 @ CHR 0x0A # b"
    by (simp add: generateEnvContent_def Let_def)
  then obtain b where
    g: "generateEnvContent config = ?l0 @ CHR 0x0A # ?l1 @ CHR 0x0A # ?l2 @ CHR 0x0A # b"
    by blast
  have n0: "CHR 0x0A \<notin> set ?l0" by simp
  have n1: "CHR 0x0A \<notin> set ?l1" using assms by simp
  have n2: "CHR 0x0A \<notin> set ?l2" using networkUrlText_line[OF assms] by simp
  have "split CHR 0x0A (generateEnvContent config)
          = ?l0 # split CHR 0x0A (?l1 @ CHR 0x0A # ?l2 @ CHR 0x0A # b)"
    unfolding g by (rule split_line_head[OF n0])
  also have "split CHR 0x0A (?l1 @ CHR 0x0A # ?l2 @ CHR 0x0A # b)
          = ?l1 # split CHR 0x0A (?l2 @ CHR 0x0A # b)"
    by (rule split_line_head[OF n1])
  also have "split CHR 0x0A (?l2 @ CHR 0x0A # b) = ?l2 # split CHR 0x0A b"
    by (rule split_line_head[OF n2])
  finally show ?thesis by blast
qed

lemma generateEnvContent_url_line:
  assumes "CHR 0x0A \<notin> set (network config)"
  shows "split CHR 0x0A (generateEnvContent config) ! 2
           = ''NEXT_PUBLIC_SOLANA_RPC_URL='' @ networkUrlText (network config)"
  using generateEnvContent_lines[OF assms] by (auto simp: numeral_2_eq_2)

text \<open>
  Claim C7. The table from networks to endpoints has exactly the four entries
  mainnet-beta, testnet, devnet and localnet with the endpoints below. For every
  configuration (whose network name has no line break) the generated content starts
  with the title line, the line of the network name, and as third line
  \<open>NEXT_PUBLIC_SOLANA_RPC_URL=\<close> followed by what the table holds for the network of the
  configuration; for a network of the table that is its endpoint. So for devnet the third
  line is \<open>NEXT_PUBLIC_SOLANA_RPC_URL=https://api.devnet.solana.com\<close>, exactly, and the
  three other networks give their own endpoints.
\<close>

theorem generateEnvContent_devnet:
  "networkUrls =
     [(''mainnet-beta'', ''https://api.mainnet-beta.solana.com''),
      (''testnet'', ''https://api.testnet.solana.com''),
      (''devnet'', ''https://api.devnet.solana.com''),
      (''localnet'', ''http://127.0.0.1:8899'')]
   \<and> (\<forall>config. CHR 0x0A \<notin> set (network config) \<longrightarrow>
         (\<exists>rest. split CHR 0x0A (generateEnvContent config) =
            ''# Solana Configuration''
            # (''NEXT_PUBLIC_SOLANA_NETWORK='' @ network config)
            # (''NEXT_PUBLIC_SOLANA_RPC_URL='' @ networkUrlText (network config))
            # rest))
   \<and> (\<forall>config url. (network config, url) \<in> set networkUrls \<longrightarrow>
         networkUrlText (network config) = url
         \<and> split CHR 0x0A (generateEnvContent config) ! 2 = ''NEXT_PUBLIC_SOLANA_RPC_URL='' @ url
         \<and> ''NEXT_PUBLIC_SOLANA_RPC_URL='' @ url \<in> set (split CHR 0x0A (generateEnvContent config)))
   \<and> (\<forall>config. network config = ''devnet'' \<longrightarrow>
         split CHR 0x0A (generateEnvContent config) ! 2
           = ''NEXT_PUBLIC_SOLANA_RPC_URL=https://api.devnet.solana.com''
         \<and> ''NEXT_PUBLIC_SOLANA_RPC_URL=https://api.devnet.solana.com''
             \<in> set (split CHR 0x0A (generateEnvContent config)))
   \<and> (\<forall>config. network config = ''mainnet-beta'' \<longrightarrow>
         split CHR 0x0A (generateEnvContent config) ! 2
           = ''NEXT_PUBLIC_SOLANA_RPC_URL=https://api.mainnet-beta.solana.com'')
   \<and> (\<forall>config. network config = ''testnet'' \<longrightarrow>
         split CHR 0x0A (generateEnvContent config) ! 2
           = ''NEXT_PUBLIC_SOLANA_RPC_URL=https://api.testnet.solana.com'')
   \<and> (\<forall>config. network config = ''localnet'' \<longrightarrow>
         split CHR 0x0A (generateEnvContent config) ! 2
           = ''NEXT_PUBLIC_SOLANA_RPC_URL=http://127.0.0.1:8899'')
   \<and> (\<forall>config. CHR 0x0A \<notin> set (network config)
         \<and> network config \<notin> fst ` set networkUrls
         \<and> network config \<notin> set objectPrototypeKeys \<longrightarrow>
         split CHR 0x0A (generateEnvContent config) ! 2 = ''NEXT_PUBLIC_SOLANA_RPC_URL=undefined'')"
proof (intro conjI allI impI)
  show "networkUrls =
     [(''mainnet-beta'', ''https://api.mainnet-beta.solana.com''),
      (''testnet'', ''https://api.testnet.solana.com''),
      (''devnet'', ''https://api.devnet.solana.com''),
      (''localnet'', ''http://127.0.0.1:8899'')]"
    by (simp add: networkUrls_def)
next
  fix config :: SolanaConfig
  assume "CHR 0x0A \<notin> set (network config)"
  then show "\<exists>rest. split CHR 0x0A (generateEnvContent config) =
            ''# Solana Configuration''
            # (''NEXT_PUBLIC_SOLANA_NETWORK='' @ network config)
            # (''NEXT_PUBLIC_SOLANA_RPC_URL='' @ networkUrlText (network config))
            # rest"
    by (rule generateEnvContent_lines)
next
  fix config :: SolanaConfig and url
  assume a: "(network config, url) \<in> set networkUrls"
  then have n: "CHR 0x0A \<notin> set (network config)" by (auto simp: networkUrls_def)
  from a show u: "networkUrlText (network config) = url"
    by (auto simp: networkUrlText_def networkUrls_def)
  from generateEnvContent_url_line[OF n] u
  show "split CHR 0x0A (generateEnvContent config) ! 2 = ''NEXT_PUBLIC_SOLANA_RPC_URL='' @ url"
    by simp
  from generateEnvContent_lines[OF n] u
  show "''NEXT_PUBLIC_SOLANA_RPC_URL='' @ url \<in> set (split CHR 0x0A (generateEnvContent config))"
    by auto
next
  fix config :: SolanaConfig
  assume a: "network config = ''devnet''"
  then have n: "CHR 0x0A \<notin> set (network config)" by simp
  from a have u: "networkUrlText (network config) = ''https://api.devnet.solana.com''"
    by (simp add: networkUrlText_def networkUrls_def)
  from generateEnvContent_url_line[OF n] u
  show "split CHR 0x0A (generateEnvContent config) ! 2
           = ''NEXT_PUBLIC_SOLANA_RPC_URL=https://api.devnet.solana.com''"
    by simp
  from generateEnvContent_lines[OF n] u
  show "''NEXT_PUBLIC_SOLANA_RPC_URL=https://api.devnet.solana.com''
             \<in> set (split CHR 0x0A (generateEnvContent config))"
    by auto
next
  fix config :: SolanaConfig
  assume a: "network config = ''mainnet-beta''"
  then have n: "CHR 0x0A \<notin> set (network config)" by simp
  from a have u: "networkUrlText (network config) = ''https://api.mainnet-beta.solana.com''"
    by (simp add: networkUrlText_def networkUrls_def)
  from generateEnvContent_url_line[OF n] u
  show "split CHR 0x0A (generateEnvContent config) ! 2
           = ''NEXT_PUBLIC_SOLANA_RPC_URL=https://api.mainnet-beta.solana.com''"
    by simp
next
  fix config :: SolanaConfig
  assume a: "network config = ''testnet''"
  then have n: "CHR 0x0A \<notin> set (network config)" by simp
  from a have u: "networkUrlText (network config) = ''https://api.testnet.solana.com''"
    by (simp add: networkUrlText_def networkUrls_def)
  from generateEnvContent_url_line[OF n] u
  show "split CHR 0x0A (generateEnvContent config) ! 2
           = ''NEXT_PUBLIC_SOLANA_RPC_URL=https://api.testnet.solana.com''"
    by simp
next
  fix config :: SolanaConfig
  assume a: "network config = ''localnet''"
  then have n: "CHR 0x0A \<notin> set (network config)" by simp
  from a have u: "networkUrlText (network config) = ''http://127.0.0.1:8899''"
    by (simp add: networkUrlText_def networkUrls_def)
  from generateEnvContent_url_line[OF n] u
  show "split CHR 0x0A (generateEnvContent config) ! 2
           = ''NEXT_PUBLIC_SOLANA_RPC_URL=http://127.0.0.1:8899''"
    by simp
next
  fix config :: SolanaConfig
  assume a: "CHR 0x0A \<notin> set (network config)
         \<and> network config \<notin> fst ` set networkUrls
         \<and> network config \<notin> set objectPrototypeKeys"
  then have "map_of networkUrls (network config) = None"
    by (simp add: map_of_eq_None_iff)
  with a have u: "networkUrlText (network config) = ''undefined''"
    by (simp add: networkUrlText_def)
  from a generateEnvContent_url_line[of config] u
  show "split CHR 0x0A (generateEnvContent config) ! 2 = ''NEXT_PUBLIC_SOLANA_RPC_URL=undefined''"
    by simp
qed

theorem generateEnvContent_devnet_witness:
  "network \<lparr>network = ''devnet'', wallets = [''phantom''], useAppKit = None, projectId = None\<rparr>
     = ''devnet''
   \<and> CHR 0x0A \<notin> set ''devnet''
   \<and> (''devnet'', ''https://api.devnet.solana.com'') \<in> set networkUrls
   \<and> split CHR 0x0A (generateEnvContent
        \<lparr>network = ''devnet'', wallets = [''phantom''], useAppKit = None, projectId = None\<rparr>) ! 2
       = ''NEXT_PUBLIC_SOLANA_RPC_URL=https://api.devnet.solana.com''
   \<and> ''NEXT_PUBLIC_SOLANA_RPC_URL=https://api.devnet.solana.com''
       \<in> set (split CHR 0x0A (generateEnvContent
            \<lparr>network = ''devnet'', wallets = [''phantom''], useAppKit = None,
             projectId = None\<rparr>))
   \<and> split CHR 0x0A (generateEnvContent
        \<lparr>network = ''testnet'', wallets = [''phantom''], useAppKit = None, projectId = None\<rparr>) ! 2
       = ''NEXT_PUBLIC_SOLANA_RPC_URL=https://api.testnet.solana.com''
   \<and> CHR 0x0A \<notin> set ''mainnet''
   \<and> ''mainnet'' \<notin> fst ` set networkUrls
   \<and> ''mainnet'' \<notin> set objectPrototypeKeys
   \<and> split CHR 0x0A (generateEnvContent
        \<lparr>network = ''mainnet'', wallets = [''phantom''], useAppKit = None, projectId = None\<rparr>) ! 2
       = ''NEXT_PUBLIC_SOLANA_RPC_URL=undefined''"
proof -
  have h: "(''devnet'', ''https://api.devnet.solana.com'') \<in> set networkUrls"
    "''mainnet'' \<notin> fst ` set networkUrls" "''mainnet'' \<notin> set objectPrototypeKeys"
    by (simp_all add: networkUrls_def objectPrototypeKeys_def)
  from generateEnvContent_devnet h show ?thesis by simp
qed

text \<open>
  Claim C8, as stated, fails: on a file \<open>.env.local\<close> that holds \<open>FOO=bar\<close> a run with
  AppKit enabled appends the project id only. The generated set has the key
  \<open>NEXT_PUBLIC_SOLANA_RPC_URL\<close>, the file lacks it before the run and after it.
\<close>

theorem createEnvFile_missing_keys_counterexample:
  "includesStr
     (generateEnvContent \<lparr>network = ''devnet'', wallets = [''phantom''],
        useAppKit = Some True, projectId = Some ''p1''\<rparr>)
     ''NEXT_PUBLIC_SOLANA_RPC_URL=''
   \<and> \<not> includesStr ''FOO=bar\<newline>'' ''NEXT_PUBLIC_SOLANA_RPC_URL=''
   \<and> envLocal (createEnvFile \<lparr>network = ''devnet'', wallets = [''phantom''],
          useAppKit = Some True, projectId = Some ''p1''\<rparr>
        \<lparr>envLocal = Some ''FOO=bar\<newline>'', envExample = None\<rparr>)
       = Some ''FOO=bar\<newline>\<newline># Reown AppKit Configuration\<newline>NEXT_PUBLIC_PROJECT_ID=p1\<newline>''
   \<and> \<not> includesStr
         ''FOO=bar\<newline>\<newline># Reown AppKit Configuration\<newline>NEXT_PUBLIC_PROJECT_ID=p1\<newline>''
         ''NEXT_PUBLIC_SOLANA_RPC_URL=''"
  by code_simp

text \<open>
  Claim C8, amended. On an existing \<open>.env.local\<close> a run appends the AppKit block with
  \<open>NEXT_PUBLIC_PROJECT_ID\<close>, and only when AppKit is enabled and the file does not
  contain \<open>NEXT_PUBLIC_PROJECT_ID=\<close>; otherwise the file is left as it is. In every case
  the previous content is kept unchanged in front of what is appended.
\<close>

theorem createEnvFile_existing:
  "envLocal files = Some currentEnv \<Longrightarrow>
   envLocal (createEnvFile config files) =
     Some (if useAppKit config = Some True \<and> \<not> includesStr currentEnv ''NEXT_PUBLIC_PROJECT_ID=''
           then currentEnv @ ''\<newline># Reown AppKit Configuration\<newline>NEXT_PUBLIC_PROJECT_ID=''
                @ projectIdOrEmpty config @ ''\<newline>''
           else currentEnv)
   \<and> (\<exists>appended. envLocal (createEnvFile config files) = Some (currentEnv @ appended))"
  by (simp add: createEnvFile_def Let_def)

theorem createEnvFile_existing_witness:
  "envLocal \<lparr>envLocal = Some ''FOO=bar\<newline>'', envExample = None\<rparr> = Some ''FOO=bar\<newline>''
   \<and> envLocal (createEnvFile \<lparr>network = ''devnet'', wallets = [''phantom''],
          useAppKit = None, projectId = None\<rparr>
        \<lparr>envLocal = Some ''FOO=bar\<newline>'', envExample = None\<rparr>)
       = Some ''FOO=bar\<newline>''"
  using createEnvFile_existing
    [of "\<lparr>envLocal = Some ''FOO=bar\<newline>'', envExample = None\<rparr>" "''FOO=bar\<newline>''"
        "\<lparr>network = ''devnet'', wallets = [''phantom''], useAppKit = None, projectId = None\<rparr>"]
  by simp

section \<open>Properties of the patchers\<close>

subsection \<open>The import block\<close>

lemma lastIndexOfFrom_None:
  "lastIndexOfFrom i s w = None \<Longrightarrow> k \<le> length s \<Longrightarrow> \<not> startsWith (drop k s) w"
proof (induction s arbitrary: i k)
  case Nil
  then show ?case by (auto simp: startsWith_def split: if_splits)
next
  case (Cons x xs)
  from Cons.prems(1) have n: "lastIndexOfFrom (Suc i) xs w = None" and h: "\<not> startsWith (x # xs) w"
    by (auto split: option.splits if_splits)
  show ?case
  proof (cases k)
    case 0
    with h show ?thesis by simp
  next
    case (Suc k')
    with Cons.IH[OF n, of k'] Cons.prems(2) show ?thesis by simp
  qed
qed

lemma lastIndexOfFrom_Some:
  "lastIndexOfFrom i s w = Some q \<Longrightarrow>
   i \<le> q \<and> q \<le> i + length s \<and> startsWith (drop (q - i) s) w
   \<and> (\<forall>k. q - i < k \<and> k \<le> length s \<longrightarrow> \<not> startsWith (drop k s) w)"
proof (induction s arbitrary: i)
  case Nil
  then show ?case by (auto simp: startsWith_def split: if_splits)
next
  case (Cons x xs)
  show ?case
  proof (cases "lastIndexOfFrom (Suc i) xs w")
    case None
    with Cons.prems have q: "q = i" and h: "startsWith (x # xs) w"
      by (auto split: if_splits)
    have "\<not> startsWith (drop k (x # xs)) w" if "0 < k" "k \<le> length (x # xs)" for k
    proof -
      from that obtain k' where "k = Suc k'" by (cases k) auto
      with that lastIndexOfFrom_None[OF None, of k'] show ?thesis by simp
    qed
    with q h show ?thesis by simp
  next
    case (Some q')
    with Cons.prems have q: "q' = q" by simp
    with Some have "lastIndexOfFrom (Suc i) xs w = Some q" by simp
    from Cons.IH[OF this] have ih: "Suc i \<le> q" "q \<le> Suc i + length xs"
      "startsWith (drop (q - Suc i) xs) w"
      "\<forall>k. q - Suc i < k \<and> k \<le> length xs \<longrightarrow> \<not> startsWith (drop k xs) w"
      by auto
    from ih(1) have e: "q - i = Suc (q - Suc i)" by simp
    have "\<not> startsWith (drop k (x # xs)) w" if "q - i < k" "k \<le> length (x # xs)" for k
    proof -
      from that e obtain k' where k': "k = Suc k'" by (cases k) auto
      with that e ih(4) show ?thesis by simp
    qed
    with ih e show ?thesis by simp
  qed
qed

lemma lastIndexOf_Some:
  "lastIndexOf s w = Some q \<Longrightarrow>
   q \<le> length s \<and> startsWith (drop q s) w
   \<and> (\<forall>k. q < k \<and> k \<le> length s \<longrightarrow> \<not> startsWith (drop k s) w)"
  using lastIndexOfFrom_Some[of 0 s w q] by (simp add: lastIndexOf_def)

lemma lastIndexOf_None:
  "lastIndexOf s w = None \<Longrightarrow> k \<le> length s \<Longrightarrow> \<not> startsWith (drop k s) w"
  using lastIndexOfFrom_None[of 0 s w k] by (simp add: lastIndexOf_def)

lemma startsWith_substring:
  assumes "p \<le> e" "e \<le> length s"
  shows "startsWith (drop p s) (substring s p e)" and "length (substring s p e) = e - p"
  using assms by (simp_all add: startsWith_def substring_take)

lemma importPos_None: "matchAll r content = [] \<Longrightarrow> importPos r content = None"
  by (simp add: importPos_def)

lemma importPos_Some:
  assumes ne: "matchAll r content \<noteq> []" and l: "last (matchAll r content) = (p, e, cs)"
  shows "\<exists>q. importPos r content = Some (q + (e - p)) \<and> p \<le> q \<and> q \<le> length content
           \<and> startsWith (drop q content) (substring content p e)
           \<and> (\<forall>k. q < k \<and> k \<le> length content \<longrightarrow>
                  \<not> startsWith (drop k content) (substring content p e))"
proof -
  from ne l have "(p, e, cs) \<in> set (matchAll r content)" by (metis last_in_set)
  from matchAll_bounds[OF this] have pe: "p \<le> e" "e \<le> length content" by auto
  then have "p \<le> length content" by simp
  note sw = startsWith_substring[OF pe]
  obtain m ms where ms: "matchAll r content = m # ms" using ne by (cases "matchAll r content") auto
  with l have lm: "last (m # ms) = (p, e, cs)" by simp
  show ?thesis
  proof (cases "lastIndexOf content (substring content p e)")
    case None
    from lastIndexOf_None[OF None \<open>p \<le> length content\<close>] sw(1) show ?thesis by simp
  next
    case (Some q)
    from lastIndexOf_Some[OF Some] have q: "q \<le> length content"
      "startsWith (drop q content) (substring content p e)"
      "\<forall>k. q < k \<and> k \<le> length content \<longrightarrow> \<not> startsWith (drop k content) (substring content p e)"
      by auto
    have "p \<le> q"
    proof (rule ccontr)
      assume "\<not> p \<le> q"
      with q(3) \<open>p \<le> length content\<close> sw(1) show False by simp
    qed
    moreover have "importPos r content = Some (q + (e - p))"
      using ms lm Some sw(2) by (simp add: importPos_def matched_def Let_def)
    ultimately show ?thesis using q by blast
  qed
qed


text \<open>
  Claim C5, as stated, fails: the insertion point is computed from the last occurrence
  of the last import's text, which need not be the import. Below the only import
  statement ends at index 27, its text occurs again inside a comment, and the insertion
  point is 57, after the comment.
\<close>

theorem importPos_last_occurrence_counterexample:
  \<open>matchAll importPattern
     ''import React from \'react\';\<newline>// import React from \'react\';\<newline>const a = 1;''
     = [(0, 27, [(1, 26, 27)])]
   \<and> importPos importPattern
       ''import React from \'react\';\<newline>// import React from \'react\';\<newline>const a = 1;''
     = Some 57
   \<and> insertAt
       ''import React from \'react\';\<newline>// import React from \'react\';\<newline>const a = 1;''
       57 ''import C from \'c\';\<newline>''
     = ''import React from \'react\';\<newline>// import React from \'react\';\<newline>import C from \'c\';\<newline>const a = 1;''\<close>
  by code_simp

text \<open>
  Claim C5, amended. The import locator places the insertion point right after the last
  occurrence in the content of the text of the last import statement matched; this is
  the end of that statement whenever its text does not occur again further down. When no
  import statement is matched the text is put at the start of the file. For the content
  \<open>import A from 'a';\nimport B from 'b';\nfunction f(){}\<close> the point is 38, and inserting
  \<open>import C from 'c';\n\<close> there gives the three imports followed by the function.
\<close>

theorem importPos_last_occurrence:
  \<open>(\<forall>r content afterImports atStart.
      matchAll r content = [] \<longrightarrow>
      importPos r content = None \<and> addImport r content afterImports atStart = atStart @ content)
   \<and> (\<forall>r content p e cs.
        matchAll r content \<noteq> [] \<and> last (matchAll r content) = (p, e, cs) \<longrightarrow>
        (\<exists>q. importPos r content = Some (q + (e - p)) \<and> p \<le> q \<and> q \<le> length content
             \<and> startsWith (drop q content) (substring content p e)
             \<and> (\<forall>k. q < k \<and> k \<le> length content \<longrightarrow>
                    \<not> startsWith (drop k content) (substring content p e))))
   \<and> (\<forall>r content p e cs.
        matchAll r content \<noteq> [] \<and> last (matchAll r content) = (p, e, cs)
        \<and> (\<forall>k. p < k \<and> k \<le> length content \<longrightarrow>
               \<not> startsWith (drop k content) (substring content p e)) \<longrightarrow>
        importPos r content = Some e)
   \<and> importPos importPattern
        ''import A from \'a\';\<newline>import B from \'b\';\<newline>function f(){}'' = Some 38
   \<and> insertAt ''import A from \'a\';\<newline>import B from \'b\';\<newline>function f(){}'' 38
        ''import C from \'c\';\<newline>''
       = ''import A from \'a\';\<newline>import B from \'b\';\<newline>import C from \'c\';\<newline>function f(){}''\<close>
proof (intro conjI allI impI)
  fix r content afterImports atStart
  assume "matchAll r content = []"
  then show "importPos r content = None" by (rule importPos_None)
  then show "addImport r content afterImports atStart = atStart @ content"
    by (simp add: addImport_def)
next
  fix r content p e cs
  assume "matchAll r content \<noteq> [] \<and> last (matchAll r content) = (p, e, cs)"
  then show "\<exists>q. importPos r content = Some (q + (e - p)) \<and> p \<le> q \<and> q \<le> length content
             \<and> startsWith (drop q content) (substring content p e)
             \<and> (\<forall>k. q < k \<and> k \<le> length content \<longrightarrow>
                    \<not> startsWith (drop k content) (substring content p e))"
    using importPos_Some by blast
next
  fix r content p e cs
  assume a: "matchAll r content \<noteq> [] \<and> last (matchAll r content) = (p, e, cs)
        \<and> (\<forall>k. p < k \<and> k \<le> length content \<longrightarrow>
               \<not> startsWith (drop k content) (substring content p e))"
  then obtain q where q: "importPos r content = Some (q + (e - p))" "p \<le> q" "q \<le> length content"
    "startsWith (drop q content) (substring content p e)"
    using importPos_Some[of r content p e cs] by blast
  from a q(2,3,4) have "q = p" by (metis le_neq_implies_less)
  moreover from a have "(p, e, cs) \<in> set (matchAll r content)" by (metis last_in_set)
  from matchAll_bounds[OF this] have "p \<le> e" by simp
  ultimately show "importPos r content = Some e" using q(1) by simp
next
  show \<open>importPos importPattern
        ''import A from \'a\';\<newline>import B from \'b\';\<newline>function f(){}'' = Some 38\<close>
    by code_simp
next
  show \<open>insertAt ''import A from \'a\';\<newline>import B from \'b\';\<newline>function f(){}'' 38
        ''import C from \'c\';\<newline>''
       = ''import A from \'a\';\<newline>import B from \'b\';\<newline>import C from \'c\';\<newline>function f(){}''\<close>
    by code_simp
qed

theorem importPos_last_occurrence_witness:
  \<open>matchAll importPattern ''function f(){}'' = []
   \<and> addImport importPattern ''function f(){}'' ''// after'' ''// start\<newline>''
       = ''// start\<newline>function f(){}''
   \<and> matchAll importPattern
        ''import A from \'a\';\<newline>import B from \'b\';\<newline>function f(){}'' \<noteq> []
   \<and> last (matchAll importPattern
        ''import A from \'a\';\<newline>import B from \'b\';\<newline>function f(){}'')
       = (19, 38, [(1, 37, 38)])
   \<and> (\<exists>q. importPos importPattern
              ''import A from \'a\';\<newline>import B from \'b\';\<newline>function f(){}''
            = Some (q + (38 - 19)) \<and> 19 \<le> q)\<close>
proof -
  have h0: \<open>matchAll importPattern ''function f(){}'' = []\<close> by code_simp
  have h1: \<open>matchAll importPattern
        ''import A from \'a\';\<newline>import B from \'b\';\<newline>function f(){}'' \<noteq> []\<close>
    by code_simp
  have h2: \<open>last (matchAll importPattern
        ''import A from \'a\';\<newline>import B from \'b\';\<newline>function f(){}'')
       = (19, 38, [(1, 37, 38)])\<close>
    by code_simp
  from importPos_last_occurrence h0
  have c1: \<open>addImport importPattern ''function f(){}'' ''// after'' ''// start\<newline>''
       = ''// start\<newline>'' @ ''function f(){}''\<close> by blast
  from importPos_last_occurrence h1 h2
  have c2: \<open>\<exists>q. importPos importPattern
              ''import A from \'a\';\<newline>import B from \'b\';\<newline>function f(){}''
            = Some (q + (38 - 19)) \<and> 19 \<le> q\<close> by blast
  from h0 h1 h2 c1 c2 show ?thesis by simp
qed


subsection \<open>Substring tests\<close>

lemma startsWith_iff: "startsWith s w \<longleftrightarrow> (\<exists>b. s = w @ b)"
  unfolding startsWith_def by (metis append_eq_conv_conj append_take_drop_id)

lemma indexOfFrom_None:
  "indexOfFrom i s w = None \<Longrightarrow> k \<le> length s \<Longrightarrow> \<not> startsWith (drop k s) w"
proof (induction s arbitrary: i k)
  case Nil
  then show ?case by (auto simp: startsWith_def split: if_splits)
next
  case (Cons x xs)
  from Cons.prems(1) have n: "indexOfFrom (Suc i) xs w = None" and h: "\<not> startsWith (x # xs) w"
    by (auto split: if_splits)
  show ?case
  proof (cases k)
    case 0
    with h show ?thesis by simp
  next
    case (Suc k')
    with Cons.IH[OF n, of k'] Cons.prems(2) show ?thesis by simp
  qed
qed

lemma indexOfFrom_Some:
  "indexOfFrom i s w = Some q \<Longrightarrow>
   i \<le> q \<and> q \<le> i + length s \<and> startsWith (drop (q - i) s) w
   \<and> (\<forall>k < q - i. \<not> startsWith (drop k s) w)"
proof (induction s arbitrary: i)
  case Nil
  then show ?case by (auto simp: startsWith_def split: if_splits)
next
  case (Cons x xs)
  show ?case
  proof (cases "startsWith (x # xs) w")
    case True
    with Cons.prems show ?thesis by simp
  next
    case False
    with Cons.prems have "indexOfFrom (Suc i) xs w = Some q" by simp
    from Cons.IH[OF this] have ih: "Suc i \<le> q" "q \<le> Suc i + length xs"
      "startsWith (drop (q - Suc i) xs) w" "\<forall>k < q - Suc i. \<not> startsWith (drop k xs) w"
      by auto
    from ih(1) have e: "q - i = Suc (q - Suc i)" by simp
    have "\<not> startsWith (drop k (x # xs)) w" if "k < q - i" for k
    proof (cases k)
      case 0
      with False show ?thesis by simp
    next
      case (Suc k')
      with that e ih(4) show ?thesis by simp
    qed
    with ih e show ?thesis by simp
  qed
qed

lemma indexOf_Some:
  "indexOf s w = Some q \<Longrightarrow>
   q \<le> length s \<and> startsWith (drop q s) w \<and> (\<forall>k < q. \<not> startsWith (drop k s) w)"
  using indexOfFrom_Some[of 0 s w q] by (simp add: indexOf_def)

lemma indexOf_None: "indexOf s w = None \<Longrightarrow> k \<le> length s \<Longrightarrow> \<not> startsWith (drop k s) w"
  using indexOfFrom_None[of 0 s w k] by (simp add: indexOf_def)

lemma indexOf_split:
  assumes "indexOf s w = Some q"
  shows "s = take q s @ w @ drop (q + length w) s"
proof -
  from indexOf_Some[OF assms] obtain b where "drop q s = w @ b"
    by (auto simp: startsWith_iff)
  then have "drop (q + length w) s = b"
    by (metis add.commute append_eq_conv_conj drop_drop)
  with \<open>drop q s = w @ b\<close> show ?thesis by (metis append_take_drop_id)
qed

lemma includesStr_iff: "includesStr s w \<longleftrightarrow> (\<exists>a b. s = a @ w @ b)"
proof
  assume "includesStr s w"
  then obtain q where "indexOf s w = Some q" by (auto simp: includesStr_def)
  from indexOf_split[OF this] show "\<exists>a b. s = a @ w @ b" by blast
next
  assume "\<exists>a b. s = a @ w @ b"
  then obtain a b where s: "s = a @ w @ b" by blast
  then have "startsWith (drop (length a) s) w" "length a \<le> length s"
    by (simp_all add: startsWith_iff)
  then show "includesStr s w"
    unfolding includesStr_def using indexOf_None[of s w "length a"] by blast
qed

lemma includesStr_append: "includesStr (a @ w @ b) w"
  by (auto simp: includesStr_iff)

lemma includesStr_context: "includesStr s w \<Longrightarrow> includesStr (a @ s @ b) w"
  unfolding includesStr_iff by (metis append.assoc)


subsection \<open>The Next.js configuration\<close>





subsection \<open>A patcher that does not find its anchor\<close>

lemma warned_simps:
  "warned ([], w) = False"
  "warned (LogWarn t # es, w) = True"
  "warned (LogDebug t # es, w) = warned (es, w)"
  "warned (LogSuccess t # es, w) = warned (es, w)"
  "warned (LogError t # es, w) = warned (es, w)"
  by (simp_all add: warned_def)

lemma wrapBody_warned: "warned (wrapBody nm updatedContent) \<Longrightarrow> snd (wrapBody nm updatedContent) = None"
  by (auto simp: wrapBody_def layoutError_def warned_simps Let_def
      split: option.splits if_splits nat.splits)

lemma patchLayout_warned: "warned (patchLayout nm content) \<Longrightarrow> snd (patchLayout nm content) = None"
  using wrapBody_warned by (auto simp: patchLayout_def warned_simps split: if_splits)

lemma updateAppRouterEntryPoint_warned:
  "warned (updateAppRouterEntryPoint rt ctx content) \<Longrightarrow>
   snd (updateAppRouterEntryPoint rt ctx content) = None"
  using patchLayout_warned
  by (auto simp: updateAppRouterEntryPoint_def layoutError_def warned_simps Let_def split: if_splits)

lemma updateAppRouterEntryPoint_initContext:
  "updateAppRouterEntryPoint rt (initContext projectInfo solanaConfig hasTypeScript isAppRouter) content
     = ([LogError ''Failed to update App Router layout''], None)"
  by (simp add: updateAppRouterEntryPoint_def initContext_def objectPrototypeKeys_def
      layoutError_def)

lemma updatePagesRouterEntryPoint_warned:
  "warned (updatePagesRouterEntryPoint content) \<Longrightarrow> snd (updatePagesRouterEntryPoint content) = None"
  by (auto simp: updatePagesRouterEntryPoint_def warned_simps Let_def split: if_splits option.splits)

lemma updateEntryPoint_warned:
  "warned (updateEntryPoint content) \<Longrightarrow> snd (updateEntryPoint content) = None"
  by (auto simp: updateEntryPoint_def warned_simps Let_def split: if_splits option.splits)

lemma fileAfter_None: "snd p = None \<Longrightarrow> fileAfter p content = content"
  by (simp add: fileAfter_def)

lemma updateMainFile_no_anchor:
  \<open>updateMainFile ''console.log(1)''
     = ([LogWarn ''Could not automatically update main file with Solana plugin. Please add it manually.'',
         LogSuccess ''Added Solana plugin''],
        Some ''import { SolanaPlugin } from \'./solana/wallet\';\<newline>\<newline>console.log(1)'')\<close>
  by code_simp

lemma addWebpackConfig_fallbackConfig:
  \<open>addWebpackConfig fallbackConfig
     = ''/** @type {import(\'next\').NextConfig} */\<newline>module.exports = {\<newline>  reactStrictMode: true,\<newline>  transpilePackages: [\<newline>    \'@solana/wallet-adapter-base\',\<newline>    \'@solana/wallet-adapter-react\',\<newline>    \'@solana/wallet-adapter-react-ui\',\<newline>    \'@solana/wallet-adapter-wallets\'\<newline>  ],\<newline>\<newline>  webpack: (config) => {\<newline>    config.resolve.fallback = {\<newline>      ...config.resolve.fallback,\<newline>      fs: false,\<newline>      os: false,\<newline>      path: false,\<newline>      crypto: false,\<newline>    };\<newline>    config.externals.push(\'pino-pretty\', \'lokijs\', \'encoding\');\<newline>    return config;\<newline>  },\<newline>};\<newline>''\<close>
  by code_simp

lemma updateNextConfig_no_anchor:
  "updateNextConfig ''const x = 1;''
     = ([LogSuccess ''Updated Next.js configuration''], Some (addWebpackConfig fallbackConfig))"
proof -
  have "\<not> includesStr ''const x = 1;'' ''@solana/wallet-adapter''
      \<and> \<not> includesStr ''const x = 1;'' ''transpilePackages''
      \<and> \<not> includesStr ''const x = 1;'' ''module.exports''
      \<and> \<not> includesStr ''const x = 1;'' ''export default''"
    by code_simp
  then show ?thesis by (simp add: updateNextConfig_def addTranspilePackages_def)
qed

lemma updateNextConfig_function_config:
  \<open>updateNextConfig ''export default function config() {\<newline>  return {}\<newline>}\<newline>''
     = ([LogSuccess ''Updated Next.js configuration''],
        Some ''export default function config() {\<newline>  return {}\<newline>\<newline>  webpack: (config) => {\<newline>    config.resolve.fallback = {\<newline>      ...config.resolve.fallback,\<newline>      fs: false,\<newline>      os: false,\<newline>      path: false,\<newline>      crypto: false,\<newline>    };\<newline>    config.externals.push(\'pino-pretty\', \'lokijs\', \'encoding\');\<newline>    return config;\<newline>  },\<newline>}\<newline>'')\<close>
  by code_simp

text \<open>
  Claim C2, as stated, fails. The Vue patcher finds no anchor in \<open>console.log(1)\<close>, warns,
  and still writes the file with the import added. The Next.js configuration patcher
  finds none of its anchors in \<open>const x = 1;\<close>, does not warn, and replaces the file by a
  fresh configuration. In a configuration that exports a function it finds the words
  \<open>export default\<close> but not the pattern behind them, does not warn, and writes the file with
  the webpack block put in front of the last brace, inside the function.
\<close>

theorem patch_without_anchor_counterexample:
  \<open>warned (updateMainFile ''console.log(1)'')
   \<and> fileAfter (updateMainFile ''console.log(1)'') ''console.log(1)''
       = ''import { SolanaPlugin } from \'./solana/wallet\';\<newline>\<newline>console.log(1)''
   \<and> fileAfter (updateMainFile ''console.log(1)'') ''console.log(1)'' \<noteq> ''console.log(1)''
   \<and> \<not> warned (updateNextConfig ''const x = 1;'')
   \<and> fileAfter (updateNextConfig ''const x = 1;'') ''const x = 1;''
       = ''/** @type {import(\'next\').NextConfig} */\<newline>module.exports = {\<newline>  reactStrictMode: true,\<newline>  transpilePackages: [\<newline>    \'@solana/wallet-adapter-base\',\<newline>    \'@solana/wallet-adapter-react\',\<newline>    \'@solana/wallet-adapter-react-ui\',\<newline>    \'@solana/wallet-adapter-wallets\'\<newline>  ],\<newline>\<newline>  webpack: (config) => {\<newline>    config.resolve.fallback = {\<newline>      ...config.resolve.fallback,\<newline>      fs: false,\<newline>      os: false,\<newline>      path: false,\<newline>      crypto: false,\<newline>    };\<newline>    config.externals.push(\'pino-pretty\', \'lokijs\', \'encoding\');\<newline>    return config;\<newline>  },\<newline>};\<newline>''
   \<and> fileAfter (updateNextConfig ''const x = 1;'') ''const x = 1;'' \<noteq> ''const x = 1;''
   \<and> \<not> warned (updateNextConfig ''export default function config() {\<newline>  return {}\<newline>}\<newline>'')
   \<and> fileAfter (updateNextConfig ''export default function config() {\<newline>  return {}\<newline>}\<newline>'')
         ''export default function config() {\<newline>  return {}\<newline>}\<newline>''
       = ''export default function config() {\<newline>  return {}\<newline>\<newline>  webpack: (config) => {\<newline>    config.resolve.fallback = {\<newline>      ...config.resolve.fallback,\<newline>      fs: false,\<newline>      os: false,\<newline>      path: false,\<newline>      crypto: false,\<newline>    };\<newline>    config.externals.push(\'pino-pretty\', \'lokijs\', \'encoding\');\<newline>    return config;\<newline>  },\<newline>}\<newline>''
   \<and> fileAfter (updateNextConfig ''export default function config() {\<newline>  return {}\<newline>}\<newline>'')
         ''export default function config() {\<newline>  return {}\<newline>}\<newline>''
       \<noteq> ''export default function config() {\<newline>  return {}\<newline>}\<newline>''\<close>
  by (simp add: updateMainFile_no_anchor updateNextConfig_no_anchor
      updateNextConfig_function_config addWebpackConfig_fallbackConfig fileAfter_def warned_simps)

text \<open>
  Claim C2, amended. The Pages Router \<open>_app\<close> patcher and the React entry-point patcher
  warn when the marker is absent and their locator patterns do not match, and whenever
  they warn they write nothing, so the file is left as it was. The App Router layout
  patcher writes nothing whenever it warns; with the context that \<open>init\<close> hands to it,
  which has no member \<open>config\<close>, the read of \<open>context.config.useAppKit\<close> raises and the
  patcher logs the error \<open>Failed to update App Router layout\<close>, does not warn and writes
  nothing, whatever the layout file; with a context that has a \<open>config\<close> it warns and
  writes nothing when the marker is absent and none of its four patterns matches. The
  Next.js configuration patcher never warns and, when the marker is absent, always writes:
  the result of the webpack step on the result of the \<open>transpilePackages\<close> step. The
  latter is the fallback configuration when the content has none of \<open>transpilePackages\<close>,
  \<open>module.exports\<close> and \<open>export default\<close>, and the content itself when the first of these
  words that is present is not followed by what its pattern asks for; the webpack step
  leaves a content as it is when it has no \<open>webpack\<close> and no closing brace at its end, or
  has \<open>webpack\<close> and either \<open>externals\<close> or no match of the webpack function pattern, and
  inserts its block otherwise.
\<close>

theorem no_write_after_warning:
  \<open>   (\<forall>(rt :: 'n runtime) ctx content.
      warned (updateAppRouterEntryPoint rt ctx content) \<longrightarrow>
      snd (updateAppRouterEntryPoint rt ctx content) = None
      \<and> fileAfter (updateAppRouterEntryPoint rt ctx content) content = content)
   \<and> (\<forall>(rt :: 'n runtime) projectInfo solanaConfig hasTypeScript isAppRouter content.
      updateAppRouterEntryPoint rt (initContext projectInfo solanaConfig hasTypeScript isAppRouter) content
        = ([LogError ''Failed to update App Router layout''], None)
      \<and> \<not> warned (updateAppRouterEntryPoint rt
               (initContext projectInfo solanaConfig hasTypeScript isAppRouter) content)
      \<and> fileAfter (updateAppRouterEntryPoint rt
               (initContext projectInfo solanaConfig hasTypeScript isAppRouter) content) content
          = content)
   \<and> (\<forall>(rt :: 'n runtime) ctx content nm.
      ctx \<noteq> JUndefined \<and> ctx \<noteq> JNull
      \<and> getProperty rt ctx ''config'' \<noteq> JUndefined \<and> getProperty rt ctx ''config'' \<noteq> JNull
      \<and> nm = (if truthy rt (getProperty rt (getProperty rt ctx ''config'') ''useAppKit'')
               then appKitNames else walletNames)
      \<and> \<not> list_ex (includesStr content) (markers nm)
      \<and> \<not> regexTest nextjsBodyPattern content
      \<and> regexMatch bodyPattern (addImport importPattern content (importAfter nm) (importAtStart nm)) = None
      \<and> regexMatch simpleBodyPattern (addImport importPattern content (importAfter nm) (importAtStart nm)) = None
      \<and> regexMatch returnPattern (addImport importPattern content (importAfter nm) (importAtStart nm)) = None
      \<longrightarrow> warned (updateAppRouterEntryPoint rt ctx content)
          \<and> snd (updateAppRouterEntryPoint rt ctx content) = None
          \<and> fileAfter (updateAppRouterEntryPoint rt ctx content) content = content)
   \<and> (\<forall>content.
      warned (updatePagesRouterEntryPoint content) \<longrightarrow>
      snd (updatePagesRouterEntryPoint content) = None
      \<and> fileAfter (updatePagesRouterEntryPoint content) content = content)
   \<and> (\<forall>content.
      \<not> includesStr content ''SolanaProvider''
      \<and> regexMatch componentPattern
            (addImport importPattern content
                 ''\<newline>import { SolanaProvider } from \'../solana/wallet\';\<newline>''
                 ''import { SolanaProvider } from \'../solana/wallet\';\<newline>\<newline>'') = None
      \<longrightarrow> warned (updatePagesRouterEntryPoint content)
          \<and> snd (updatePagesRouterEntryPoint content) = None
          \<and> fileAfter (updatePagesRouterEntryPoint content) content = content)
   \<and> (\<forall>content.
      warned (updateEntryPoint content) \<longrightarrow>
      snd (updateEntryPoint content) = None
      \<and> fileAfter (updateEntryPoint content) content = content)
   \<and> (\<forall>content.
      \<not> includesStr content ''SolanaProvider''
      \<and> regexMatch reactDomRenderPattern
            (addImport importPattern content
                 ''\<newline>import { SolanaProvider } from \'./solana/wallet\';\<newline>''
                 ''import { SolanaProvider } from \'./solana/wallet\';\<newline>\<newline>'') = None
      \<and> regexMatch createRootPattern
            (addImport importPattern content
                 ''\<newline>import { SolanaProvider } from \'./solana/wallet\';\<newline>''
                 ''import { SolanaProvider } from \'./solana/wallet\';\<newline>\<newline>'') = None
      \<longrightarrow> warned (updateEntryPoint content)
          \<and> snd (updateEntryPoint content) = None
          \<and> fileAfter (updateEntryPoint content) content = content)
   \<and> (\<forall>content. \<not> warned (updateNextConfig content))
   \<and> (\<forall>content.
      \<not> includesStr content ''@solana/wallet-adapter'' \<longrightarrow>
      updateNextConfig content
        = ([LogSuccess ''Updated Next.js configuration''],
           Some (addWebpackConfig (addTranspilePackages content))))
   \<and> (\<forall>content.
      \<not> includesStr content ''transpilePackages''
      \<and> \<not> includesStr content ''module.exports''
      \<and> \<not> includesStr content ''export default''
      \<longrightarrow> addTranspilePackages content = fallbackConfig)
   \<and> (\<forall>content.
      includesStr content ''transpilePackages''
      \<and> regexMatch transpilePackagesPattern content = None
      \<longrightarrow> addTranspilePackages content = content)
   \<and> (\<forall>content.
      \<not> includesStr content ''transpilePackages''
      \<and> includesStr content ''module.exports''
      \<and> regexMatch moduleExportsPattern content = None
      \<longrightarrow> addTranspilePackages content = content)
   \<and> (\<forall>content.
      \<not> includesStr content ''transpilePackages''
      \<and> \<not> includesStr content ''module.exports''
      \<and> includesStr content ''export default''
      \<and> regexMatch exportDefaultPattern content = None
      \<longrightarrow> addTranspilePackages content = content)
   \<and> (\<forall>content.
      \<not> includesStr content ''webpack''
      \<and> \<not> regexTest closingSemiPattern content
      \<and> \<not> regexTest closingBracePattern content
      \<longrightarrow> addWebpackConfig content = content)
   \<and> (\<forall>content.
      includesStr content ''webpack''
      \<and> (\<not> includesStr content ''externals'' \<longrightarrow>
             regexMatch webpackFunctionPattern content = None)
      \<longrightarrow> addWebpackConfig content = content)\<close>
proof (intro conjI allI impI)
  fix rt :: "'n runtime" and ctx content
  assume "warned (updateAppRouterEntryPoint rt ctx content)"
  then show "snd (updateAppRouterEntryPoint rt ctx content) = None"
    by (rule updateAppRouterEntryPoint_warned)
  then show "fileAfter (updateAppRouterEntryPoint rt ctx content) content = content"
    by (rule fileAfter_None)
next
  fix rt :: "'n runtime" and projectInfo solanaConfig hasTypeScript isAppRouter content
  note e = updateAppRouterEntryPoint_initContext
    [of rt projectInfo solanaConfig hasTypeScript isAppRouter content]
  show "updateAppRouterEntryPoint rt (initContext projectInfo solanaConfig hasTypeScript isAppRouter) content
        = ([LogError ''Failed to update App Router layout''], None)"
    by (rule e)
  show "\<not> warned (updateAppRouterEntryPoint rt
               (initContext projectInfo solanaConfig hasTypeScript isAppRouter) content)"
    by (simp add: e warned_simps)
  show "fileAfter (updateAppRouterEntryPoint rt
               (initContext projectInfo solanaConfig hasTypeScript isAppRouter) content) content
          = content"
    by (simp add: e fileAfter_def)
next
  fix rt :: "'n runtime" and ctx content and nm :: layoutNames
  assume a: "ctx \<noteq> JUndefined \<and> ctx \<noteq> JNull
      \<and> getProperty rt ctx ''config'' \<noteq> JUndefined \<and> getProperty rt ctx ''config'' \<noteq> JNull
      \<and> nm = (if truthy rt (getProperty rt (getProperty rt ctx ''config'') ''useAppKit'')
               then appKitNames else walletNames)
      \<and> \<not> list_ex (includesStr content) (markers nm)
      \<and> \<not> regexTest nextjsBodyPattern content
      \<and> regexMatch bodyPattern (addImport importPattern content (importAfter nm) (importAtStart nm)) = None
      \<and> regexMatch simpleBodyPattern (addImport importPattern content (importAfter nm) (importAtStart nm)) = None
      \<and> regexMatch returnPattern (addImport importPattern content (importAfter nm) (importAtStart nm)) = None"
  from a have b: "\<not> list_ex (includesStr content) (markers nm)
      \<and> \<not> regexTest nextjsBodyPattern content
      \<and> regexMatch bodyPattern (addImport importPattern content (importAfter nm) (importAtStart nm)) = None
      \<and> regexMatch simpleBodyPattern (addImport importPattern content (importAfter nm) (importAtStart nm)) = None
      \<and> regexMatch returnPattern (addImport importPattern content (importAfter nm) (importAtStart nm)) = None"
    by blast
  from a have d: "ctx \<noteq> JUndefined \<and> ctx \<noteq> JNull
      \<and> getProperty rt ctx ''config'' \<noteq> JUndefined \<and> getProperty rt ctx ''config'' \<noteq> JNull"
    and n: "nm = (if truthy rt (getProperty rt (getProperty rt ctx ''config'') ''useAppKit'')
               then appKitNames else walletNames)"
    by blast+
  from d have "updateAppRouterEntryPoint rt ctx content = patchLayout (if truthy rt (getProperty rt (getProperty rt ctx ''config'') ''useAppKit'')
               then appKitNames else walletNames) content"
    by (simp add: updateAppRouterEntryPoint_def Let_def)
  then have u: "updateAppRouterEntryPoint rt ctx content = patchLayout nm content"
    unfolding n[symmetric] .
  from b have "warned (patchLayout nm content)"
    by (simp add: patchLayout_def wrapBody_def warned_simps Let_def)
  with u show w: "warned (updateAppRouterEntryPoint rt ctx content)" by simp
  from w show "snd (updateAppRouterEntryPoint rt ctx content) = None"
    by (rule updateAppRouterEntryPoint_warned)
  then show "fileAfter (updateAppRouterEntryPoint rt ctx content) content = content"
    by (rule fileAfter_None)
next
  fix content
  assume "warned (updatePagesRouterEntryPoint content)"
  then show "snd (updatePagesRouterEntryPoint content) = None"
    by (rule updatePagesRouterEntryPoint_warned)
  then show "fileAfter (updatePagesRouterEntryPoint content) content = content"
    by (rule fileAfter_None)
next
  fix content
  assume \<open>\<not> includesStr content ''SolanaProvider''
      \<and> regexMatch componentPattern
            (addImport importPattern content
                 ''\<newline>import { SolanaProvider } from \'../solana/wallet\';\<newline>''
                 ''import { SolanaProvider } from \'../solana/wallet\';\<newline>\<newline>'') = None\<close>
  then show w: "warned (updatePagesRouterEntryPoint content)"
    by (simp add: updatePagesRouterEntryPoint_def warned_simps Let_def)
  from w show "snd (updatePagesRouterEntryPoint content) = None"
    by (rule updatePagesRouterEntryPoint_warned)
  then show "fileAfter (updatePagesRouterEntryPoint content) content = content"
    by (rule fileAfter_None)
next
  fix content
  assume "warned (updateEntryPoint content)"
  then show "snd (updateEntryPoint content) = None"
    by (rule updateEntryPoint_warned)
  then show "fileAfter (updateEntryPoint content) content = content"
    by (rule fileAfter_None)
next
  fix content
  assume \<open>\<not> includesStr content ''SolanaProvider''
      \<and> regexMatch reactDomRenderPattern
            (addImport importPattern content
                 ''\<newline>import { SolanaProvider } from \'./solana/wallet\';\<newline>''
                 ''import { SolanaProvider } from \'./solana/wallet\';\<newline>\<newline>'') = None
      \<and> regexMatch createRootPattern
            (addImport importPattern content
                 ''\<newline>import { SolanaProvider } from \'./solana/wallet\';\<newline>''
                 ''import { SolanaProvider } from \'./solana/wallet\';\<newline>\<newline>'') = None\<close>
  then show w: "warned (updateEntryPoint content)"
    by (simp add: updateEntryPoint_def warned_simps Let_def)
  from w show "snd (updateEntryPoint content) = None"
    by (rule updateEntryPoint_warned)
  then show "fileAfter (updateEntryPoint content) content = content"
    by (rule fileAfter_None)
next
  fix content
  show "\<not> warned (updateNextConfig content)"
    by (simp add: updateNextConfig_def warned_simps)
next
  fix content
  assume "\<not> includesStr content ''@solana/wallet-adapter''"
  then show "updateNextConfig content
        = ([LogSuccess ''Updated Next.js configuration''],
           Some (addWebpackConfig (addTranspilePackages content)))"
    by (simp add: updateNextConfig_def)
next
  fix content
  assume "\<not> includesStr content ''transpilePackages''
      \<and> \<not> includesStr content ''module.exports''
      \<and> \<not> includesStr content ''export default''"
  then show "addTranspilePackages content = fallbackConfig"
    by (simp add: addTranspilePackages_def)
next
  fix content
  assume "includesStr content ''transpilePackages''
      \<and> regexMatch transpilePackagesPattern content = None"
  then show "addTranspilePackages content = content"
    by (simp add: addTranspilePackages_def replaceFn_def)
next
  fix content
  assume "\<not> includesStr content ''transpilePackages''
      \<and> includesStr content ''module.exports''
      \<and> regexMatch moduleExportsPattern content = None"
  then show "addTranspilePackages content = content"
    by (simp add: addTranspilePackages_def replaceRe_def)
next
  fix content
  assume "\<not> includesStr content ''transpilePackages''
      \<and> \<not> includesStr content ''module.exports''
      \<and> includesStr content ''export default''
      \<and> regexMatch exportDefaultPattern content = None"
  then show "addTranspilePackages content = content"
    by (simp add: addTranspilePackages_def replaceRe_def)
next
  fix content
  assume "\<not> includesStr content ''webpack''
      \<and> \<not> regexTest closingSemiPattern content
      \<and> \<not> regexTest closingBracePattern content"
  then show "addWebpackConfig content = content"
    by (simp add: addWebpackConfig_def)
next
  fix content
  assume "includesStr content ''webpack''
      \<and> (\<not> includesStr content ''externals'' \<longrightarrow>
             regexMatch webpackFunctionPattern content = None)"
  then show "addWebpackConfig content = content"
    by (auto simp: addWebpackConfig_def replaceRe_def)
qed

theorem no_write_after_warning_witness:
  \<open>\<forall>rt :: 'n runtime.
     (\<not> includesStr ''export default function App() { return null }'' ''SolanaProvider''
     \<and> regexMatch componentPattern
           (addImport importPattern ''export default function App() { return null }''
                 ''\<newline>import { SolanaProvider } from \'../solana/wallet\';\<newline>''
                 ''import { SolanaProvider } from \'../solana/wallet\';\<newline>\<newline>'') = None)
   \<and> (warned (updatePagesRouterEntryPoint ''export default function App() { return null }'')
     \<and> snd (updatePagesRouterEntryPoint ''export default function App() { return null }'') = None
     \<and> fileAfter (updatePagesRouterEntryPoint ''export default function App() { return null }'') ''export default function App() { return null }''
         = ''export default function App() { return null }'')
   \<and> (\<not> includesStr ''console.log(1)'' ''SolanaProvider''
     \<and> regexMatch reactDomRenderPattern
           (addImport importPattern ''console.log(1)''
                 ''\<newline>import { SolanaProvider } from \'./solana/wallet\';\<newline>''
                 ''import { SolanaProvider } from \'./solana/wallet\';\<newline>\<newline>'') = None
     \<and> regexMatch createRootPattern
           (addImport importPattern ''console.log(1)''
                 ''\<newline>import { SolanaProvider } from \'./solana/wallet\';\<newline>''
                 ''import { SolanaProvider } from \'./solana/wallet\';\<newline>\<newline>'') = None)
   \<and> (warned (updateEntryPoint ''console.log(1)'')
     \<and> snd (updateEntryPoint ''console.log(1)'') = None
     \<and> fileAfter (updateEntryPoint ''console.log(1)'') ''console.log(1)'' = ''console.log(1)'')
   \<and> (((JObj [(''config'', JObj [(''useAppKit'', JBool False)])]) :: 'n jsval) \<noteq> JUndefined
     \<and> ((JObj [(''config'', JObj [(''useAppKit'', JBool False)])]) :: 'n jsval) \<noteq> JNull
     \<and> getProperty rt ((JObj [(''config'', JObj [(''useAppKit'', JBool False)])]) :: 'n jsval) ''config'' \<noteq> JUndefined
     \<and> getProperty rt ((JObj [(''config'', JObj [(''useAppKit'', JBool False)])]) :: 'n jsval) ''config'' \<noteq> JNull
     \<and> walletNames = (if truthy rt (getProperty rt (getProperty rt ((JObj [(''config'', JObj [(''useAppKit'', JBool False)])]) :: 'n jsval) ''config'') ''useAppKit'')
               then appKitNames else walletNames)
     \<and> \<not> list_ex (includesStr ''export default function RootLayout() { return null }'') (markers walletNames)
     \<and> \<not> regexTest nextjsBodyPattern ''export default function RootLayout() { return null }''
     \<and> regexMatch bodyPattern
           (addImport importPattern ''export default function RootLayout() { return null }'' (importAfter walletNames) (importAtStart walletNames)) = None
     \<and> regexMatch simpleBodyPattern
           (addImport importPattern ''export default function RootLayout() { return null }'' (importAfter walletNames) (importAtStart walletNames)) = None
     \<and> regexMatch returnPattern
           (addImport importPattern ''export default function RootLayout() { return null }'' (importAfter walletNames) (importAtStart walletNames)) = None)
   \<and> (warned (updateAppRouterEntryPoint rt ((JObj [(''config'', JObj [(''useAppKit'', JBool False)])]) :: 'n jsval)
        ''export default function RootLayout() { return null }'')
     \<and> snd (updateAppRouterEntryPoint rt ((JObj [(''config'', JObj [(''useAppKit'', JBool False)])]) :: 'n jsval)
        ''export default function RootLayout() { return null }'') = None
     \<and> fileAfter (updateAppRouterEntryPoint rt ((JObj [(''config'', JObj [(''useAppKit'', JBool False)])]) :: 'n jsval)
          ''export default function RootLayout() { return null }'')
          ''export default function RootLayout() { return null }''
         = ''export default function RootLayout() { return null }'')
   \<and> (updateAppRouterEntryPoint rt (initContext JUndefined JUndefined True (JBool True))
        ''export default function RootLayout() { return null }''
       = ([LogError ''Failed to update App Router layout''], None))
   \<and> (\<not> includesStr ''const x = 1;'' ''@solana/wallet-adapter'')
   \<and> (\<not> includesStr ''const x = 1;'' ''transpilePackages''
     \<and> \<not> includesStr ''const x = 1;'' ''module.exports''
     \<and> \<not> includesStr ''const x = 1;'' ''export default'')
   \<and> (updateNextConfig ''const x = 1;''
       = ([LogSuccess ''Updated Next.js configuration''],
          Some (addWebpackConfig (addTranspilePackages ''const x = 1;''))))
   \<and> (addTranspilePackages ''const x = 1;'' = fallbackConfig)
   \<and> (\<not> includesStr ''export default function config() {\<newline>  return {}\<newline>}\<newline>'' ''transpilePackages''
     \<and> \<not> includesStr ''export default function config() {\<newline>  return {}\<newline>}\<newline>'' ''module.exports''
     \<and> includesStr ''export default function config() {\<newline>  return {}\<newline>}\<newline>'' ''export default''
     \<and> regexMatch exportDefaultPattern ''export default function config() {\<newline>  return {}\<newline>}\<newline>'' = None)
   \<and> (addTranspilePackages ''export default function config() {\<newline>  return {}\<newline>}\<newline>'' = ''export default function config() {\<newline>  return {}\<newline>}\<newline>'')
   \<and> (\<not> includesStr ''module.exports = nextConfig\<newline>'' ''transpilePackages''
     \<and> includesStr ''module.exports = nextConfig\<newline>'' ''module.exports''
     \<and> regexMatch moduleExportsPattern ''module.exports = nextConfig\<newline>'' = None)
   \<and> (addTranspilePackages ''module.exports = nextConfig\<newline>'' = ''module.exports = nextConfig\<newline>'')
   \<and> (\<not> includesStr ''module.exports = nextConfig\<newline>'' ''webpack''
     \<and> \<not> regexTest closingSemiPattern ''module.exports = nextConfig\<newline>''
     \<and> \<not> regexTest closingBracePattern ''module.exports = nextConfig\<newline>'')
   \<and> (addWebpackConfig ''module.exports = nextConfig\<newline>'' = ''module.exports = nextConfig\<newline>'')
   \<and> (includesStr ''// no transpilePackages here\<newline>'' ''transpilePackages''
     \<and> regexMatch transpilePackagesPattern ''// no transpilePackages here\<newline>'' = None)
   \<and> (addTranspilePackages ''// no transpilePackages here\<newline>'' = ''// no transpilePackages here\<newline>'')
   \<and> (includesStr ''webpack externals'' ''webpack''
     \<and> (\<not> includesStr ''webpack externals'' ''externals'' \<longrightarrow>
            regexMatch webpackFunctionPattern ''webpack externals'' = None))
   \<and> (addWebpackConfig ''webpack externals'' = ''webpack externals'')\<close>
proof
  fix rt :: "'n runtime"
  note t = no_write_after_warning[where 'n = 'n]
  have hP: \<open>\<not> includesStr ''export default function App() { return null }'' ''SolanaProvider''
     \<and> regexMatch componentPattern
           (addImport importPattern ''export default function App() { return null }''
                 ''\<newline>import { SolanaProvider } from \'../solana/wallet\';\<newline>''
                 ''import { SolanaProvider } from \'../solana/wallet\';\<newline>\<newline>'') = None\<close>
    by code_simp
  have cP: \<open>warned (updatePagesRouterEntryPoint ''export default function App() { return null }'')
     \<and> snd (updatePagesRouterEntryPoint ''export default function App() { return null }'') = None
     \<and> fileAfter (updatePagesRouterEntryPoint ''export default function App() { return null }'') ''export default function App() { return null }''
         = ''export default function App() { return null }''\<close>
    by (rule t[THEN conjunct2, THEN conjunct2, THEN conjunct2, THEN conjunct2, THEN conjunct1, rule_format, OF hP])
  have hR: \<open>\<not> includesStr ''console.log(1)'' ''SolanaProvider''
     \<and> regexMatch reactDomRenderPattern
           (addImport importPattern ''console.log(1)''
                 ''\<newline>import { SolanaProvider } from \'./solana/wallet\';\<newline>''
                 ''import { SolanaProvider } from \'./solana/wallet\';\<newline>\<newline>'') = None
     \<and> regexMatch createRootPattern
           (addImport importPattern ''console.log(1)''
                 ''\<newline>import { SolanaProvider } from \'./solana/wallet\';\<newline>''
                 ''import { SolanaProvider } from \'./solana/wallet\';\<newline>\<newline>'') = None\<close>
    by code_simp
  have cR: \<open>warned (updateEntryPoint ''console.log(1)'')
     \<and> snd (updateEntryPoint ''console.log(1)'') = None
     \<and> fileAfter (updateEntryPoint ''console.log(1)'') ''console.log(1)'' = ''console.log(1)''\<close>
    by (rule t[THEN conjunct2, THEN conjunct2, THEN conjunct2, THEN conjunct2, THEN conjunct2, THEN conjunct2, THEN conjunct1, rule_format, OF hR])
  have a0: \<open>((JObj [(''config'', JObj [(''useAppKit'', JBool False)])]) :: 'n jsval) \<noteq> JUndefined\<close>
    by simp
  have a1: \<open>((JObj [(''config'', JObj [(''useAppKit'', JBool False)])]) :: 'n jsval) \<noteq> JNull\<close>
    by simp
  have a2: \<open>getProperty rt ((JObj [(''config'', JObj [(''useAppKit'', JBool False)])]) :: 'n jsval) ''config'' \<noteq> JUndefined\<close>
    by simp
  have a3: \<open>getProperty rt ((JObj [(''config'', JObj [(''useAppKit'', JBool False)])]) :: 'n jsval) ''config'' \<noteq> JNull\<close>
    by simp
  have a4: \<open>walletNames = (if truthy rt (getProperty rt (getProperty rt ((JObj [(''config'', JObj [(''useAppKit'', JBool False)])]) :: 'n jsval) ''config'') ''useAppKit'')
               then appKitNames else walletNames)\<close>
    by simp
  have b0: \<open>\<not> list_ex (includesStr ''export default function RootLayout() { return null }'') (markers walletNames)\<close>
    by code_simp
  have b1: \<open>\<not> regexTest nextjsBodyPattern ''export default function RootLayout() { return null }''\<close>
    by code_simp
  have b2: \<open>regexMatch bodyPattern
           (addImport importPattern ''export default function RootLayout() { return null }'' (importAfter walletNames) (importAtStart walletNames)) = None\<close>
    by code_simp
  have b3: \<open>regexMatch simpleBodyPattern
           (addImport importPattern ''export default function RootLayout() { return null }'' (importAfter walletNames) (importAtStart walletNames)) = None\<close>
    by code_simp
  have b4: \<open>regexMatch returnPattern
           (addImport importPattern ''export default function RootLayout() { return null }'' (importAfter walletNames) (importAtStart walletNames)) = None\<close>
    by code_simp
  have hL: \<open>((JObj [(''config'', JObj [(''useAppKit'', JBool False)])]) :: 'n jsval) \<noteq> JUndefined
     \<and> ((JObj [(''config'', JObj [(''useAppKit'', JBool False)])]) :: 'n jsval) \<noteq> JNull
     \<and> getProperty rt ((JObj [(''config'', JObj [(''useAppKit'', JBool False)])]) :: 'n jsval) ''config'' \<noteq> JUndefined
     \<and> getProperty rt ((JObj [(''config'', JObj [(''useAppKit'', JBool False)])]) :: 'n jsval) ''config'' \<noteq> JNull
     \<and> walletNames = (if truthy rt (getProperty rt (getProperty rt ((JObj [(''config'', JObj [(''useAppKit'', JBool False)])]) :: 'n jsval) ''config'') ''useAppKit'')
               then appKitNames else walletNames)
     \<and> \<not> list_ex (includesStr ''export default function RootLayout() { return null }'') (markers walletNames)
     \<and> \<not> regexTest nextjsBodyPattern ''export default function RootLayout() { return null }''
     \<and> regexMatch bodyPattern
           (addImport importPattern ''export default function RootLayout() { return null }'' (importAfter walletNames) (importAtStart walletNames)) = None
     \<and> regexMatch simpleBodyPattern
           (addImport importPattern ''export default function RootLayout() { return null }'' (importAfter walletNames) (importAtStart walletNames)) = None
     \<and> regexMatch returnPattern
           (addImport importPattern ''export default function RootLayout() { return null }'' (importAfter walletNames) (importAtStart walletNames)) = None\<close>
    by (rule conjI[OF a0 conjI[OF a1 conjI[OF a2 conjI[OF a3 conjI[OF a4 conjI[OF b0 conjI[OF b1 conjI[OF b2 conjI[OF b3 b4]]]]]]]]])
  have cL: \<open>warned (updateAppRouterEntryPoint rt ((JObj [(''config'', JObj [(''useAppKit'', JBool False)])]) :: 'n jsval)
        ''export default function RootLayout() { return null }'')
     \<and> snd (updateAppRouterEntryPoint rt ((JObj [(''config'', JObj [(''useAppKit'', JBool False)])]) :: 'n jsval)
        ''export default function RootLayout() { return null }'') = None
     \<and> fileAfter (updateAppRouterEntryPoint rt ((JObj [(''config'', JObj [(''useAppKit'', JBool False)])]) :: 'n jsval)
          ''export default function RootLayout() { return null }'')
          ''export default function RootLayout() { return null }''
         = ''export default function RootLayout() { return null }''\<close>
    by (rule t[THEN conjunct2, THEN conjunct2, THEN conjunct1, rule_format, OF hL])
  have cI: \<open>updateAppRouterEntryPoint rt (initContext JUndefined JUndefined True (JBool True))
        ''export default function RootLayout() { return null }''
       = ([LogError ''Failed to update App Router layout''], None)\<close>
    by (rule t[THEN conjunct2, THEN conjunct1, rule_format, THEN conjunct1])
  have hN1: \<open>\<not> includesStr ''const x = 1;'' ''@solana/wallet-adapter''\<close>
    by code_simp
  have hN3: \<open>\<not> includesStr ''const x = 1;'' ''transpilePackages''
     \<and> \<not> includesStr ''const x = 1;'' ''module.exports''
     \<and> \<not> includesStr ''const x = 1;'' ''export default''\<close>
    by code_simp
  have cN2: \<open>updateNextConfig ''const x = 1;''
       = ([LogSuccess ''Updated Next.js configuration''],
          Some (addWebpackConfig (addTranspilePackages ''const x = 1;'')))\<close>
    by (rule t[THEN conjunct2, THEN conjunct2, THEN conjunct2, THEN conjunct2, THEN conjunct2, THEN conjunct2, THEN conjunct2, THEN conjunct2, THEN conjunct1, rule_format, OF hN1])
  have cN3: \<open>addTranspilePackages ''const x = 1;'' = fallbackConfig\<close>
    by (rule t[THEN conjunct2, THEN conjunct2, THEN conjunct2, THEN conjunct2, THEN conjunct2, THEN conjunct2, THEN conjunct2, THEN conjunct2, THEN conjunct2, THEN conjunct1, rule_format, OF hN3])
  have hF: \<open>\<not> includesStr ''export default function config() {\<newline>  return {}\<newline>}\<newline>'' ''transpilePackages''
     \<and> \<not> includesStr ''export default function config() {\<newline>  return {}\<newline>}\<newline>'' ''module.exports''
     \<and> includesStr ''export default function config() {\<newline>  return {}\<newline>}\<newline>'' ''export default''
     \<and> regexMatch exportDefaultPattern ''export default function config() {\<newline>  return {}\<newline>}\<newline>'' = None\<close>
    by code_simp
  have cF: \<open>addTranspilePackages ''export default function config() {\<newline>  return {}\<newline>}\<newline>'' = ''export default function config() {\<newline>  return {}\<newline>}\<newline>''\<close>
    by (rule t[THEN conjunct2, THEN conjunct2, THEN conjunct2, THEN conjunct2, THEN conjunct2, THEN conjunct2, THEN conjunct2, THEN conjunct2, THEN conjunct2, THEN conjunct2, THEN conjunct2, THEN conjunct2, THEN conjunct1, rule_format, OF hF])
  have hM: \<open>\<not> includesStr ''module.exports = nextConfig\<newline>'' ''transpilePackages''
     \<and> includesStr ''module.exports = nextConfig\<newline>'' ''module.exports''
     \<and> regexMatch moduleExportsPattern ''module.exports = nextConfig\<newline>'' = None\<close>
    by code_simp
  have cM: \<open>addTranspilePackages ''module.exports = nextConfig\<newline>'' = ''module.exports = nextConfig\<newline>''\<close>
    by (rule t[THEN conjunct2, THEN conjunct2, THEN conjunct2, THEN conjunct2, THEN conjunct2, THEN conjunct2, THEN conjunct2, THEN conjunct2, THEN conjunct2, THEN conjunct2, THEN conjunct2, THEN conjunct1, rule_format, OF hM])
  have hM2: \<open>\<not> includesStr ''module.exports = nextConfig\<newline>'' ''webpack''
     \<and> \<not> regexTest closingSemiPattern ''module.exports = nextConfig\<newline>''
     \<and> \<not> regexTest closingBracePattern ''module.exports = nextConfig\<newline>''\<close>
    by code_simp
  have cM2: \<open>addWebpackConfig ''module.exports = nextConfig\<newline>'' = ''module.exports = nextConfig\<newline>''\<close>
    by (rule t[THEN conjunct2, THEN conjunct2, THEN conjunct2, THEN conjunct2, THEN conjunct2, THEN conjunct2, THEN conjunct2, THEN conjunct2, THEN conjunct2, THEN conjunct2, THEN conjunct2, THEN conjunct2, THEN conjunct2, THEN conjunct1, rule_format, OF hM2])
  have hT: \<open>includesStr ''// no transpilePackages here\<newline>'' ''transpilePackages''
     \<and> regexMatch transpilePackagesPattern ''// no transpilePackages here\<newline>'' = None\<close>
    by code_simp
  have cT: \<open>addTranspilePackages ''// no transpilePackages here\<newline>'' = ''// no transpilePackages here\<newline>''\<close>
    by (rule t[THEN conjunct2, THEN conjunct2, THEN conjunct2, THEN conjunct2, THEN conjunct2, THEN conjunct2, THEN conjunct2, THEN conjunct2, THEN conjunct2, THEN conjunct2, THEN conjunct1, rule_format, OF hT])
  have w0: \<open>includesStr ''webpack externals'' ''externals''\<close>
    by code_simp
  have hW: \<open>includesStr ''webpack externals'' ''webpack''
     \<and> (\<not> includesStr ''webpack externals'' ''externals'' \<longrightarrow>
            regexMatch webpackFunctionPattern ''webpack externals'' = None)\<close>
    proof
    show \<open>includesStr ''webpack externals'' ''webpack''\<close> by code_simp
    show \<open>\<not> includesStr ''webpack externals'' ''externals'' \<longrightarrow>
            regexMatch webpackFunctionPattern ''webpack externals'' = None\<close>
      using w0 by blast
  qed
  have cW: \<open>addWebpackConfig ''webpack externals'' = ''webpack externals''\<close>
    by (rule t[THEN conjunct2, THEN conjunct2, THEN conjunct2, THEN conjunct2, THEN conjunct2, THEN conjunct2, THEN conjunct2, THEN conjunct2, THEN conjunct2, THEN conjunct2, THEN conjunct2, THEN conjunct2, THEN conjunct2, THEN conjunct2, rule_format, OF hW])
  show \<open>(\<not> includesStr ''export default function App() { return null }'' ''SolanaProvider''
     \<and> regexMatch componentPattern
           (addImport importPattern ''export default function App() { return null }''
                 ''\<newline>import { SolanaProvider } from \'../solana/wallet\';\<newline>''
                 ''import { SolanaProvider } from \'../solana/wallet\';\<newline>\<newline>'') = None)
   \<and> (warned (updatePagesRouterEntryPoint ''export default function App() { return null }'')
     \<and> snd (updatePagesRouterEntryPoint ''export default function App() { return null }'') = None
     \<and> fileAfter (updatePagesRouterEntryPoint ''export default function App() { return null }'') ''export default function App() { return null }''
         = ''export default function App() { return null }'')
   \<and> (\<not> includesStr ''console.log(1)'' ''SolanaProvider''
     \<and> regexMatch reactDomRenderPattern
           (addImport importPattern ''console.log(1)''
                 ''\<newline>import { SolanaProvider } from \'./solana/wallet\';\<newline>''
                 ''import { SolanaProvider } from \'./solana/wallet\';\<newline>\<newline>'') = None
     \<and> regexMatch createRootPattern
           (addImport importPattern ''console.log(1)''
                 ''\<newline>import { SolanaProvider } from \'./solana/wallet\';\<newline>''
                 ''import { SolanaProvider } from \'./solana/wallet\';\<newline>\<newline>'') = None)
   \<and> (warned (updateEntryPoint ''console.log(1)'')
     \<and> snd (updateEntryPoint ''console.log(1)'') = None
     \<and> fileAfter (updateEntryPoint ''console.log(1)'') ''console.log(1)'' = ''console.log(1)'')
   \<and> (((JObj [(''config'', JObj [(''useAppKit'', JBool False)])]) :: 'n jsval) \<noteq> JUndefined
     \<and> ((JObj [(''config'', JObj [(''useAppKit'', JBool False)])]) :: 'n jsval) \<noteq> JNull
     \<and> getProperty rt ((JObj [(''config'', JObj [(''useAppKit'', JBool False)])]) :: 'n jsval) ''config'' \<noteq> JUndefined
     \<and> getProperty rt ((JObj [(''config'', JObj [(''useAppKit'', JBool False)])]) :: 'n jsval) ''config'' \<noteq> JNull
     \<and> walletNames = (if truthy rt (getProperty rt (getProperty rt ((JObj [(''config'', JObj [(''useAppKit'', JBool False)])]) :: 'n jsval) ''config'') ''useAppKit'')
               then appKitNames else walletNames)
     \<and> \<not> list_ex (includesStr ''export default function RootLayout() { return null }'') (markers walletNames)
     \<and> \<not> regexTest nextjsBodyPattern ''export default function RootLayout() { return null }''
     \<and> regexMatch bodyPattern
           (addImport importPattern ''export default function RootLayout() { return null }'' (importAfter walletNames) (importAtStart walletNames)) = None
     \<and> regexMatch simpleBodyPattern
           (addImport importPattern ''export default function RootLayout() { return null }'' (importAfter walletNames) (importAtStart walletNames)) = None
     \<and> regexMatch returnPattern
           (addImport importPattern ''export default function RootLayout() { return null }'' (importAfter walletNames) (importAtStart walletNames)) = None)
   \<and> (warned (updateAppRouterEntryPoint rt ((JObj [(''config'', JObj [(''useAppKit'', JBool False)])]) :: 'n jsval)
        ''export default function RootLayout() { return null }'')
     \<and> snd (updateAppRouterEntryPoint rt ((JObj [(''config'', JObj [(''useAppKit'', JBool False)])]) :: 'n jsval)
        ''export default function RootLayout() { return null }'') = None
     \<and> fileAfter (updateAppRouterEntryPoint rt ((JObj [(''config'', JObj [(''useAppKit'', JBool False)])]) :: 'n jsval)
          ''export default function RootLayout() { return null }'')
          ''export default function RootLayout() { return null }''
         = ''export default function RootLayout() { return null }'')
   \<and> (updateAppRouterEntryPoint rt (initContext JUndefined JUndefined True (JBool True))
        ''export default function RootLayout() { return null }''
       = ([LogError ''Failed to update App Router layout''], None))
   \<and> (\<not> includesStr ''const x = 1;'' ''@solana/wallet-adapter'')
   \<and> (\<not> includesStr ''const x = 1;'' ''transpilePackages''
     \<and> \<not> includesStr ''const x = 1;'' ''module.exports''
     \<and> \<not> includesStr ''const x = 1;'' ''export default'')
   \<and> (updateNextConfig ''const x = 1;''
       = ([LogSuccess ''Updated Next.js configuration''],
          Some (addWebpackConfig (addTranspilePackages ''const x = 1;''))))
   \<and> (addTranspilePackages ''const x = 1;'' = fallbackConfig)
   \<and> (\<not> includesStr ''export default function config() {\<newline>  return {}\<newline>}\<newline>'' ''transpilePackages''
     \<and> \<not> includesStr ''export default function config() {\<newline>  return {}\<newline>}\<newline>'' ''module.exports''
     \<and> includesStr ''export default function config() {\<newline>  return {}\<newline>}\<newline>'' ''export default''
     \<and> regexMatch exportDefaultPattern ''export default function config() {\<newline>  return {}\<newline>}\<newline>'' = None)
   \<and> (addTranspilePackages ''export default function config() {\<newline>  return {}\<newline>}\<newline>'' = ''export default function config() {\<newline>  return {}\<newline>}\<newline>'')
   \<and> (\<not> includesStr ''module.exports = nextConfig\<newline>'' ''transpilePackages''
     \<and> includesStr ''module.exports = nextConfig\<newline>'' ''module.exports''
     \<and> regexMatch moduleExportsPattern ''module.exports = nextConfig\<newline>'' = None)
   \<and> (addTranspilePackages ''module.exports = nextConfig\<newline>'' = ''module.exports = nextConfig\<newline>'')
   \<and> (\<not> includesStr ''module.exports = nextConfig\<newline>'' ''webpack''
     \<and> \<not> regexTest closingSemiPattern ''module.exports = nextConfig\<newline>''
     \<and> \<not> regexTest closingBracePattern ''module.exports = nextConfig\<newline>'')
   \<and> (addWebpackConfig ''module.exports = nextConfig\<newline>'' = ''module.exports = nextConfig\<newline>'')
   \<and> (includesStr ''// no transpilePackages here\<newline>'' ''transpilePackages''
     \<and> regexMatch transpilePackagesPattern ''// no transpilePackages here\<newline>'' = None)
   \<and> (addTranspilePackages ''// no transpilePackages here\<newline>'' = ''// no transpilePackages here\<newline>'')
   \<and> (includesStr ''webpack externals'' ''webpack''
     \<and> (\<not> includesStr ''webpack externals'' ''externals'' \<longrightarrow>
            regexMatch webpackFunctionPattern ''webpack externals'' = None))
   \<and> (addWebpackConfig ''webpack externals'' = ''webpack externals'')\<close>
    by (rule conjI[OF hP conjI[OF cP conjI[OF hR conjI[OF cR conjI[OF hL conjI[OF cL conjI[OF cI conjI[OF hN1 conjI[OF hN3 conjI[OF cN2 conjI[OF cN3 conjI[OF hF conjI[OF cF conjI[OF hM conjI[OF cM conjI[OF hM2 conjI[OF cM2 conjI[OF hT conjI[OF cT conjI[OF hW cW]]]]]]]]]]]]]]]]]]]])
qed


subsection \<open>The text inside a wrap\<close>

lemma pages_dollar_capture:
  \<open>map_option (\<lambda>m. capture (addImport importPattern ''function MyApp({ Component, pageProps }) {\<newline>  return (<Component {...pageProps} currency={\'$\'} />)\<newline>}''
         ''\<newline>import { SolanaProvider } from \'../solana/wallet\';\<newline>''
         ''import { SolanaProvider } from \'../solana/wallet\';\<newline>\<newline>'') m 2)
      (regexMatch componentPattern (addImport importPattern ''function MyApp({ Component, pageProps }) {\<newline>  return (<Component {...pageProps} currency={\'$\'} />)\<newline>}''
         ''\<newline>import { SolanaProvider } from \'../solana/wallet\';\<newline>''
         ''import { SolanaProvider } from \'../solana/wallet\';\<newline>\<newline>''))
    = Some (Some ''<Component {...pageProps} currency={\'$\'} />'')\<close>
  by code_simp

lemma pages_dollar_written:
  \<open>updatePagesRouterEntryPoint ''function MyApp({ Component, pageProps }) {\<newline>  return (<Component {...pageProps} currency={\'$\'} />)\<newline>}''
    = ([LogSuccess ''Added SolanaProvider''],
       Some ''import { SolanaProvider } from \'../solana/wallet\';\<newline>\<newline>function MyApp({ Component, pageProps }) {\<newline>  return (<SolanaProvider>\<newline>      <Component {...pageProps} currency={\'\<newline>}} />\<newline>    </SolanaProvider>)\<newline>}'')\<close>
  by code_simp

lemma pages_dollar_lost:
  \<open>\<not> includesStr ''import { SolanaProvider } from \'../solana/wallet\';\<newline>\<newline>function MyApp({ Component, pageProps }) {\<newline>  return (<SolanaProvider>\<newline>      <Component {...pageProps} currency={\'\<newline>}} />\<newline>    </SolanaProvider>)\<newline>}''
       ''<Component {...pageProps} currency={\'$\'} />''\<close>
  by code_simp

lemma react_dollar_capture:
  \<open>map_option (\<lambda>m. capture (addImport importPattern ''ReactDOM.render(<App price="$$" />, document.getElementById("root"));''
         ''\<newline>import { SolanaProvider } from \'./solana/wallet\';\<newline>''
         ''import { SolanaProvider } from \'./solana/wallet\';\<newline>\<newline>'') m 2)
      (regexMatch reactDomRenderPattern (addImport importPattern ''ReactDOM.render(<App price="$$" />, document.getElementById("root"));''
         ''\<newline>import { SolanaProvider } from \'./solana/wallet\';\<newline>''
         ''import { SolanaProvider } from \'./solana/wallet\';\<newline>\<newline>''))
    = Some (Some ''App price="$$"'')\<close>
  by code_simp

lemma react_dollar_written:
  \<open>updateEntryPoint ''ReactDOM.render(<App price="$$" />, document.getElementById("root"));''
    = ([LogSuccess ''Added SolanaProvider''],
       Some ''import { SolanaProvider } from \'./solana/wallet\';\<newline>\<newline>ReactDOM.render(<<SolanaProvider>\<newline>  App price="$"\<newline></SolanaProvider> />, document.getElementById("root"));'')\<close>
  by code_simp

lemma react_dollar_lost:
  \<open>\<not> includesStr ''import { SolanaProvider } from \'./solana/wallet\';\<newline>\<newline>ReactDOM.render(<<SolanaProvider>\<newline>  App price="$"\<newline></SolanaProvider> />, document.getElementById("root"));''
       ''App price="$$"''\<close>
  by code_simp

lemma layout_dollar_capture:
  \<open>map_option (\<lambda>m. capture (addImport importPattern ''export default function RootLayout({ children }) {\<newline>  return (<html><body><b>{\'$\'}</b>{children}</body></html>)\<newline>}''
         (importAfter walletNames) (importAtStart walletNames)) m 2)
      (regexMatch bodyPattern (addImport importPattern ''export default function RootLayout({ children }) {\<newline>  return (<html><body><b>{\'$\'}</b>{children}</body></html>)\<newline>}''
         (importAfter walletNames) (importAtStart walletNames)))
    = Some (Some ''<b>{\'$\'}</b>'')\<close>
  by code_simp

lemma layout_dollar_written:
  \<open>updateAppRouterEntryPoint rt (JObj [(''config'', JObj [(''useAppKit'', JBool False)])])
      ''export default function RootLayout({ children }) {\<newline>  return (<html><body><b>{\'$\'}</b>{children}</body></html>)\<newline>}''
    = ([LogSuccess ''Added ClientWalletProvider''],
       Some ''// Import Solana wallet provider\<newline>import { ClientWalletProvider } from \'../solana/wallet\';\<newline>\<newline>export default function RootLayout({ children }) {\<newline>  return (<html><body><b>{\'</html>)\<newline>}}</b><ClientWalletProvider>{children}</ClientWalletProvider></body></html>)\<newline>}'')\<close>
  by code_simp

lemma layout_dollar_lost:
  \<open>\<not> includesStr ''// Import Solana wallet provider\<newline>import { ClientWalletProvider } from \'../solana/wallet\';\<newline>\<newline>export default function RootLayout({ children }) {\<newline>  return (<html><body><b>{\'</html>)\<newline>}}</b><ClientWalletProvider>{children}</ClientWalletProvider></body></html>)\<newline>}''
       ''<b>{\'$\'}</b>''\<close>
  by code_simp

text \<open>
  Claim C4 does not hold of the code. The wrapped text is passed to
  \<open>String.prototype.replace\<close> as the replacement string, where \<open>$$\<close>, \<open>$&\<close>, \<open>$`\<close> and
  \<open>$'\<close> are replacement patterns, so a captured region that holds one of them is not
  written back as it was. In the Pages Router \<open>_app\<close> file below the captured component
  is \<open><Component {...pageProps} currency={'$'} />\<close> and the \<open>$'\<close> in it is replaced by the
  text that follows the match; in the React entry file the captured \<open>App price="$$"\<close> is
  written as \<open>App price="$"\<close>; in the App Router layout the captured text in front of
  \<open>{children}\<close> is \<open><b>{'$'}</b>\<close> and its \<open>$'\<close> is replaced likewise. In each case the file
  written does not contain the captured region.
\<close>

theorem wrap_interprets_dollar_patterns:
  \<open>  (map_option (\<lambda>m. capture (addImport importPattern ''function MyApp({ Component, pageProps }) {\<newline>  return (<Component {...pageProps} currency={\'$\'} />)\<newline>}''
         ''\<newline>import { SolanaProvider } from \'../solana/wallet\';\<newline>''
         ''import { SolanaProvider } from \'../solana/wallet\';\<newline>\<newline>'') m 2)
      (regexMatch componentPattern (addImport importPattern ''function MyApp({ Component, pageProps }) {\<newline>  return (<Component {...pageProps} currency={\'$\'} />)\<newline>}''
         ''\<newline>import { SolanaProvider } from \'../solana/wallet\';\<newline>''
         ''import { SolanaProvider } from \'../solana/wallet\';\<newline>\<newline>''))
    = Some (Some ''<Component {...pageProps} currency={\'$\'} />''))
   \<and> (updatePagesRouterEntryPoint ''function MyApp({ Component, pageProps }) {\<newline>  return (<Component {...pageProps} currency={\'$\'} />)\<newline>}''
    = ([LogSuccess ''Added SolanaProvider''],
       Some ''import { SolanaProvider } from \'../solana/wallet\';\<newline>\<newline>function MyApp({ Component, pageProps }) {\<newline>  return (<SolanaProvider>\<newline>      <Component {...pageProps} currency={\'\<newline>}} />\<newline>    </SolanaProvider>)\<newline>}''))
   \<and> (\<not> includesStr ''import { SolanaProvider } from \'../solana/wallet\';\<newline>\<newline>function MyApp({ Component, pageProps }) {\<newline>  return (<SolanaProvider>\<newline>      <Component {...pageProps} currency={\'\<newline>}} />\<newline>    </SolanaProvider>)\<newline>}''
       ''<Component {...pageProps} currency={\'$\'} />'')
   \<and> (map_option (\<lambda>m. capture (addImport importPattern ''ReactDOM.render(<App price="$$" />, document.getElementById("root"));''
         ''\<newline>import { SolanaProvider } from \'./solana/wallet\';\<newline>''
         ''import { SolanaProvider } from \'./solana/wallet\';\<newline>\<newline>'') m 2)
      (regexMatch reactDomRenderPattern (addImport importPattern ''ReactDOM.render(<App price="$$" />, document.getElementById("root"));''
         ''\<newline>import { SolanaProvider } from \'./solana/wallet\';\<newline>''
         ''import { SolanaProvider } from \'./solana/wallet\';\<newline>\<newline>''))
    = Some (Some ''App price="$$"''))
   \<and> (updateEntryPoint ''ReactDOM.render(<App price="$$" />, document.getElementById("root"));''
    = ([LogSuccess ''Added SolanaProvider''],
       Some ''import { SolanaProvider } from \'./solana/wallet\';\<newline>\<newline>ReactDOM.render(<<SolanaProvider>\<newline>  App price="$"\<newline></SolanaProvider> />, document.getElementById("root"));''))
   \<and> (\<not> includesStr ''import { SolanaProvider } from \'./solana/wallet\';\<newline>\<newline>ReactDOM.render(<<SolanaProvider>\<newline>  App price="$"\<newline></SolanaProvider> />, document.getElementById("root"));''
       ''App price="$$"'')
   \<and> (map_option (\<lambda>m. capture (addImport importPattern ''export default function RootLayout({ children }) {\<newline>  return (<html><body><b>{\'$\'}</b>{children}</body></html>)\<newline>}''
         (importAfter walletNames) (importAtStart walletNames)) m 2)
      (regexMatch bodyPattern (addImport importPattern ''export default function RootLayout({ children }) {\<newline>  return (<html><body><b>{\'$\'}</b>{children}</body></html>)\<newline>}''
         (importAfter walletNames) (importAtStart walletNames)))
    = Some (Some ''<b>{\'$\'}</b>''))
   \<and> (updateAppRouterEntryPoint rt (JObj [(''config'', JObj [(''useAppKit'', JBool False)])])
      ''export default function RootLayout({ children }) {\<newline>  return (<html><body><b>{\'$\'}</b>{children}</body></html>)\<newline>}''
    = ([LogSuccess ''Added ClientWalletProvider''],
       Some ''// Import Solana wallet provider\<newline>import { ClientWalletProvider } from \'../solana/wallet\';\<newline>\<newline>export default function RootLayout({ children }) {\<newline>  return (<html><body><b>{\'</html>)\<newline>}}</b><ClientWalletProvider>{children}</ClientWalletProvider></body></html>)\<newline>}''))
   \<and> (\<not> includesStr ''// Import Solana wallet provider\<newline>import { ClientWalletProvider } from \'../solana/wallet\';\<newline>\<newline>export default function RootLayout({ children }) {\<newline>  return (<html><body><b>{\'</html>)\<newline>}}</b><ClientWalletProvider>{children}</ClientWalletProvider></body></html>)\<newline>}''
       ''<b>{\'$\'}</b>'')\<close>
  by (intro conjI)
    (rule pages_dollar_capture pages_dollar_written pages_dollar_lost react_dollar_capture react_dollar_written react_dollar_lost layout_dollar_capture layout_dollar_written layout_dollar_lost)+

end
